theory Spec2Isabelle
  imports Complex_Main "HOL-Library.Log_Nat"
begin

section \<open>Numbers\<close>

text \<open>
  The script computes with JavaScript Number values, the numbers of binary64 arithmetic.
  A finite value is kept as the rational it denotes (\<open>Finite 0\<close> is \<open>+0\<close>); the other
  values of the type are \<open>-0\<close>, the two infinities (\<open>Infinity True\<close> is \<open>-Infinity\<close>) and
  \<open>NaN\<close>.
\<close>

datatype number = Finite rat | NegZero | Infinity bool | NaN

text \<open>The sign bit, the rational value of a finite number, and the zero of a given sign.\<close>

fun negative :: "number \<Rightarrow> bool" where
  "negative (Finite q) = (q < 0)"
| "negative NegZero = True"
| "negative (Infinity n) = n"
| "negative NaN = False"

fun magnitude :: "number \<Rightarrow> rat" where
  "magnitude (Finite q) = q"
| "magnitude NegZero = 0"
| "magnitude (Infinity n) = 0"
| "magnitude NaN = 0"

fun is_infinite :: "number \<Rightarrow> bool" where
  "is_infinite (Infinity n) = True"
| "is_infinite x = False"

definition zero :: "bool \<Rightarrow> number" where
  "zero neg = (if neg then NegZero else Finite 0)"

text \<open>
  The result of an arithmetic operation is the exact result rounded to the nearest
  binary64 number, a tie going to the even significand. \<open>round_half_even\<close> rounds a
  rational to an integer in this way. \<open>exponent x\<close> is the \<open>e\<close> with
  \<open>2 ^ e \<le> \<bar>x\<bar> < 2 ^ (e + 1)\<close>, computed from the bit lengths of the numerator and the
  denominator of \<open>x\<close> (\<open>floorlog 2 n\<close> is the number of bits of \<open>n\<close>). \<open>quantum x\<close> is the
  distance of the binary64 numbers around \<open>x\<close>: the significand has 53 bits, and below
  \<open>2 ^ - 1022\<close> the distance stays \<open>2 ^ - 1074\<close> (gradual underflow). \<open>binary64 x\<close> is the
  multiple of the quantum nearest to \<open>x\<close>; it is an infinity when that multiple reaches
  \<open>2 ^ 1024\<close>, and a zero with the sign of \<open>x\<close> when it is zero.
\<close>

definition round_half_even :: "rat \<Rightarrow> int" where
  "round_half_even x =
     (if x - of_int \<lfloor>x\<rfloor> < 1 / 2 then \<lfloor>x\<rfloor>
      else if 1 / 2 < x - of_int \<lfloor>x\<rfloor> then \<lfloor>x\<rfloor> + 1
      else if even \<lfloor>x\<rfloor> then \<lfloor>x\<rfloor> else \<lfloor>x\<rfloor> + 1)"

definition exponent :: "rat \<Rightarrow> int" where
  "exponent x =
     (case quotient_of \<bar>x\<bar> of (a, b) \<Rightarrow>
        (if 2 powi (int (floorlog 2 (nat a)) - int (floorlog 2 (nat b))) \<le> \<bar>x\<bar>
         then int (floorlog 2 (nat a)) - int (floorlog 2 (nat b))
         else int (floorlog 2 (nat a)) - int (floorlog 2 (nat b)) - 1))"

definition quantum :: "rat \<Rightarrow> rat" where
  "quantum x = 2 powi (max (exponent x) (- 1022) - 52)"

definition binary64 :: "rat \<Rightarrow> number" where
  "binary64 x =
     (if 2 ^ 1024 \<le> \<bar>of_int (round_half_even (x / quantum x)) * quantum x\<bar>
      then Infinity (x < 0)
      else if round_half_even (x / quantum x) = 0 then zero (x < 0)
      else Finite (of_int (round_half_even (x / quantum x)) * quantum x))"

text \<open>\<open>x / y\<close> on numbers.\<close>

definition js_div :: "number \<Rightarrow> number \<Rightarrow> number" where
  "js_div x y =
     (if x = NaN \<or> y = NaN then NaN
      else if is_infinite x then
        (if is_infinite y then NaN else Infinity (negative x \<noteq> negative y))
      else if is_infinite y then zero (negative x \<noteq> negative y)
      else if magnitude y = 0 then
        (if magnitude x = 0 then NaN else Infinity (negative x \<noteq> negative y))
      else if magnitude x = 0 then zero (negative x \<noteq> negative y)
      else binary64 (magnitude x / magnitude y))"

text \<open>\<open>x - y\<close> on numbers. A zero difference is \<open>+0\<close>, except \<open>-0 - +0\<close>.\<close>

definition js_sub :: "number \<Rightarrow> number \<Rightarrow> number" where
  "js_sub x y =
     (if x = NaN \<or> y = NaN then NaN
      else if is_infinite x then
        (if is_infinite y \<and> negative x = negative y then NaN else x)
      else if is_infinite y then Infinity (\<not> negative y)
      else if magnitude x - magnitude y = 0 then
        (if x = NegZero \<and> y = Finite 0 then NegZero else Finite 0)
      else binary64 (magnitude x - magnitude y))"

text \<open>\<open>Math.ceil\<close>: a value strictly between \<open>-1\<close> and \<open>0\<close> becomes \<open>-0\<close>.\<close>

fun Math_ceil :: "number \<Rightarrow> number" where
  "Math_ceil (Finite q) =
     (if - 1 < q \<and> q < 0 then NegZero else Finite (of_int \<lceil>q\<rceil>))"
| "Math_ceil NegZero = NegZero"
| "Math_ceil (Infinity n) = Infinity n"
| "Math_ceil NaN = NaN"

text \<open>\<open>x < y\<close> on numbers: false when either side is \<open>NaN\<close>; \<open>-0\<close> and \<open>+0\<close> are equal.\<close>

definition js_lt :: "number \<Rightarrow> number \<Rightarrow> bool" where
  "js_lt x y =
     (x \<noteq> NaN \<and> y \<noteq> NaN \<and>
      (case x of
         Infinity a \<Rightarrow> a \<and> y \<noteq> Infinity True
       | _ \<Rightarrow> (case y of Infinity b \<Rightarrow> \<not> b | _ \<Rightarrow> magnitude x < magnitude y)))"

text \<open>
  A variable that was never assigned is \<open>undefined\<close> (\<open>None\<close>); in arithmetic it
  converts to \<open>NaN\<close>.
\<close>

fun to_number :: "number option \<Rightarrow> number" where
  "to_number None = NaN"
| "to_number (Some n) = n"

text \<open>The rational a number stands for, when it stands for one (\<open>-0\<close> is zero).\<close>

fun number_value :: "number \<Rightarrow> rat option" where
  "number_value (Finite q) = Some q"
| "number_value NegZero = Some 0"
| "number_value (Infinity n) = None"
| "number_value NaN = None"

section \<open>Errors\<close>

text \<open>
  The exceptions of the script: the \<open>Error\<close> it throws itself on a response that is not
  successful (\<open>Failed what status\<close> stands for the message
  \<open>Failed to fetch <what>: <status>\<close>), the \<open>TypeError\<close> of a property read on
  \<open>undefined\<close> or \<open>null\<close>, the \<open>SyntaxError\<close> of \<open>JSON.parse\<close> and of
  \<open>response.json()\<close>, and the rejection of \<open>fetch\<close> when the network fails.
\<close>

datatype error = Failed string nat | TypeError | SyntaxError | NetworkFailure

section \<open>Leaderboard entries and the requirement calculation\<close>

text \<open>
  A leaderboard entry after the projection of the entry point has the two properties
  \<open>played\<close> and \<open>points\<close>. An entry of the remote list has these and more (any record
  that extends \<open>entry\<close>); the calculation adds \<open>dailyMemberRaces\<close> to the object.
\<close>

record entry =
  played :: number
  points :: number

record requirement = entry +
  dailyMemberRaces :: number

text \<open>\<open>xs[i]\<close> on an array: \<open>undefined\<close> out of range.\<close>

definition index :: "'a list \<Rightarrow> nat \<Rightarrow> 'a option" where
  "index xs i = (if i < length xs then Some (xs ! i) else None)"

text \<open>
  The object literal of \<open>weeklyTopInfo\<close> and \<open>seasonTopInfo\<close>, as the list of its entries
  in insertion order (the order of \<open>Object.entries\<close>). Reading an element of a variable
  that is \<open>undefined\<close> throws.
\<close>

definition topInfo :: "entry list option \<Rightarrow> error + (string \<times> entry option) list" where
  "topInfo leaderBoardInfo =
     (case leaderBoardInfo of
        None \<Rightarrow> Inl TypeError
      | Some xs \<Rightarrow> Inr
          [(''top1'', index xs 0),
           (''top3'', index xs 2),
           (''top10'', index xs 9),
           (''top50'', index xs 49),
           (''top100'', index xs 99)])"

text \<open>
  The two loops over \<open>Object.entries\<close>. Each round reads \<open>value.played\<close>, which throws
  when the value is \<open>undefined\<close>, and stores the result in the same object.
\<close>

definition weeklyDaily :: "number option \<Rightarrow> entry \<Rightarrow> number" where
  "weeklyDaily memberCount v =
     Math_ceil (js_div (js_div (played v) (Finite 7)) (to_number memberCount))"

definition seasonDaily :: "number option \<Rightarrow> number option \<Rightarrow> entry \<Rightarrow> number" where
  "seasonDaily memberCount seasonRaces v =
     Math_ceil (js_div (js_sub (played v) (to_number seasonRaces)) (to_number memberCount))"

fun assignDaily ::
  "(entry \<Rightarrow> number) \<Rightarrow> (string \<times> entry option) list \<Rightarrow> error + (string \<times> requirement) list"
where
  "assignDaily f [] = Inr []"
| "assignDaily f ((key, None) # rest) = Inl TypeError"
| "assignDaily f ((key, Some v) # rest) =
     (case assignDaily f rest of
        Inl e \<Rightarrow> Inl e
      | Inr done \<Rightarrow>
          Inr ((key, \<lparr>played = played v, points = points v, dailyMemberRaces = f v\<rparr>) # done))"

text \<open>
  Lines 225 to 252 of the entry point: both objects are built, then the weekly loop
  runs, then the season loop.
\<close>

definition topRequirements ::
  "entry list option \<Rightarrow> entry list option \<Rightarrow> number option \<Rightarrow> number option \<Rightarrow>
   error + ((string \<times> requirement) list \<times> (string \<times> requirement) list)"
where
  "topRequirements weeklyLeaderBoardInfo seasonLeaderBoardInfo memberCount seasonRaces =
     (case topInfo weeklyLeaderBoardInfo of
        Inl e \<Rightarrow> Inl e
      | Inr weeklyTopInfo \<Rightarrow>
     (case topInfo seasonLeaderBoardInfo of
        Inl e \<Rightarrow> Inl e
      | Inr seasonTopInfo \<Rightarrow>
     (case assignDaily (weeklyDaily memberCount) weeklyTopInfo of
        Inl e \<Rightarrow> Inl e
      | Inr weekly \<Rightarrow>
     (case assignDaily (seasonDaily memberCount seasonRaces) seasonTopInfo of
        Inl e \<Rightarrow> Inl e
      | Inr season \<Rightarrow> Inr (weekly, season)))))"

text \<open>
  What the calculation is to give, in the words of the specification: each of the five
  milestones (rank 1, 3, 10, 50 and 100) takes \<open>played\<close> and \<open>points\<close> from the entry at
  its index (0, 2, 9, 49 and 99), and \<open>dailyMemberRaces\<close> is the number \<open>daily i\<close> that
  the formula of the mode gives for the entry at index \<open>i\<close>.
\<close>

definition milestones :: "(string \<times> nat) list" where
  "milestones = [(''top1'', 0), (''top3'', 2), (''top10'', 9), (''top50'', 49), (''top100'', 99)]"

definition expected :: "(nat \<Rightarrow> number) \<Rightarrow> entry list \<Rightarrow> (string \<times> requirement) list" where
  "expected daily xs =
     map (\<lambda>(key, i).
           (key, \<lparr>played = played (xs ! i), points = points (xs ! i),
                  dailyMemberRaces = daily i\<rparr>)) milestones"

section \<open>The widget\<close>

text \<open>
  The part of the inserted subtree that the click handlers read and write: the class
  lists of the two buttons, the table body (the element with class
  \<open>table-body--leaderboard--requirements\<close>, found by \<open>document.querySelector\<close>) and
  the span of the table footer. A row of the body is the text of its four cells.
  \<open>toLocaleString\<close> depends on the locale of the browser and is a parameter.
\<close>

record row =
  place :: string
  races :: string
  experience :: string
  daily :: string

text \<open>
  The two footnotes: \<open>* Calculated for ${memberCount} members.\<close> and
  \<open>* Calculated for ${memberCount} members and ${seasonRaces} season races.\<close>
\<close>

datatype footnote =
    Members "number option"
  | MembersAndSeason "number option" "number option"

record widget =
  weeklyButton :: "string list"
  seasonButton :: "string list"
  tableBody :: "row list option"
  tableFooterSpan :: "footnote option"

text \<open>The variables of the entry point that the handlers close over.\<close>

record scope =
  weeklyTopInfo :: "(string \<times> requirement) list"
  seasonTopInfo :: "(string \<times> requirement) list"
  memberCount :: "number option"
  seasonRaces :: "number option"

text \<open>\<open>s.replace(pat, rep)\<close> with a string pattern: the first occurrence only.\<close>

fun replace_first :: "string \<Rightarrow> string \<Rightarrow> string \<Rightarrow> string" where
  "replace_first pat rep [] = (if pat = [] then rep else [])"
| "replace_first pat rep (c # cs) =
     (if take (length pat) (c # cs) = pat then rep @ drop (length pat) (c # cs)
      else c # replace_first pat rep cs)"

definition createTopTeamRequirementsTableBody ::
  "(number \<Rightarrow> string) \<Rightarrow> (string \<times> requirement) list \<Rightarrow> row list" where
  "createTopTeamRequirementsTableBody toLocaleString info =
     map (\<lambda>(key, v).
           \<lparr>place = replace_first ''top'' [] key,
            races = toLocaleString (played v),
            experience = toLocaleString (points v),
            daily = toLocaleString (dailyMemberRaces v)\<rparr>) info"

text \<open>\<open>classList.toggle\<close>: the token is removed when present, appended otherwise.\<close>

definition toggle :: "string \<Rightarrow> string list \<Rightarrow> string list" where
  "toggle c cs = (if c \<in> set cs then removeAll c cs else cs @ [c])"

definition createTopTeamRequirementsWidget ::
  "(number \<Rightarrow> string) \<Rightarrow> scope \<Rightarrow> (string \<times> requirement) list \<Rightarrow> widget" where
  "createTopTeamRequirementsWidget toLocaleString sc info =
     \<lparr>weeklyButton = [''link'', ''link--s'', ''link--i''],
      seasonButton = [''link'', ''link--s'', ''link--h''],
      tableBody = Some (createTopTeamRequirementsTableBody toLocaleString info),
      tableFooterSpan = Some (Members (memberCount sc))\<rparr>"

text \<open>The click listener of the season button (lines 357 to 386).\<close>

definition clickSeason :: "(number \<Rightarrow> string) \<Rightarrow> scope \<Rightarrow> widget \<Rightarrow> widget" where
  "clickSeason toLocaleString sc wd =
     wd\<lparr>seasonButton := toggle ''link--i'' (toggle ''link--h'' (seasonButton wd)),
        weeklyButton := toggle ''link--i'' (toggle ''link--h'' (weeklyButton wd)),
        tableBody :=
          (case tableBody wd of
             None \<Rightarrow> None
           | Some old \<Rightarrow>
               Some (createTopTeamRequirementsTableBody toLocaleString (seasonTopInfo sc))),
        tableFooterSpan :=
          (case tableFooterSpan wd of
             None \<Rightarrow> None
           | Some old \<Rightarrow> Some (MembersAndSeason (memberCount sc) (seasonRaces sc)))\<rparr>"

text \<open>The click listener of the weekly button (lines 388 to 418).\<close>

definition clickWeekly :: "(number \<Rightarrow> string) \<Rightarrow> scope \<Rightarrow> widget \<Rightarrow> widget" where
  "clickWeekly toLocaleString sc wd =
     wd\<lparr>weeklyButton := toggle ''link--i'' (toggle ''link--h'' (weeklyButton wd)),
        seasonButton := toggle ''link--i'' (toggle ''link--h'' (seasonButton wd)),
        tableBody :=
          (case tableBody wd of
             None \<Rightarrow> None
           | Some old \<Rightarrow>
               Some (createTopTeamRequirementsTableBody toLocaleString (weeklyTopInfo sc))),
        tableFooterSpan :=
          (case tableFooterSpan wd of
             None \<Rightarrow> None
           | Some old \<Rightarrow> Some (Members (memberCount sc)))\<rparr>"

text \<open>
  The two controls, and a run of clicks on the widget that the entry point inserts
  (it is built from \<open>weeklyTopInfo\<close>).
\<close>

datatype mode = Weekly | Season

fun other :: "mode \<Rightarrow> mode" where
  "other Weekly = Season"
| "other Season = Weekly"

fun click :: "(number \<Rightarrow> string) \<Rightarrow> scope \<Rightarrow> mode \<Rightarrow> widget \<Rightarrow> widget" where
  "click toLocaleString sc Weekly wd = clickWeekly toLocaleString sc wd"
| "click toLocaleString sc Season wd = clickSeason toLocaleString sc wd"

fun clicks :: "(number \<Rightarrow> string) \<Rightarrow> scope \<Rightarrow> mode list \<Rightarrow> widget \<Rightarrow> widget" where
  "clicks toLocaleString sc [] wd = wd"
| "clicks toLocaleString sc (m # ms) wd =
     clicks toLocaleString sc ms (click toLocaleString sc m wd)"

definition inserted :: "(number \<Rightarrow> string) \<Rightarrow> scope \<Rightarrow> widget" where
  "inserted toLocaleString sc =
     createTopTeamRequirementsWidget toLocaleString sc (weeklyTopInfo sc)"

text \<open>
  What is on the screen: the data of a mode, the body rendered from it, and the look of a
  button (\<open>link--i\<close> marks the active control, \<open>link--h\<close> the other one).
\<close>

fun topInfoOf :: "scope \<Rightarrow> mode \<Rightarrow> (string \<times> requirement) list" where
  "topInfoOf sc Weekly = weeklyTopInfo sc"
| "topInfoOf sc Season = seasonTopInfo sc"

fun button :: "mode \<Rightarrow> widget \<Rightarrow> string list" where
  "button Weekly wd = weeklyButton wd"
| "button Season wd = seasonButton wd"

definition active :: "string list \<Rightarrow> bool" where
  "active cs = (''link--i'' \<in> set cs \<and> ''link--h'' \<notin> set cs)"

definition inactive :: "string list \<Rightarrow> bool" where
  "inactive cs = (''link--h'' \<in> set cs \<and> ''link--i'' \<notin> set cs)"

text \<open>
  The states of the widget that a run of clicks can reach: one button looks active and
  the other one does not, and the body is the rendering of one of the two modes.
\<close>

definition shown :: "(number \<Rightarrow> string) \<Rightarrow> scope \<Rightarrow> widget \<Rightarrow> bool" where
  "shown toLocaleString sc wd =
     ((active (weeklyButton wd) \<and> inactive (seasonButton wd) \<or>
       inactive (weeklyButton wd) \<and> active (seasonButton wd)) \<and>
      (tableBody wd = Some (createTopTeamRequirementsTableBody toLocaleString (weeklyTopInfo sc)) \<or>
       tableBody wd = Some (createTopTeamRequirementsTableBody toLocaleString (seasonTopInfo sc))))"

section \<open>Local storage, the network and the page\<close>

text \<open>
  A string in \<open>localStorage\<close> is either not JSON at all (\<open>JSON.parse\<close> throws a
  \<open>SyntaxError\<close>) or the JSON text of a value, which \<open>JSON.parse\<close> gives back; a key that
  is absent reads as \<open>null\<close>. The script keeps one cache entry under each of three keys:
  an object with the payload (property \<open>data\<close>, \<open>seasonLeaderboardInfo\<close> or
  \<open>weeklyLeaderboardInfo\<close>) and \<open>timestamp\<close>.
\<close>

datatype 'a item = NotJSON | JSON 'a

record 'p cached =
  payload :: 'p
  timestamp :: number

text \<open>
  The body of the team resource, as far as the script reads it: \<open>results.info.members\<close>,
  and \<open>results.stats\<close> as the list of its (\<open>board\<close>, \<open>played\<close>) pairs.
\<close>

record team =
  members :: number
  stats :: "(string \<times> number) list"

text \<open>
  Under \<open>persist:nt\<close> the page keeps JSON whose property \<open>user\<close> is again a JSON text;
  the script reads the property \<open>tag\<close> of the inner value (\<open>None\<close>: \<open>undefined\<close>).
\<close>

record 'x storage =
  teamStats :: "team cached item option"
  seasonLeaderboardInfo :: "'x entry_scheme list cached item option"
  weeklyLeaderboardInfo :: "'x entry_scheme list cached item option"
  persist_nt :: "string option item item option"

text \<open>
  The answer to a \<open>fetch\<close>: the promise rejects, or there is a response with \<open>ok\<close>,
  \<open>status\<close> and a body that \<open>response.json()\<close> parses (\<open>None\<close>: the body is not JSON).
\<close>

datatype 'b response = NoResponse | Response bool nat "'b option"

text \<open>
  One page load: the address, the two remote resources (by team tag, and by the query
  parameter \<open>time\<close>), the milliseconds a request takes, and whether the two anchors of the
  widget are (or come to be) in the page.
\<close>

record 'x page =
  href :: string
  teams_api :: "string \<Rightarrow> team response"
  leaderboards_api :: "string \<Rightarrow> 'x entry_scheme list response"
  latency :: nat
  tables_container :: bool
  leaderboard_table :: bool

text \<open>
  What the script can change: the clock reading \<open>Date.now()\<close>, the store, the requests
  sent so far, the lines written with \<open>console.error\<close> (a prefix and the error that is
  appended to it), the widget in the document, if any, and the variables that the click
  listeners of its two buttons close over. A write to the store is taken to succeed.
\<close>

record 'x world =
  now :: int
  localStorage :: "'x storage"
  requests :: "string list"
  console :: "(string \<times> error option) list"
  document :: "widget option"
  listeners :: "scope option"

section \<open>The three fetch operations\<close>

text \<open>
  The head of each operation: \<open>JSON.parse(localStorage.getItem(key))\<close> and the test
  \<open>x && Date.now() - x.timestamp < 20 * 60 * 1000\<close>. The result is the cached payload
  when the entry is less than 20 minutes old, \<open>None\<close> when the request has to be made.
\<close>

fun cached_payload :: "int \<Rightarrow> 'p cached item option \<Rightarrow> error + 'p option" where
  "cached_payload t None = Inr None"
| "cached_payload t (Some NotJSON) = Inl SyntaxError"
| "cached_payload t (Some (JSON c)) =
     Inr (if js_lt (js_sub (Finite (of_int t)) (timestamp c)) (Finite (20 * 60 * 1000))
          then Some (payload c) else None)"

text \<open>The \<open>catch\<close> block of each operation: the error is written to the console and thrown again.\<close>

fun logged :: "string \<Rightarrow> (error + 'a) \<times> 'x world \<Rightarrow> (error + 'a) \<times> 'x world" where
  "logged prefix (Inl e, w) = (Inl e, w\<lparr>console := console w @ [(prefix, Some e)]\<rparr>)"
| "logged prefix (Inr v, w) = (Inr v, w)"

text \<open>\<open>await fetch(url)\<close>: the request is sent and the clock moves on.\<close>

definition request :: "'x page \<Rightarrow> string \<Rightarrow> 'x world \<Rightarrow> 'x world" where
  "request pg url w = w\<lparr>requests := requests w @ [url], now := now w + int (latency pg)\<rparr>"

text \<open>A value in a template literal: \<open>undefined\<close> prints as its name.\<close>

fun template :: "string option \<Rightarrow> string" where
  "template None = ''undefined''"
| "template (Some s) = s"

definition fetchTeamStats ::
  "'x page \<Rightarrow> string option \<Rightarrow> 'x world \<Rightarrow> (error + team) \<times> 'x world" where
  "fetchTeamStats pg teamPageTag w =
     logged ''Error fetching team stats''
       (case cached_payload (now w) (teamStats (localStorage w)) of
          Inl e \<Rightarrow> (Inl e, w)
        | Inr (Some data) \<Rightarrow> (Inr data, w)
        | Inr None \<Rightarrow>
            (let w1 = request pg (''https://www.nitrotype.com/api/v2/teams/'' @ template teamPageTag) w
             in case teams_api pg (template teamPageTag) of
                  NoResponse \<Rightarrow> (Inl NetworkFailure, w1)
                | Response ok status body \<Rightarrow>
                    if \<not> ok then (Inl (Failed ''team stats'' status), w1)
                    else (case body of
                            None \<Rightarrow> (Inl SyntaxError, w1)
                          | Some data \<Rightarrow>
                              (Inr data,
                               w1\<lparr>localStorage := (localStorage w1)
                                    \<lparr>teamStats :=
                                       Some (JSON \<lparr>payload = data,
                                                   timestamp = Finite (of_int (now w1))\<rparr>)\<rparr>\<rparr>))))"

definition getSeasonLeaderBoardInfoStats ::
  "'x page \<Rightarrow> 'x world \<Rightarrow> (error + 'x entry_scheme list) \<times> 'x world" where
  "getSeasonLeaderBoardInfoStats pg w =
     logged ''Error fetching season leaderboard''
       (case cached_payload (now w) (seasonLeaderboardInfo (localStorage w)) of
          Inl e \<Rightarrow> (Inl e, w)
        | Inr (Some scores) \<Rightarrow> (Inr scores, w)
        | Inr None \<Rightarrow>
            (let w1 = request pg ''https://www.nitrotype.com/api/v2/leaderboards?time=season'' w
             in case leaderboards_api pg ''season'' of
                  NoResponse \<Rightarrow> (Inl NetworkFailure, w1)
                | Response ok status body \<Rightarrow>
                    if \<not> ok then (Inl (Failed ''season leaderboard'' status), w1)
                    else (case body of
                            None \<Rightarrow> (Inl SyntaxError, w1)
                          | Some scores \<Rightarrow>
                              (Inr scores,
                               w1\<lparr>localStorage := (localStorage w1)
                                    \<lparr>seasonLeaderboardInfo :=
                                       Some (JSON \<lparr>payload = scores,
                                                   timestamp = Finite (of_int (now w1))\<rparr>)\<rparr>\<rparr>))))"

text \<open>The weekly operation writes the same console prefix as the season one.\<close>

definition getWeeklyLeaderBoardInfoStats ::
  "'x page \<Rightarrow> 'x world \<Rightarrow> (error + 'x entry_scheme list) \<times> 'x world" where
  "getWeeklyLeaderBoardInfoStats pg w =
     logged ''Error fetching season leaderboard''
       (case cached_payload (now w) (weeklyLeaderboardInfo (localStorage w)) of
          Inl e \<Rightarrow> (Inl e, w)
        | Inr (Some scores) \<Rightarrow> (Inr scores, w)
        | Inr None \<Rightarrow>
            (let w1 = request pg ''https://www.nitrotype.com/api/v2/leaderboards?time=weekly'' w
             in case leaderboards_api pg ''weekly'' of
                  NoResponse \<Rightarrow> (Inl NetworkFailure, w1)
                | Response ok status body \<Rightarrow>
                    if \<not> ok then (Inl (Failed ''weekly leaderboard'' status), w1)
                    else (case body of
                            None \<Rightarrow> (Inl SyntaxError, w1)
                          | Some scores \<Rightarrow>
                              (Inr scores,
                               w1\<lparr>localStorage := (localStorage w1)
                                    \<lparr>weeklyLeaderboardInfo :=
                                       Some (JSON \<lparr>payload = scores,
                                                   timestamp = Finite (of_int (now w1))\<rparr>)\<rparr>\<rparr>))))"

section \<open>The entry point\<close>

text \<open>\<open>s.split("/")\<close>.\<close>

fun split :: "char \<Rightarrow> string \<Rightarrow> string list" where
  "split sep [] = [[]]"
| "split sep (c # cs) =
     (if c = sep then [] # split sep cs
      else (case split sep cs of
              [] \<Rightarrow> [[c]]
            | piece # pieces \<Rightarrow> (c # piece) # pieces))"

text \<open>
  \<open>JSON.parse(JSON.parse(localStorage.getItem("persist:nt")).user).tag\<close>: the absent key
  parses to \<open>null\<close>, whose property read throws.
\<close>

fun userTeamTAG :: "string option item item option \<Rightarrow> error + string option" where
  "userTeamTAG None = Inl TypeError"
| "userTeamTAG (Some NotJSON) = Inl SyntaxError"
| "userTeamTAG (Some (JSON NotJSON)) = Inl SyntaxError"
| "userTeamTAG (Some (JSON (JSON user_tag))) = Inr user_tag"

text \<open>The first \<open>try\<close> block (lines 196 to 204): \<open>memberCount\<close> and \<open>seasonRaces\<close>.\<close>

definition retrieveTeamStats ::
  "'x page \<Rightarrow> string option \<Rightarrow> 'x world \<Rightarrow> number option \<times> number option \<times> 'x world" where
  "retrieveTeamStats pg teamPageTag w =
     (case fetchTeamStats pg teamPageTag w of
        (Inl e, w1) \<Rightarrow>
          (None, None, w1\<lparr>console := console w1 @ [(''Error retrieving team stats'', Some e)]\<rparr>)
      | (Inr results, w1) \<Rightarrow>
          (Some (members results),
           map_option snd (find (\<lambda>stat. fst stat = ''season'') (stats results)),
           w1))"

text \<open>The arrow function \<open>({ played, points }) => ({ played, points })\<close>.\<close>

definition projection :: "'x entry_scheme \<Rightarrow> entry" where
  "projection score = \<lparr>played = played score, points = points score\<rparr>"

text \<open>
  The second \<open>try\<close> block (lines 207 to 222): \<open>weeklyLeaderBoardInfo\<close> and
  \<open>seasonLeaderBoardInfo\<close>. The season leaderboard is asked for only after the weekly
  one has arrived and has been projected.
\<close>

definition retrieveLeaderboards ::
  "'x page \<Rightarrow> 'x world \<Rightarrow> entry list option \<times> entry list option \<times> 'x world" where
  "retrieveLeaderboards pg w =
     (case getWeeklyLeaderBoardInfoStats pg w of
        (Inl e, w1) \<Rightarrow>
          (None, None,
           w1\<lparr>console := console w1 @ [(''Error retrieving leaderboard info'', Some e)]\<rparr>)
      | (Inr weekly, w1) \<Rightarrow>
          (case getSeasonLeaderBoardInfoStats pg w1 of
             (Inl e, w2) \<Rightarrow>
               (Some (map projection weekly), None,
                w2\<lparr>console := console w2 @ [(''Error retrieving leaderboard info'', Some e)]\<rparr>)
           | (Inr season, w2) \<Rightarrow>
               (Some (map projection weekly), Some (map projection season), w2)))"

text \<open>
  How the asynchronous function ends: it returns, it rejects with an error that nobody
  catches, or it waits for ever (\<open>waitForElm\<close> resolves only when the element exists).
\<close>

datatype outcome = Returned | Rejected error | Pending

definition main ::
  "(number \<Rightarrow> string) \<Rightarrow> 'x page \<Rightarrow> 'x world \<Rightarrow> outcome \<times> 'x world" where
  "main toLocaleString pg w =
     (let teamPageTag = index (split CHR ''/'' (href pg)) 4
      in case userTeamTAG (persist_nt (localStorage w)) of
           Inl e \<Rightarrow> (Rejected e, w)
         | Inr user_tag \<Rightarrow>
             if user_tag \<noteq> teamPageTag then (Returned, w)
             else
               (case retrieveTeamStats pg teamPageTag w of
                  (members_count, season_races, w1) \<Rightarrow>
               (case retrieveLeaderboards pg w1 of
                  (weekly, season, w2) \<Rightarrow>
               (case topRequirements weekly season members_count season_races of
                  Inl e \<Rightarrow> (Rejected e, w2)
                | Inr (weeklyInfo, seasonInfo) \<Rightarrow>
                    if \<not> tables_container pg then (Pending, w2)
                    else if leaderboard_table pg then
                      (Returned,
                       w2\<lparr>document :=
                            Some (createTopTeamRequirementsWidget toLocaleString
                                    \<lparr>weeklyTopInfo = weeklyInfo, seasonTopInfo = seasonInfo,
                                     memberCount = members_count, seasonRaces = season_races\<rparr>
                                    weeklyInfo),
                          listeners :=
                            Some \<lparr>weeklyTopInfo = weeklyInfo, seasonTopInfo = seasonInfo,
                                  memberCount = members_count, seasonRaces = season_races\<rparr>\<rparr>)
                    else
                      (Returned,
                       w2\<lparr>console := console w2 @
                            [(''Could not find the container div or leaderboard table div.'',
                              None)]\<rparr>)))))"

section \<open>Example data\<close>

text \<open>
  A page load on which the theorems below are run: a remote leaderboard of 100 entries
  (one more property, \<open>teamName\<close>, stands for the properties that the script does not
  read), a team of 10 members with 3000 season races, requests that take 150 ms, and a
  store that holds only the session of the page.
\<close>

record score = entry +
  teamName :: string

definition example_scores :: "score list" where
  "example_scores =
     \<lparr>played = Finite 700, points = Finite 50000, teamName = ''First''\<rparr> #
     replicate 99 \<lparr>played = Finite 701, points = Finite 49000, teamName = ''Other''\<rparr>"

definition example_team :: team where
  "example_team = \<lparr>members = Finite 10, stats = [(''weekly'', Finite 120), (''season'', Finite 3000)]\<rparr>"

definition example_page :: "unit score_ext page" where
  "example_page =
     \<lparr>href = ''https://www.nitrotype.com/team/ABC'',
      teams_api = (\<lambda>team_tag. Response True 200 (Some example_team)),
      leaderboards_api = (\<lambda>period. Response True 200 (Some example_scores)),
      latency = 150,
      tables_container = True,
      leaderboard_table = True\<rparr>"

definition example_world :: "unit score_ext world" where
  "example_world =
     \<lparr>now = 1700000000000,
      localStorage =
        \<lparr>teamStats = None, seasonLeaderboardInfo = None, weeklyLeaderboardInfo = None,
         persist_nt = Some (JSON (JSON (Some ''ABC'')))\<rparr>,
      requests = [],
      console = [],
      document = None,
      listeners = None\<rparr>"

text \<open>
  A second page load, for season mode: a team of 25 members with 3000 season races, and
  a leaderboard with 5000 races at rank 1, 2990 at the ranks 2 to 99 and 1010 at rank 100.
\<close>

definition example_season_scores :: "score list" where
  "example_season_scores =
     \<lparr>played = Finite 5000, points = Finite 900000, teamName = ''First''\<rparr> #
     replicate 98 \<lparr>played = Finite 2990, points = Finite 49000, teamName = ''Other''\<rparr> @
     [\<lparr>played = Finite 1010, points = Finite 20000, teamName = ''Last''\<rparr>]"

definition example_season_page :: "unit score_ext page" where
  "example_season_page =
     example_page
       \<lparr>teams_api := (\<lambda>team_tag.
          Response True 200 (Some \<lparr>members = Finite 25, stats = [(''season'', Finite 3000)]\<rparr>)),
        leaderboards_api := (\<lambda>period. Response True 200 (Some example_season_scores))\<rparr>"

text \<open>
  The store after the three operations have written their entries at 1700000000150, read
  \<open>elapsed\<close> milliseconds later by another page load.
\<close>

definition example_later :: "int \<Rightarrow> unit score_ext world" where
  "example_later elapsed =
     example_world
       \<lparr>now := 1700000000150 + elapsed,
        localStorage :=
          \<lparr>teamStats =
             Some (JSON \<lparr>payload = example_team, timestamp = Finite 1700000000150\<rparr>),
           seasonLeaderboardInfo =
             Some (JSON \<lparr>payload = example_scores, timestamp = Finite 1700000000150\<rparr>),
           weeklyLeaderboardInfo =
             Some (JSON \<lparr>payload = example_scores, timestamp = Finite 1700000000150\<rparr>),
           persist_nt = Some (JSON (JSON (Some ''ABC'')))\<rparr>\<rparr>"

text \<open>
  A scope with one milestone per mode, and the few numbers of the examples as
  \<open>toLocaleString\<close> prints them for \<open>en-US\<close>.
\<close>

definition example_toLocaleString :: "number \<Rightarrow> string" where
  "example_toLocaleString n =
     (if n = Finite 700 then ''700''
      else if n = Finite 5000 then ''5,000''
      else if n = Finite 50000 then ''50,000''
      else if n = Finite 900000 then ''900,000''
      else if n = Finite 10 then ''10''
      else if n = Finite 200 then ''200''
      else ''?'')"

definition example_scope :: scope where
  "example_scope =
     \<lparr>weeklyTopInfo =
        [(''top1'', \<lparr>played = Finite 700, points = Finite 50000, dailyMemberRaces = Finite 10\<rparr>)],
      seasonTopInfo =
        [(''top1'', \<lparr>played = Finite 5000, points = Finite 900000, dailyMemberRaces = Finite 200\<rparr>)],
      memberCount = Some (Finite 10),
      seasonRaces = Some (Finite 3000)\<rparr>"

section \<open>Rounding to binary64\<close>

text \<open>
  \<open>round_half_even\<close> leaves an integer as it is and moves a rational by at most one half;
  \<open>exponent x\<close> is the one \<open>e\<close> with \<open>2 ^ e \<le> \<bar>x\<bar> < 2 ^ (e + 1)\<close>.
\<close>

lemma round_half_even_of_int: "round_half_even (of_int n) = n"
  by (simp add: round_half_even_def)

lemma round_half_even_near: "\<bar>of_int (round_half_even x) - x\<bar> \<le> 1 / 2"
proof -
  have "of_int \<lfloor>x\<rfloor> \<le> x" and "x < of_int \<lfloor>x\<rfloor> + 1"
    by linarith+
  then show ?thesis
    unfolding round_half_even_def by (auto simp add: abs_le_iff) 
qed

lemma bit_length_bounds:
  fixes a :: int
  assumes "0 < a"
  shows "(2::rat) ^ (floorlog 2 (nat a) - 1) \<le> of_int a"
    and "(of_int a :: rat) < 2 ^ floorlog 2 (nat a)"
    and "0 < floorlog 2 (nat a)"
proof -
  have pos: "0 < nat a"
    using assms by simp
  from floorlog_bounds [OF pos, of 2]
  have lo: "2 ^ (floorlog 2 (nat a) - 1) \<le> nat a" and hi: "nat a < 2 ^ floorlog 2 (nat a)"
    by simp_all
  have "(of_nat (2 ^ (floorlog 2 (nat a) - 1)) :: rat) \<le> of_nat (nat a)"
    using lo by (simp only: of_nat_le_iff)
  then show "(2::rat) ^ (floorlog 2 (nat a) - 1) \<le> of_int a"
    using assms by simp
  have "(of_nat (nat a) :: rat) < of_nat (2 ^ floorlog 2 (nat a))"
    using hi by (simp only: of_nat_less_iff)
  then show "(of_int a :: rat) < 2 ^ floorlog 2 (nat a)"
    using assms by simp
  show "0 < floorlog 2 (nat a)"
    using pos by (simp add: floorlog_eq_zero_iff zero_less_iff_neq_zero)
qed

lemma exponent_bounds:
  assumes "x \<noteq> 0"
  shows "2 powi exponent x \<le> \<bar>x\<bar>" and "\<bar>x\<bar> < 2 powi (exponent x + 1)"
proof -
  obtain a b where q: "quotient_of \<bar>x\<bar> = (a, b)"
    by (cases "quotient_of \<bar>x\<bar>")
  have b: "0 < b"
    using q by (rule quotient_of_denom_pos)
  have x: "\<bar>x\<bar> = of_int a / of_int b"
    using q by (rule quotient_of_div)
  have "0 < \<bar>x\<bar>"
    using assms by simp
  then have a: "0 < a"
    using b unfolding x by (simp add: zero_less_divide_iff)
  define la where "la = floorlog 2 (nat a)"
  define lb where "lb = floorlog 2 (nat b)"
  define A :: rat where "A = of_int a"
  define B :: rat where "B = of_int b"
  have A: "2 ^ (la - 1) \<le> A" "A < 2 ^ la" "0 < la"
    using bit_length_bounds [OF a] by (simp_all add: la_def A_def)
  have B: "2 ^ (lb - 1) \<le> B" "B < 2 ^ lb" "0 < lb"
    using bit_length_bounds [OF b] by (simp_all add: lb_def B_def)
  have B0: "0 < B"
    using b by (simp add: B_def)
  have xAB: "\<bar>x\<bar> = A / B"
    by (simp add: x A_def B_def)
  have la1: "(2::rat) ^ la = 2 * 2 ^ (la - 1)" and lb1: "(2::rat) ^ lb = 2 * 2 ^ (lb - 1)"
    using A(3) B(3) by (simp_all flip: power_Suc)
  have e0: "(2::rat) powi (int la - int lb) = 2 ^ la / 2 ^ lb"
    by (simp add: power_int_diff)
  have upper: "\<bar>x\<bar> < 2 powi (int la - int lb + 1)"
  proof -
    have "A * 2 ^ lb < 2 ^ la * 2 ^ lb"
      using A(2) by simp
    also have "\<dots> = 2 ^ la * (2 * 2 ^ (lb - 1))"
      by (simp only: lb1)
    also have "\<dots> \<le> 2 ^ la * (2 * B)"
      using B(1) by (intro mult_left_mono) simp_all
    finally have "A * 2 ^ lb < 2 * 2 ^ la * B"
      by (simp add: mult_ac)
    then have "A / B < 2 * 2 ^ la / 2 ^ lb"
      using B0 by (simp add: field_simps)
    then show ?thesis
      by (simp add: xAB power_int_add e0 mult.commute)
  qed
  have lower: "2 powi (int la - int lb - 1) < \<bar>x\<bar>"
  proof -
    have "2 ^ (la - 1) * B < 2 ^ (la - 1) * 2 ^ lb"
      using B(2) by simp
    also have "\<dots> \<le> A * 2 ^ lb"
      using A(1) by (intro mult_right_mono) simp_all
    finally have "2 ^ (la - 1) / 2 ^ lb < A / B"
      using B0 by (simp add: field_simps)
    moreover have "(2::rat) powi (int la - int lb - 1) = 2 ^ (la - 1) / 2 ^ lb"
      by (simp add: power_int_diff e0 la1)
    ultimately show ?thesis
      by (simp only: xAB)
  qed
  have ex: "exponent x =
      (if 2 powi (int la - int lb) \<le> \<bar>x\<bar> then int la - int lb else int la - int lb - 1)"
    by (simp add: exponent_def q la_def lb_def)
  show "2 powi exponent x \<le> \<bar>x\<bar>"
    using lower by (simp add: ex)
  show "\<bar>x\<bar> < 2 powi (exponent x + 1)"
    using upper by (simp add: ex)
qed

lemma two_powi_less_iff: "((2::rat) powi a < 2 powi b) = (a < b)"
proof
  assume less: "(2::rat) powi a < 2 powi b"
  show "a < b"
  proof (rule ccontr)
    assume "\<not> a < b"
    then have "b \<le> a"
      by simp
    then have "(2::rat) powi b \<le> 2 powi a"
      by (rule power_int_increasing) simp
    then show False
      using less by simp
  qed
next
  assume "a < b"
  then show "(2::rat) powi a < 2 powi b"
    by (rule power_int_strict_increasing) simp
qed

lemma two_powi_le_iff: "((2::rat) powi a \<le> 2 powi b) = (a \<le> b)"
  using two_powi_less_iff [of b a] by (simp add: not_less [symmetric])

lemma exponent_unique:
  assumes "2 powi e \<le> \<bar>x\<bar>" and "\<bar>x\<bar> < 2 powi (e + 1)"
  shows "exponent x = e"
proof -
  have "(0::rat) < 2 powi e"
    by simp
  then have "0 < \<bar>x\<bar>"
    using assms(1) by linarith
  then have x: "x \<noteq> 0"
    by simp
  note b = exponent_bounds [OF x]
  have "(2::rat) powi e < 2 powi (exponent x + 1)"
    using assms(1) b(2) by linarith
  then have "e < exponent x + 1"
    by (simp only: two_powi_less_iff)
  moreover have "(2::rat) powi exponent x < 2 powi (e + 1)"
    using assms(2) b(1) by linarith
  then have "exponent x < e + 1"
    by (simp only: two_powi_less_iff)
  ultimately show ?thesis
    by linarith
qed


lemma quantum_pos: "0 < quantum x"
  by (simp add: quantum_def)

lemma binary64_of_int:
  assumes "\<bar>n\<bar> < 2 ^ 53"
  shows "binary64 (of_int n) = Finite (of_int n)"
proof (cases "n = 0")
  case True
  then show ?thesis
    by (simp add: binary64_def round_half_even_def zero_def)
next
  case False
  define e where "e = exponent (of_int n)"
  have n0: "(of_int n :: rat) \<noteq> 0"
    using False by simp
  note b = exponent_bounds [OF n0, folded e_def]
  have N: "\<bar>of_int n :: rat\<bar> < 2 ^ 53"
  proof -
    have "(of_int \<bar>n\<bar> :: rat) < of_int (2 ^ 53)"
      using assms by (simp only: of_int_less_iff)
    then show ?thesis
      by simp
  qed
  have "1 \<le> \<bar>n\<bar>"
    using False by linarith
  then have "(of_int 1 :: rat) \<le> of_int \<bar>n\<bar>"
    by (simp only: of_int_le_iff)
  then have N1: "1 \<le> \<bar>of_int n :: rat\<bar>"
    by simp
  have "(2::rat) powi e < 2 powi 53"
    using b(1) N by simp
  then have e52: "e \<le> 52"
    by (simp only: two_powi_less_iff)
  have "(2::rat) powi 0 < 2 powi (e + 1)"
    using b(2) N1 by simp
  then have e0: "0 \<le> e"
    by (simp only: two_powi_less_iff)
  define k where "k = nat (52 - e)"
  have q: "quantum (of_int n) = 1 / 2 ^ k"
  proof -
    have "max e (- 1022) - 52 = - int k"
      using e0 e52 by (simp add: k_def)
    then have "quantum (of_int n) = 2 powi (- int k)"
      by (simp add: quantum_def e_def)
    then show ?thesis
      by (simp add: power_int_minus_divide)
  qed
  have d: "(of_int n :: rat) / quantum (of_int n) = of_int (n * 2 ^ k)"
    by (simp add: q)
  have r: "round_half_even (of_int n / quantum (of_int n)) = n * 2 ^ k"
    unfolding d by (rule round_half_even_of_int)
  have y: "(of_int (n * 2 ^ k) :: rat) * quantum (of_int n) = of_int n"
    by (simp add: q)
  have big: "\<not> (2::rat) ^ 1024 \<le> \<bar>of_int n\<bar>"
  proof -
    have "(2::rat) ^ 53 \<le> 2 ^ 1024"
      by (rule power_increasing) simp_all
    then show ?thesis
      using N by linarith
  qed
  show ?thesis
    unfolding binary64_def r y using big False by simp
qed

text \<open>The relative error away from underflow.\<close>

lemma binary64_rounded:
  assumes "2 powi (- 1022) \<le> \<bar>x\<bar>"
  shows "\<bar>of_int (round_half_even (x / quantum x)) * quantum x - x\<bar> \<le> \<bar>x\<bar> / 2 ^ 53"
    and "binary64 x =
           (if 2 ^ 1024 \<le> \<bar>of_int (round_half_even (x / quantum x)) * quantum x\<bar>
            then Infinity (x < 0)
            else Finite (of_int (round_half_even (x / quantum x)) * quantum x))"
proof -
  define e where "e = exponent x"
  define q where "q = quantum x"
  define n where "n = round_half_even (x / q)"
  define y where "y = of_int n * q"
  have "(0::rat) < 2 powi (- 1022)"
    by simp
  then have xpos: "0 < \<bar>x\<bar>"
    using assms by linarith
  then have x0: "x \<noteq> 0"
    by simp
  note b = exponent_bounds [OF x0, folded e_def]
  have "(2::rat) powi (- 1022) < 2 powi (e + 1)"
    using assms b(2) by linarith
  then have "- 1022 < e + 1"
    by (simp only: two_powi_less_iff)
  then have q: "q = 2 powi (e - 52)"
    by (simp add: q_def quantum_def e_def max_def)
  have q0: "0 < q"
    by (simp add: q)
  have "q = 2 powi e / 2 ^ 52"
    by (simp add: q power_int_diff)
  also have "\<dots> \<le> \<bar>x\<bar> / 2 ^ 52"
    using b(1) by (simp add: divide_right_mono)
  finally have qx: "q / 2 \<le> \<bar>x\<bar> / 2 ^ 53"
    by simp
  have "\<bar>of_int n - x / q\<bar> \<le> 1 / 2"
    unfolding n_def by (rule round_half_even_near)
  then have "\<bar>of_int n - x / q\<bar> * q \<le> 1 / 2 * q"
    using q0 by (intro mult_right_mono) simp_all
  moreover have "\<bar>of_int n - x / q\<bar> * q = \<bar>y - x\<bar>"
  proof -
    have "\<bar>of_int n - x / q\<bar> * q = \<bar>(of_int n - x / q) * q\<bar>"
      using q0 by (simp add: abs_mult)
    also have "(of_int n - x / q) * q = y - x"
      using q0 by (simp add: y_def algebra_simps)
    finally show ?thesis .
  qed
  ultimately have near: "\<bar>y - x\<bar> \<le> \<bar>x\<bar> / 2 ^ 53"
    using qx by simp
  then show "\<bar>of_int (round_half_even (x / quantum x)) * quantum x - x\<bar> \<le> \<bar>x\<bar> / 2 ^ 53"
    by (simp add: y_def n_def q_def)
  have "\<bar>x\<bar> / 2 ^ 53 < \<bar>x\<bar>"
    using xpos by (simp add: divide_less_eq)
  then have "\<bar>y - x\<bar> < \<bar>x\<bar>"
    using near by linarith
  then have "y \<noteq> 0"
    by auto
  then have "n \<noteq> 0"
    by (auto simp add: y_def)
  then show "binary64 x =
           (if 2 ^ 1024 \<le> \<bar>of_int (round_half_even (x / quantum x)) * quantum x\<bar>
            then Infinity (x < 0)
            else Finite (of_int (round_half_even (x / quantum x)) * quantum x))"
    by (simp add: binary64_def n_def q_def)
qed

text \<open>The rounded value as a rational, for the range in which it is finite.\<close>

lemma binary64_finite:
  assumes "2 powi (- 1022) \<le> \<bar>x\<bar>" and "\<bar>x\<bar> \<le> 2 ^ 1023"
  shows "binary64 x = Finite (magnitude (binary64 x))"
    and "\<bar>magnitude (binary64 x) - x\<bar> \<le> \<bar>x\<bar> / 2 ^ 53"
proof -
  define y where "y = of_int (round_half_even (x / quantum x)) * quantum x"
  note r = binary64_rounded [OF assms(1), folded y_def]
  have "\<bar>x\<bar> / 2 ^ 53 \<le> 2 ^ 1023 / 2 ^ 53"
    using assms(2) by (simp add: divide_right_mono)
  then have "\<bar>y - x\<bar> \<le> 2 ^ 1023 / 2 ^ 53"
    using r(1) by linarith
  then have "\<bar>y\<bar> \<le> 2 ^ 1023 + 2 ^ 1023 / 2 ^ 53"
    using assms(2) by linarith
  moreover have "(2::rat) ^ 1023 + 2 ^ 1023 / 2 ^ 53 < 2 ^ 1024"
    by simp
  ultimately have "\<not> 2 ^ 1024 \<le> \<bar>y\<bar>"
    by linarith
  then have fin: "binary64 x = Finite y"
    using r(2) by simp
  then show "binary64 x = Finite (magnitude (binary64 x))"
    by simp
  show "\<bar>magnitude (binary64 x) - x\<bar> \<le> \<bar>x\<bar> / 2 ^ 53"
    using r(1) by (simp add: fin)
qed

text \<open>
  Between \<open>1 / 2 ^ 64\<close> and \<open>2 ^ 64\<close> a result is far from underflow and overflow: it is
  finite, and its relative error is at most \<open>1 / 2 ^ 53\<close>. An integer below \<open>2 ^ 53\<close> is
  a binary64 number.
\<close>

lemma binary64_magnitude_rounded:
  assumes "1 / 2 ^ 64 \<le> \<bar>x\<bar>" and "\<bar>x\<bar> \<le> 2 ^ 64"
  shows "binary64 x = Finite (magnitude (binary64 x))"
    and "\<bar>magnitude (binary64 x) - x\<bar> \<le> \<bar>x\<bar> / 2 ^ 53"
proof -
  have "(2::rat) powi (- 1022) \<le> 2 powi (- 64)"
    by (simp add: two_powi_le_iff)
  also have "(2::rat) powi (- 64) = 1 / 2 ^ 64"
    by (simp add: power_int_def inverse_eq_divide power_one_over del: power_int_minus)
  finally have lo: "2 powi (- 1022) \<le> \<bar>x\<bar>"
    using assms(1) by linarith
  have "(2::rat) ^ 64 \<le> 2 ^ 1023"
    by (rule power_increasing) simp_all
  then have hi: "\<bar>x\<bar> \<le> 2 ^ 1023"
    using assms(2) by linarith
  show "binary64 x = Finite (magnitude (binary64 x))"
    using lo hi by (rule binary64_finite(1))
  show "\<bar>magnitude (binary64 x) - x\<bar> \<le> \<bar>x\<bar> / 2 ^ 53"
    using lo hi by (rule binary64_finite(2))
qed

lemma binary64_magnitude_of_int:
  assumes "\<bar>n\<bar> < 2 ^ 53"
  shows "magnitude (binary64 (of_int n)) = of_int n"
  by (simp add: binary64_of_int [OF assms])

text \<open>
  How a result is evaluated: \<open>round_half_even x\<close> is the integer nearer than one half to
  \<open>x\<close>, and from \<open>2 ^ 52\<close> on the binary64 numbers between \<open>2 ^ (52 + j)\<close> and
  \<open>2 ^ (53 + j)\<close> are the multiples of \<open>2 ^ j\<close>.
\<close>

lemma binary64_eval:
  assumes "2 ^ (52 + j) \<le> \<bar>x\<bar>" and "\<bar>x\<bar> < 2 ^ (53 + j)"
    and "round_half_even (x / 2 ^ j) = k" and "k \<noteq> 0"
    and "\<bar>of_int k * 2 ^ j\<bar> < (2::rat) ^ 1024"
  shows "binary64 x = Finite (of_int k * 2 ^ j)"
proof -
  have "2 powi int (52 + j) \<le> \<bar>x\<bar>"
    using assms(1) by (simp only: power_int_of_nat)
  moreover have "int (52 + j) + 1 = int (53 + j)"
    by simp
  then have "\<bar>x\<bar> < 2 powi (int (52 + j) + 1)"
    using assms(2) by (simp only: power_int_of_nat)
  ultimately have "exponent x = int (52 + j)"
    by (rule exponent_unique)
  then have "quantum x = 2 powi int j"
    by (simp add: quantum_def)
  then have q: "quantum x = 2 ^ j"
    by (simp only: power_int_of_nat)
  show ?thesis
    using assms(4,5) by (simp add: binary64_def q assms(3))
qed

lemma round_half_even_eval:
  assumes "\<bar>x - of_int k\<bar> < 1 / 2"
  shows "round_half_even x = k"
proof -
  have "\<bar>of_int (round_half_even x) - x\<bar> \<le> 1 / 2"
    by (rule round_half_even_near)
  then have "\<bar>(of_int (round_half_even x) :: rat) - of_int k\<bar> < 1"
    using assms by linarith
  then have "\<bar>(of_int (round_half_even x - k) :: rat)\<bar> < of_int 1"
    by simp
  then have "\<bar>round_half_even x - k\<bar> < 1"
    by (simp only: of_int_abs [symmetric] of_int_less_iff)
  then show ?thesis
    by simp
qed

text \<open>
  The quotients of \<open>2 ^ 55 = 36028797018963968\<close> by 7 and by 3 are not binary64 numbers:
  the division gives the neighbour below.
\<close>

lemma seventh_of_2_55: "binary64 (36028797018963968 / 7) = Finite 5146971002709138"
proof -
  have "round_half_even ((36028797018963968 / 7) / 2 ^ 0) = 5146971002709138"
    by (rule round_half_even_eval) simp
  then have "binary64 (36028797018963968 / 7) = Finite (of_int 5146971002709138 * 2 ^ 0)"
    by (intro binary64_eval) simp_all
  then show ?thesis
    by simp
qed

lemma third_of_seventh: "binary64 1715657000903046 = Finite 1715657000903046"
proof -
  have "binary64 (of_int 1715657000903046) = Finite (of_int 1715657000903046)"
    by (rule binary64_of_int) simp
  then show ?thesis
    by simp
qed

lemma third_of_2_55: "binary64 (36028797018963968 / 3) = Finite 12009599006321322"
proof -
  have "round_half_even ((36028797018963968 / 3) / 2 ^ 1) = 6004799503160661"
    by (rule round_half_even_eval) simp
  then have "binary64 (36028797018963968 / 3) = Finite (of_int 6004799503160661 * 2 ^ 1)"
    by (intro binary64_eval) simp_all
  then show ?thesis
    by simp
qed

lemma binary64_2_55: "binary64 36028797018963968 = Finite 36028797018963968"
proof -
  have "round_half_even (36028797018963968 / 2 ^ 3) = 4503599627370496"
    by (rule round_half_even_eval) simp
  then have "binary64 36028797018963968 = Finite (of_int 4503599627370496 * 2 ^ 3)"
    by (intro binary64_eval) simp_all
  then show ?thesis
    by simp
qed

lemma ceilings_2_55:
  "\<lceil>(36028797018963968::rat) / 7 / 3\<rceil> = 1715657000903047"
  "\<lceil>(36028797018963968::rat) / 3\<rceil> = 12009599006321323"
  by (simp_all add: ceiling_eq_iff)

section \<open>Rounded quotients and the ceiling\<close>

text \<open>
  \<open>Math.ceil\<close> is applied to a quotient that was rounded, in weekly mode twice. Of the
  rounding \<open>rn\<close> the two lemmas use only what was shown of binary64 above: its relative
  error is at most \<open>1 / 2 ^ 53\<close> on values between \<open>1 / 2 ^ 64\<close> and \<open>2 ^ 64\<close>, and it
  leaves an integer below \<open>2 ^ 53\<close> as it is. With a member count below \<open>2 ^ 53\<close>,
  \<open>Math.ceil\<close> then gives on the rounded quotients what it gives on the exact ones: in
  weekly mode for race counts below \<open>2 ^ 51\<close>, in season mode for differences below
  \<open>2 ^ 53\<close>.
\<close>

lemma rounded_quotient_ceiling:
  fixes rn :: "rat \<Rightarrow> rat" and p m :: int
  assumes rel: "\<And>x. 1 / 2 ^ 64 \<le> \<bar>x\<bar> \<Longrightarrow> \<bar>x\<bar> \<le> 2 ^ 64 \<Longrightarrow> \<bar>rn x - x\<bar> \<le> \<bar>x\<bar> / 2 ^ 53"
    and exact: "\<And>n::int. \<bar>n\<bar> < 2 ^ 53 \<Longrightarrow> rn (of_int n) = of_int n"
    and p0: "0 \<le> p" and p51: "p < 2 ^ 51" and m: "0 < m" and m53: "m < 2 ^ 53"
  shows "Math_ceil (Finite (rn (rn (of_int p / 7) / of_int m))) =
         Math_ceil (Finite (of_int p / 7 / of_int m))"
proof (cases "p mod (7 * m) = 0")
  case True
  define k where "k = p div (7 * m)"
  have "p = 7 * m * k + p mod (7 * m)"
    by (simp add: k_def)
  then have p: "p = 7 * (m * k)"
    using True by (simp add: mult.assoc)
  have k0: "0 \<le> k"
    using p0 m by (simp add: k_def pos_imp_zdiv_nonneg_iff)
  have mk: "0 \<le> m * k" "m * k \<le> p"
    using k0 m p by simp_all
  have kp: "k \<le> m * k"
    using k0 m by (simp add: mult_le_cancel_right1)
  have a: "(of_int p :: rat) / 7 = of_int (m * k)"
    by (simp add: p)
  have y: "rn (of_int p / 7) = of_int (m * k)"
    unfolding a using mk p51 by (intro exact) simp
  have b: "(of_int (m * k) :: rat) / of_int m = of_int k"
    using m by simp
  have z: "rn (rn (of_int p / 7) / of_int m) = of_int k"
    unfolding y b using k0 kp mk p51 by (intro exact) simp
  have "(of_int p :: rat) / 7 / of_int m = of_int k"
    unfolding a b ..
  then show ?thesis
    by (simp only: z)
next
  case False
  define k where "k = p div (7 * m)"
  define r where "r = p mod (7 * m)"
  define U :: rat where "U = 1 / 2 ^ 53"
  define P :: rat where "P = of_int p"
  define M :: rat where "M = of_int m"
  define K :: rat where "K = of_int k"
  define t where "t = P / 7 / M"
  define y where "y = rn (P / 7)"
  define z where "z = rn (y / M)"
  have "0 \<le> r" and "r < 7 * m" and "r \<noteq> 0"
    using False m by (simp_all add: r_def)
  then have r1: "1 \<le> r" and r2: "r \<le> 7 * m - 1"
    by linarith+
  have pkr: "p = 7 * m * k + r"
    by (simp add: k_def r_def)
  have M0: "0 < M"
    using m by (simp add: M_def)
  have ppos: "0 < p"
    using False p0 by (cases "p = 0") simp_all
  have P0: "0 < P"
    using ppos by (simp add: P_def)
  have P51: "P < 2 ^ 51"
    using p51 unfolding P_def by (metis of_int_less_iff of_int_numeral of_int_power)
  have U0: "0 < U" "U < 1"
    by (simp_all add: U_def)
  have UP: "4 * (U * P) < 1"
  proof -
    have "4 * (U * P) = P / 2 ^ 51"
      by (simp add: U_def)
    also have "\<dots> < 1"
      using P51 by simp
    finally show ?thesis .
  qed
  have t0: "0 < t"
    using P0 M0 by (simp add: t_def)
  have tM: "t * (7 * M) = P"
    using M0 by (simp add: t_def)
  have PK: "P = 7 * M * K + of_int r"
    unfolding P_def M_def K_def by (subst pkr) simp
  have R1: "(1::rat) \<le> of_int r" and R2: "(of_int r :: rat) \<le> 7 * M - 1"
  proof -
    show "(1::rat) \<le> of_int r"
      using r1 by simp
    have "(of_int r :: rat) \<le> of_int (7 * m - 1)"
      using r2 by (simp only: of_int_le_iff)
    then show "(of_int r :: rat) \<le> 7 * M - 1"
      by (simp add: M_def)
  qed
  have near: "a * (1 - U) \<le> v \<and> v \<le> a * (1 + U)"
    if "\<bar>v - a\<bar> \<le> \<bar>a\<bar> / 2 ^ 53" and "0 < a" for a v :: rat
  proof -
    define c where "c = a * U"
    have "\<bar>v - a\<bar> \<le> c"
      using that by (simp add: U_def c_def)
    then have bounds: "v - a \<le> c" "- c \<le> v - a"
      by linarith+
    have e: "a * (1 - U) = a - c" "a * (1 + U) = a + c"
      by (simp_all add: c_def algebra_simps)
    show ?thesis
      unfolding e using bounds by linarith
  qed
  have P1: "1 \<le> P"
    using ppos by (simp add: P_def)
  have a0: "0 < P / 7"
    using P0 by simp
  have "1 / 2 ^ 64 \<le> \<bar>P / 7\<bar>" and "\<bar>P / 7\<bar> \<le> 2 ^ 64"
    using P1 P51 by simp_all
  then have "\<bar>rn (P / 7) - P / 7\<bar> \<le> \<bar>P / 7\<bar> / 2 ^ 53"
    by (rule rel)
  from near [OF this a0]
  have y1: "P / 7 * (1 - U) \<le> y" and y2: "y \<le> P / 7 * (1 + U)"
    by (simp_all add: y_def)
  have ypos: "0 < y"
  proof -
    have "0 < P / 7 * (1 - U)"
      using P0 U0 by simp
    then show ?thesis
      using y1 by linarith
  qed
  have M0': "0 \<le> M"
    using M0 by simp
  have b1: "t * (1 - U) \<le> y / M" and b2: "y / M \<le> t * (1 + U)"
  proof -
    have e: "t * (1 - U) = P / 7 * (1 - U) / M" "t * (1 + U) = P / 7 * (1 + U) / M"
      by (simp_all add: t_def)
    show "t * (1 - U) \<le> y / M"
      unfolding e using y1 M0' by (rule divide_right_mono)
    show "y / M \<le> t * (1 + U)"
      unfolding e using y2 M0' by (rule divide_right_mono)
  qed
  have bpos: "0 < y / M"
    using ypos M0 by simp
  have M1: "1 \<le> M" and M53: "M < 2 ^ 53"
  proof -
    show "1 \<le> M"
      using m by (simp add: M_def)
    have "(of_int m :: rat) < of_int (2 ^ 53)"
      using m53 by (simp only: of_int_less_iff)
    then show "M < 2 ^ 53"
      by (simp add: M_def)
  qed
  have ylow: "1 / 8 \<le> y"
  proof -
    have "1 / 7 * (1 - U) \<le> P / 7 * (1 - U)"
      using P1 U0 by (intro mult_right_mono) simp_all
    moreover have "(1::rat) / 8 \<le> 1 / 7 * (1 - U)"
      by (simp add: U_def)
    ultimately show ?thesis
      using y1 by linarith
  qed
  have yhigh: "y \<le> 2 ^ 51"
  proof -
    have "P / 7 * (1 + U) \<le> 2 ^ 51 / 7 * (1 + U)"
      using P51 U0 by (intro mult_right_mono) simp_all
    moreover have "(2::rat) ^ 51 / 7 * (1 + U) \<le> 2 ^ 51"
      by (simp add: U_def)
    ultimately show ?thesis
      using y2 by linarith
  qed
  have absb: "\<bar>y / M\<bar> = y / M"
    using bpos by (simp only: abs_of_pos)
  have "1 / 2 ^ 64 \<le> \<bar>y / M\<bar>"
  proof -
    have "(1::rat) / 2 ^ 64 * M \<le> 1 / 2 ^ 64 * 2 ^ 53"
      using M53 by (intro mult_left_mono) simp_all
    also have "\<dots> \<le> 1 / 8"
      by simp
    finally have "1 / 2 ^ 64 * M \<le> y"
      using ylow by linarith
    then have "1 / 2 ^ 64 \<le> y / M"
      using M0 by (simp add: pos_le_divide_eq)
    then show ?thesis
      by (simp only: absb)
  qed
  moreover have "\<bar>y / M\<bar> \<le> 2 ^ 64"
  proof -
    have "y \<le> 2 ^ 64 * 1"
      using yhigh by simp
    also have "\<dots> \<le> 2 ^ 64 * M"
      using M1 by (intro mult_left_mono) simp_all
    finally have "y / M \<le> 2 ^ 64"
      using M0 by (simp add: pos_divide_le_eq)
    then show ?thesis
      by (simp only: absb)
  qed
  ultimately have "\<bar>rn (y / M) - y / M\<bar> \<le> \<bar>y / M\<bar> / 2 ^ 53"
    by (rule rel)
  from near [OF this bpos]
  have z1: "y / M * (1 - U) \<le> z" and z2: "z \<le> y / M * (1 + U)"
    by (simp_all add: z_def)
  have lower: "t * (1 - 2 * U) \<le> z"
  proof -
    have "t * (1 - U) * (1 - U) \<le> y / M * (1 - U)"
      using b1 U0 by (intro mult_right_mono) simp_all
    moreover have "t * (1 - 2 * U) \<le> t * (1 - U) * (1 - U)"
    proof -
      have "t * (1 - U) * (1 - U) = t * (1 - 2 * U) + t * (U * U)"
        by (simp add: algebra_simps)
      moreover have "0 \<le> t * (U * U)"
        using t0 U0 by simp
      ultimately show ?thesis
        by linarith
    qed
    ultimately show ?thesis
      using z1 by linarith
  qed
  have upper: "z \<le> t * (1 + 3 * U)"
  proof -
    have "y / M * (1 + U) \<le> t * (1 + U) * (1 + U)"
      using b2 U0 by (intro mult_right_mono) simp_all
    moreover have "t * (1 + U) * (1 + U) \<le> t * (1 + 3 * U)"
    proof -
      have "t * (1 + U) * (1 + U) = t * (1 + 2 * U) + t * (U * U)"
        by (simp add: algebra_simps)
      moreover have "U * U \<le> U"
        using U0 by (simp add: mult_left_le)
      then have "t * (U * U) \<le> t * U"
        using t0 by (simp add: mult_left_mono)
      moreover have "t * (1 + 3 * U) = t * (1 + 2 * U) + t * U"
        by (simp add: algebra_simps)
      ultimately show ?thesis
        by linarith
    qed
    ultimately show ?thesis
      using z2 by linarith
  qed
  have scale: "x < x' \<longleftrightarrow> x * (7 * M) < x' * (7 * M)" for x x' :: rat
    using M0 by simp
  have scale_le: "x \<le> x' \<longleftrightarrow> x * (7 * M) \<le> x' * (7 * M)" for x x' :: rat
    using M0 by simp
  have tK: "K < t * (1 - 2 * U)"
  proof -
    have "t * (1 - 2 * U) * (7 * M) = P - 2 * (U * P)"
      using tM by (simp add: algebra_simps)
    moreover have "K * (7 * M) < P - 2 * (U * P)"
      using PK R1 UP P0 U0 by (simp add: algebra_simps) 
    ultimately show ?thesis
      by (subst scale) simp
  qed
  have tK1: "t * (1 + 3 * U) \<le> K + 1"
  proof -
    have "t * (1 + 3 * U) * (7 * M) = P + 3 * (U * P)"
      using tM by (simp add: algebra_simps)
    moreover have "P + 3 * (U * P) \<le> (K + 1) * (7 * M)"
      using PK R2 UP P0 U0 by (simp add: algebra_simps)
    ultimately show ?thesis
      by (subst scale_le) simp
  qed
  have tl: "K < t"
  proof -
    have "K * (7 * M) < P"
      using PK R1 by (simp add: algebra_simps)
    then show ?thesis
      by (subst scale) (simp only: tM)
  qed
  have tu: "t \<le> K + 1"
  proof -
    have "P \<le> (K + 1) * (7 * M)"
      using PK R2 by (simp add: algebra_simps)
    then show ?thesis
      by (subst scale_le) (simp only: tM)
  qed
  have "0 \<le> k"
    using p0 m by (simp add: k_def pos_imp_zdiv_nonneg_iff)
  then have K0: "0 \<le> K"
    by (simp add: K_def)
  have zpos: "0 < z"
    using K0 tK lower by linarith
  have "\<lceil>z\<rceil> = k + 1"
    using tK lower upper tK1 by (intro ceiling_unique) (simp_all add: K_def)
  moreover have "\<lceil>t\<rceil> = k + 1"
    using tl tu by (intro ceiling_unique) (simp_all add: K_def)
  ultimately have "Math_ceil (Finite z) = Math_ceil (Finite t)"
    using zpos t0 by simp
  then show ?thesis
    by (simp add: z_def y_def t_def P_def M_def)
qed

lemma rounded_difference_ceiling:
  fixes rn :: "rat \<Rightarrow> rat" and n m :: int
  assumes rel: "\<And>x. 1 / 2 ^ 64 \<le> \<bar>x\<bar> \<Longrightarrow> \<bar>x\<bar> \<le> 2 ^ 64 \<Longrightarrow> \<bar>rn x - x\<bar> \<le> \<bar>x\<bar> / 2 ^ 53"
    and exact: "\<And>n::int. \<bar>n\<bar> < 2 ^ 53 \<Longrightarrow> rn (of_int n) = of_int n"
    and n53: "\<bar>n\<bar> < 2 ^ 53" and m: "0 < m" and m53: "m < 2 ^ 53"
  shows "Math_ceil (Finite (rn (of_int n / of_int m))) = Math_ceil (Finite (of_int n / of_int m))"
proof (cases "n mod m = 0")
  case True
  define k where "k = n div m"
  have "n = m * k + n mod m"
    by (simp add: k_def)
  then have n: "n = m * k"
    using True by simp
  have "\<bar>k\<bar> \<le> \<bar>m\<bar> * \<bar>k\<bar>"
    using m by (simp add: mult_le_cancel_right1)
  then have "\<bar>k\<bar> \<le> \<bar>n\<bar>"
    by (simp add: n abs_mult)
  then have k53: "\<bar>k\<bar> < 2 ^ 53"
    using n53 by linarith
  have q: "(of_int n :: rat) / of_int m = of_int k"
    using m by (simp add: n)
  show ?thesis
    unfolding q by (simp only: exact [OF k53])
next
  case False
  define k where "k = n div m"
  define r where "r = n mod m"
  define M :: rat where "M = of_int m"
  define N :: rat where "N = of_int n"
  define K :: rat where "K = of_int k"
  define q where "q = N / M"
  define z where "z = rn q"
  have "0 \<le> r" and "r < m" and "r \<noteq> 0"
    using False m by (simp_all add: r_def)
  then have r1: "1 \<le> r" and r2: "r \<le> m - 1"
    by linarith+
  have nkr: "n = m * k + r"
    by (simp add: k_def r_def)
  have M0: "0 < M"
    using m by (simp add: M_def)
  have NK: "N = M * K + of_int r"
    unfolding N_def M_def K_def by (subst nkr) simp
  have R1: "(1::rat) \<le> of_int r"
    using r1 by simp
  have "(of_int r :: rat) \<le> of_int (m - 1)"
    using r2 by (simp only: of_int_le_iff)
  then have R2: "(of_int r :: rat) \<le> M - 1"
    by (simp add: M_def)
  have "\<bar>N\<bar> < 2 ^ 53"
  proof -
    have "(of_int \<bar>n\<bar> :: rat) < of_int (2 ^ 53)"
      using n53 by (simp only: of_int_less_iff)
    then show ?thesis
      by (simp add: N_def)
  qed
  then have small: "\<bar>N\<bar> / 2 ^ 53 < 1"
    by simp
  have N53: "\<bar>N\<bar> < 2 ^ 53"
    using small by simp
  have "n \<noteq> 0"
    using False by auto
  then have "1 \<le> \<bar>n\<bar>"
    by linarith
  then have "(of_int 1 :: rat) \<le> of_int \<bar>n\<bar>"
    by (simp only: of_int_le_iff)
  then have N1: "1 \<le> \<bar>N\<bar>"
    by (simp add: N_def)
  have M1: "1 \<le> M" and M53: "M < 2 ^ 53"
  proof -
    show "1 \<le> M"
      using m by (simp add: M_def)
    have "(of_int m :: rat) < of_int (2 ^ 53)"
      using m53 by (simp only: of_int_less_iff)
    then show "M < 2 ^ 53"
      by (simp add: M_def)
  qed
  have qM: "q * M = N"
    using M0 by (simp add: q_def)
  have absq: "\<bar>q\<bar> = \<bar>N\<bar> / M"
    using M0 by (simp add: q_def)
  have "1 / 2 ^ 64 \<le> \<bar>q\<bar>"
  proof -
    have "(1::rat) / 2 ^ 64 * M \<le> 1 / 2 ^ 64 * 2 ^ 53"
      using M53 by (intro mult_left_mono) simp_all
    also have "\<dots> \<le> 1"
      by simp
    finally have "1 / 2 ^ 64 * M \<le> \<bar>N\<bar>"
      using N1 by linarith
    then show ?thesis
      unfolding absq using M0 by (simp add: pos_le_divide_eq)
  qed
  moreover have "\<bar>q\<bar> \<le> 2 ^ 64"
  proof -
    have "\<bar>N\<bar> \<le> 2 ^ 64 * 1"
      using N53 by simp
    also have "\<dots> \<le> 2 ^ 64 * M"
      using M1 by (intro mult_left_mono) simp_all
    finally show ?thesis
      unfolding absq using M0 by (simp add: pos_divide_le_eq)
  qed
  ultimately have relq: "\<bar>rn q - q\<bar> \<le> \<bar>q\<bar> / 2 ^ 53"
    by (rule rel)
  have "\<bar>q\<bar> / 2 ^ 53 = \<bar>N\<bar> / 2 ^ 53 / M"
    using M0 by (simp add: q_def)
  also have "\<dots> < 1 / M"
    using small M0 by (rule divide_strict_right_mono)
  finally have err: "\<bar>z - q\<bar> < 1 / M"
    using relq by (simp add: z_def)
  define KM where "KM = K * M"
  have NK': "N = KM + of_int r"
    using NK by (simp add: KM_def mult.commute)
  have ql: "K + 1 / M \<le> q"
  proof -
    have "(K + 1 / M) * M = KM + 1"
      using M0 by (simp add: KM_def algebra_simps)
    moreover have "KM + 1 \<le> N"
      using NK' R1 by linarith
    ultimately have "(K + 1 / M) * M \<le> q * M"
      by (simp only: qM)
    then show ?thesis
      using M0 by simp
  qed
  have qu: "q \<le> K + 1 - 1 / M"
  proof -
    have "(K + 1 - 1 / M) * M = KM + M - 1"
      using M0 by (simp add: KM_def algebra_simps)
    moreover have "N \<le> KM + M - 1"
      using NK' R2 by linarith
    ultimately have "q * M \<le> (K + 1 - 1 / M) * M"
      by (simp only: qM)
    then show ?thesis
      using M0 by simp
  qed
  define d where "d = 1 / M"
  have d0: "0 < d"
    using M0 by (simp add: d_def)
  have err': "z - q < d" "q - z < d"
    using err unfolding d_def by linarith+
  have ql': "K + d \<le> q" and qu': "q \<le> K + 1 - d"
    using ql qu by (simp_all add: d_def)
  have zl: "K < z" and zu: "z < K + 1"
    using err' ql' qu' by linarith+
  have qlu: "K < q" "q < K + 1"
    using ql' qu' d0 by linarith+
  have cz: "\<lceil>z\<rceil> = k + 1"
    using zl zu by (intro ceiling_unique) (simp_all add: K_def)
  have cq: "\<lceil>q\<rceil> = k + 1"
    using qlu by (intro ceiling_unique) (simp_all add: K_def)
  have between: "(- 1 < x \<and> x < 0) = (k = - 1)" if "K < x" and "x < K + 1" for x :: rat
  proof
    assume "- 1 < x \<and> x < 0"
    then have "K < 0" and "- 1 < K + 1"
      using that by linarith+
    then have "(of_int k :: rat) < of_int 0" and "(of_int (- 2) :: rat) < of_int k"
      by (simp_all add: K_def)
    then have "k < 0" and "- 2 < k"
      by (simp_all only: of_int_less_iff)
    then show "k = - 1"
      by linarith
  next
    assume "k = - 1"
    then have "K = - 1"
      by (simp add: K_def)
    then show "- 1 < x \<and> x < 0"
      using that by simp
  qed
  have "(- 1 < z \<and> z < 0) = (k = - 1)"
    using zl zu by (rule between)
  moreover have "(- 1 < q \<and> q < 0) = (k = - 1)"
    using qlu by (rule between)
  ultimately have "Math_ceil (Finite z) = Math_ceil (Finite q)"
    by (simp add: cz cq)
  then show ?thesis
    by (simp add: z_def q_def N_def M_def)
qed

section \<open>The requirement calculation: weekly mode\<close>

text \<open>
  On a leaderboard of at least 100 entries the five milestones exist, both loops
  complete, and the entry point inserts the widget built from the weekly result; the
  listeners of its buttons keep both results.
\<close>

lemma topInfo_long:
  assumes "100 \<le> length xs"
  shows "topInfo (Some xs) =
     Inr [(''top1'', Some (xs ! 0)), (''top3'', Some (xs ! 2)), (''top10'', Some (xs ! 9)),
          (''top50'', Some (xs ! 49)), (''top100'', Some (xs ! 99))]"
  using assms by (auto simp add: topInfo_def index_def)

lemma assignDaily_long:
  "assignDaily f
     [(''top1'', Some (xs ! 0)), (''top3'', Some (xs ! 2)), (''top10'', Some (xs ! 9)),
      (''top50'', Some (xs ! 49)), (''top100'', Some (xs ! 99))] =
     Inr (expected (\<lambda>i. f (xs ! i)) xs)"
  by (simp add: expected_def milestones_def)

lemma expected_cong:
  assumes "\<forall>i\<in>{0, 2, 9, 49, 99}. f i = g i"
  shows "expected f xs = expected g xs"
  using assms by (simp add: expected_def milestones_def)

lemma topRequirements_long:
  assumes "100 \<le> length weekly" and "100 \<le> length season"
  shows "topRequirements (Some weekly) (Some season) members_count season_races =
     Inr (expected (\<lambda>i. weeklyDaily members_count (weekly ! i)) weekly,
          expected (\<lambda>i. seasonDaily members_count season_races (season ! i)) season)"
  by (simp only: topRequirements_def topInfo_long [OF assms(1)] topInfo_long [OF assms(2)]
        assignDaily_long sum.case prod.case)

lemma main_inserts:
  assumes "userTeamTAG (persist_nt (localStorage w)) = Inr (index (split CHR ''/'' (href pg)) 4)"
    and "retrieveTeamStats pg (index (split CHR ''/'' (href pg)) 4) w =
           (members_count, season_races, w1)"
    and "retrieveLeaderboards pg w1 = (weekly, season, w2)"
    and "topRequirements weekly season members_count season_races = Inr (weeklyInfo, seasonInfo)"
    and "tables_container pg" and "leaderboard_table pg"
  shows "main toLocaleString pg w =
     (Returned,
      w2\<lparr>document :=
           Some (inserted toLocaleString
                   \<lparr>weeklyTopInfo = weeklyInfo, seasonTopInfo = seasonInfo,
                    memberCount = members_count, seasonRaces = season_races\<rparr>),
         listeners :=
           Some \<lparr>weeklyTopInfo = weeklyInfo, seasonTopInfo = seasonInfo,
                 memberCount = members_count, seasonRaces = season_races\<rparr>\<rparr>)"
  using assms by (simp add: main_def inserted_def)

lemma ceiling_quotient_bounds:
  fixes p m :: int
  assumes "0 < m"
  shows "7 * m * (\<lceil>(of_int p :: rat) / 7 / of_int m\<rceil> - 1) < p \<and>
         p \<le> 7 * m * \<lceil>(of_int p :: rat) / 7 / of_int m\<rceil>"
proof -
  let ?x = "(of_int p :: rat) / 7 / of_int m"
  have pos: "(0::rat) < 7 * of_int m"
    using assms by simp
  have x: "?x * (7 * of_int m) = of_int p"
    using assms by simp
  have "of_int \<lceil>?x\<rceil> - 1 < ?x"
    by linarith
  then have "(of_int \<lceil>?x\<rceil> - 1) * (7 * of_int m) < ?x * (7 * of_int m)"
    using pos by (rule mult_strict_right_mono)
  then have "(of_int (7 * m * (\<lceil>?x\<rceil> - 1)) :: rat) < of_int p"
    unfolding x by (simp add: algebra_simps)
  then have below: "7 * m * (\<lceil>?x\<rceil> - 1) < p"
    by (simp only: of_int_less_iff)
  have "?x \<le> of_int \<lceil>?x\<rceil>"
    by linarith
  then have "?x * (7 * of_int m) \<le> of_int \<lceil>?x\<rceil> * (7 * of_int m)"
    using pos by (intro mult_right_mono) simp_all
  then have "(of_int p :: rat) \<le> of_int (7 * m * \<lceil>?x\<rceil>)"
    unfolding x by (simp add: algebra_simps)
  then have above: "p \<le> 7 * m * \<lceil>?x\<rceil>"
    by (simp only: of_int_le_iff)
  from below above show ?thesis
    by simp
qed

text \<open>
  The weekly formula on an integer race count below \<open>2 ^ 51\<close>: the two divisions round,
  and \<open>Math.ceil\<close> still gives the ceiling of the exact quotient.
\<close>

lemma weeklyDaily_count:
  assumes "played e = Finite (of_int p)" and "0 \<le> p" and "p < 2 ^ 51" and "0 < m" and "m < 2 ^ 53"
  shows "weeklyDaily (Some (Finite (of_int m))) e =
     Finite (of_int \<lceil>(of_int p :: rat) / 7 / of_int m\<rceil>)"
proof (cases "p = 0")
  case True
  then show ?thesis
    using assms(1,4) by (simp add: weeklyDaily_def js_div_def zero_def)
next
  case False
  define x :: rat where "x = of_int p / 7"
  define M :: rat where "M = of_int m"
  have "(1::rat) \<le> of_int p"
    using False assms(2) by simp
  then have xlo: "1 / 7 \<le> x"
    by (simp add: x_def)
  have "(of_int p :: rat) \<le> 2 ^ 51"
    using assms(3) by (metis less_imp_le of_int_le_iff of_int_numeral of_int_power)
  then have xhi: "x \<le> 2251799813685248"
    by (simp add: x_def)
  have Mlo: "1 \<le> M"
    using assms(4) by (simp add: M_def)
  have "(of_int m :: rat) \<le> 2 ^ 53"
    using assms(5) by (metis less_imp_le of_int_le_iff of_int_numeral of_int_power)
  then have Mhi: "M \<le> 9007199254740992"
    by (simp add: M_def)
  define y where "y = magnitude (binary64 x)"
  have xr: "1 / 2 ^ 64 \<le> \<bar>x\<bar>" "\<bar>x\<bar> \<le> 2 ^ 64"
    using xlo xhi by simp_all
  have fy: "binary64 x = Finite y"
    unfolding y_def using xr by (rule binary64_magnitude_rounded(1))
  have "\<bar>y - x\<bar> \<le> \<bar>x\<bar> / 2 ^ 53"
    unfolding y_def using xr by (rule binary64_magnitude_rounded(2))
  moreover have "\<bar>x\<bar> / 2 ^ 53 = x / 9007199254740992"
    using xlo by simp
  ultimately have ylo: "1 / 8 \<le> y" and yhi: "y \<le> 4503599627370496"
    using xlo xhi by linarith+
  define z where "z = y / M"
  have "(1 / 8) / 9007199254740992 \<le> z"
    unfolding z_def using ylo Mlo Mhi by (intro frac_le) simp_all
  moreover have "(1::rat) / 2 ^ 64 \<le> (1 / 8) / 9007199254740992"
    by simp
  ultimately have zlo: "1 / 2 ^ 64 \<le> z"
    by linarith
  have "z \<le> y / 1"
    unfolding z_def using ylo Mlo by (intro frac_le) simp_all
  moreover have "(4503599627370496::rat) \<le> 2 ^ 64"
    by simp
  ultimately have zhi: "z \<le> 2 ^ 64"
    using yhi by simp
  have z0: "0 < z"
    using zlo by simp
  have zr: "1 / 2 ^ 64 \<le> \<bar>z\<bar>" "\<bar>z\<bar> \<le> 2 ^ 64"
    using zlo zhi z0 by simp_all
  have fz: "binary64 z = Finite (magnitude (binary64 z))"
    using zr by (rule binary64_magnitude_rounded(1))
  have d1: "js_div (Finite (of_int p)) (Finite 7) = Finite y"
    using False by (simp add: js_div_def fy [unfolded x_def])
  have "y \<noteq> 0" "M \<noteq> 0"
    using ylo Mlo by simp_all
  then have d2: "js_div (Finite y) (Finite M) = Finite (magnitude (binary64 z))"
    using fz by (simp add: js_div_def z_def)
  have "Math_ceil (Finite (magnitude (binary64 (magnitude (binary64 (of_int p / 7)) / of_int m)))) =
        Math_ceil (Finite (of_int p / 7 / of_int m))"
    using binary64_magnitude_rounded(2) binary64_magnitude_of_int assms(2,3,4,5)
    by (rule rounded_quotient_ceiling [where rn = "\<lambda>x. magnitude (binary64 x)"])
  then have c: "Math_ceil (Finite (magnitude (binary64 z))) =
        Math_ceil (Finite (of_int p / 7 / of_int m))"
    by (simp only: z_def y_def x_def M_def)
  have "(0::rat) \<le> of_int p / 7 / of_int m"
    using assms(2,4) by simp
  then have "\<not> (of_int p :: rat) / 7 / of_int m < 0"
    by linarith
  then have "Math_ceil (Finite (magnitude (binary64 z))) =
        Finite (of_int \<lceil>(of_int p :: rat) / 7 / of_int m\<rceil>)"
    unfolding c by simp
  then show ?thesis
    unfolding weeklyDaily_def assms(1) to_number.simps d1 M_def [symmetric] d2 .
qed

lemma weeklyDaily_2_55:
  "weeklyDaily (Some (Finite 3)) \<lparr>played = Finite 36028797018963968, points = Finite 0\<rparr> =
     Finite 1715657000903046"
  by (simp add: weeklyDaily_def js_div_def seventh_of_2_55 third_of_seventh)

text \<open>
  Claim C1, for the race counts and member counts on which the two roundings of the
  quotient do no harm. For leaderboards of at least 100 entries whose weekly milestone
  entries (indices 0, 2, 9, 49 and 99) hold integer race counts from 0 to below \<open>2 ^ 51\<close>,
  and a positive integer member count \<open>m\<close> below \<open>2 ^ 53\<close>: the weekly loop completes
  and gives each milestone the \<open>played\<close> and \<open>points\<close> of its entry and
  \<open>dailyMemberRaces = \<lceil>racesPlayed / 7 / m\<rceil>\<close>; the calculation of the entry point
  returns this list as its weekly result; the entry point, on the page of the user's own
  team with these leaderboards and this member count, inserts the widget whose body is
  rendered from it and keeps it for the weekly button. The value is exact also when
  \<open>7 * m\<close> does not divide the race count: it is the one integer \<open>d\<close> with
  \<open>7 * m * (d - 1) < racesPlayed \<le> 7 * m * d\<close>.
\<close>

theorem weekly_dailyMemberRaces_exact:
  fixes racesPlayed :: "nat \<Rightarrow> int" and m :: int
  assumes len: "100 \<le> length weekly" "100 \<le> length season"
    and m: "0 < m" "m < 2 ^ 53"
    and races: "\<forall>i\<in>{0, 2, 9, 49, 99}.
          0 \<le> racesPlayed i \<and> racesPlayed i < 2 ^ 51 \<and>
          played (weekly ! i) = Finite (of_int (racesPlayed i))"
  shows "(\<exists>weeklyInfo.
           topInfo (Some weekly) = Inr weeklyInfo \<and>
           assignDaily (weeklyDaily (Some (Finite (of_int m)))) weeklyInfo =
             Inr (expected
                    (\<lambda>i. Finite (of_int \<lceil>(of_int (racesPlayed i) :: rat) / 7 / of_int m\<rceil>))
                    weekly)) \<and>
         topRequirements (Some weekly) (Some season) (Some (Finite (of_int m))) season_races =
           Inr (expected
                  (\<lambda>i. Finite (of_int \<lceil>(of_int (racesPlayed i) :: rat) / 7 / of_int m\<rceil>))
                  weekly,
                expected
                  (\<lambda>i. seasonDaily (Some (Finite (of_int m))) season_races (season ! i))
                  season) \<and>
         (userTeamTAG (persist_nt (localStorage w)) = Inr (index (split CHR ''/'' (href pg)) 4) \<and>
          retrieveTeamStats pg (index (split CHR ''/'' (href pg)) 4) w =
            (Some (Finite (of_int m)), season_races, w1) \<and>
          retrieveLeaderboards pg w1 = (Some weekly, Some season, w2) \<and>
          tables_container pg \<and> leaderboard_table pg \<longrightarrow>
            (\<exists>wd sc.
               main toLocaleString pg w = (Returned, w2\<lparr>document := Some wd, listeners := Some sc\<rparr>) \<and>
               weeklyTopInfo sc =
                 expected
                   (\<lambda>i. Finite (of_int \<lceil>(of_int (racesPlayed i) :: rat) / 7 / of_int m\<rceil>))
                   weekly \<and>
               tableBody wd =
                 Some (createTopTeamRequirementsTableBody toLocaleString
                         (expected
                            (\<lambda>i. Finite (of_int \<lceil>(of_int (racesPlayed i) :: rat) / 7 / of_int m\<rceil>))
                            weekly)))) \<and>
         (\<forall>i\<in>{0, 2, 9, 49, 99}.
            7 * m * (\<lceil>(of_int (racesPlayed i) :: rat) / 7 / of_int m\<rceil> - 1) < racesPlayed i \<and>
            racesPlayed i \<le> 7 * m * \<lceil>(of_int (racesPlayed i) :: rat) / 7 / of_int m\<rceil>)"
proof -
  let ?d = "\<lambda>i. Finite (of_int \<lceil>(of_int (racesPlayed i) :: rat) / 7 / of_int m\<rceil>)"
  let ?mc = "Some (Finite (of_int m))"
  have daily: "\<forall>i\<in>{0, 2, 9, 49, 99}. weeklyDaily ?mc (weekly ! i) = ?d i"
  proof
    fix i :: nat
    assume "i \<in> {0, 2, 9, 49, 99}"
    then have "played (weekly ! i) = Finite (of_int (racesPlayed i))"
      and "0 \<le> racesPlayed i" and "racesPlayed i < 2 ^ 51"
      using races by blast+
    then show "weeklyDaily ?mc (weekly ! i) = ?d i"
      using m by (rule weeklyDaily_count)
  qed
  have same: "expected (\<lambda>i. weeklyDaily ?mc (weekly ! i)) weekly = expected ?d weekly"
    using daily by (rule expected_cong)
  have loop: "\<exists>weeklyInfo.
           topInfo (Some weekly) = Inr weeklyInfo \<and>
           assignDaily (weeklyDaily ?mc) weeklyInfo = Inr (expected ?d weekly)"
  proof (intro exI conjI)
    show "topInfo (Some weekly) =
        Inr [(''top1'', Some (weekly ! 0)), (''top3'', Some (weekly ! 2)),
             (''top10'', Some (weekly ! 9)), (''top50'', Some (weekly ! 49)),
             (''top100'', Some (weekly ! 99))]"
      using len(1) by (rule topInfo_long)
    show "assignDaily (weeklyDaily ?mc)
        [(''top1'', Some (weekly ! 0)), (''top3'', Some (weekly ! 2)),
         (''top10'', Some (weekly ! 9)), (''top50'', Some (weekly ! 49)),
         (''top100'', Some (weekly ! 99))] = Inr (expected ?d weekly)"
      by (simp only: assignDaily_long same)
  qed
  have both: "topRequirements (Some weekly) (Some season) ?mc season_races =
           Inr (expected ?d weekly,
                expected (\<lambda>i. seasonDaily ?mc season_races (season ! i)) season)"
    by (simp only: topRequirements_long [OF len] same)
  have entry: "\<exists>wd sc.
         main toLocaleString pg w = (Returned, w2\<lparr>document := Some wd, listeners := Some sc\<rparr>) \<and>
         weeklyTopInfo sc = expected ?d weekly \<and>
         tableBody wd =
           Some (createTopTeamRequirementsTableBody toLocaleString (expected ?d weekly))"
    if "userTeamTAG (persist_nt (localStorage w)) = Inr (index (split CHR ''/'' (href pg)) 4) \<and>
        retrieveTeamStats pg (index (split CHR ''/'' (href pg)) 4) w = (?mc, season_races, w1) \<and>
        retrieveLeaderboards pg w1 = (Some weekly, Some season, w2) \<and>
        tables_container pg \<and> leaderboard_table pg"
  proof -
    let ?sc = "\<lparr>weeklyTopInfo = expected ?d weekly,
                seasonTopInfo = expected (\<lambda>i. seasonDaily ?mc season_races (season ! i)) season,
                memberCount = ?mc, seasonRaces = season_races\<rparr>"
    from that have guard: "userTeamTAG (persist_nt (localStorage w)) =
          Inr (index (split CHR ''/'' (href pg)) 4)"
      and team: "retrieveTeamStats pg (index (split CHR ''/'' (href pg)) 4) w =
          (?mc, season_races, w1)"
      and boards: "retrieveLeaderboards pg w1 = (Some weekly, Some season, w2)"
      and anchors: "tables_container pg" "leaderboard_table pg"
      by simp_all
    have "main toLocaleString pg w =
        (Returned, w2\<lparr>document := Some (inserted toLocaleString ?sc), listeners := Some ?sc\<rparr>)"
      using guard team boards both anchors by (rule main_inserts)
    moreover have "weeklyTopInfo ?sc = expected ?d weekly"
      by simp
    moreover have "tableBody (inserted toLocaleString ?sc) =
        Some (createTopTeamRequirementsTableBody toLocaleString (expected ?d weekly))"
      by (simp add: inserted_def createTopTeamRequirementsWidget_def)
    ultimately show ?thesis
      by blast
  qed
  have exact: "\<forall>i\<in>{0, 2, 9, 49, 99}.
            7 * m * (\<lceil>(of_int (racesPlayed i) :: rat) / 7 / of_int m\<rceil> - 1) < racesPlayed i \<and>
            racesPlayed i \<le> 7 * m * \<lceil>(of_int (racesPlayed i) :: rat) / 7 / of_int m\<rceil>"
    using ceiling_quotient_bounds [OF m(1)] by blast
  from loop both entry exact show ?thesis
    by blast
qed

text \<open>
  The theorem on the example page, a leaderboard of 100 entries and a team of 10 members:
  700 races at rank 1 give 10 races a day, 701 races at the other milestones give 11.
\<close>

theorem weekly_dailyMemberRaces_exact_witness:
  "100 \<le> length (map projection example_scores) \<and> (0::int) < 10 \<and> (10::int) < 2 ^ 53 \<and>
   topRequirements (Some (map projection example_scores)) (Some (map projection example_scores))
     (Some (Finite 10)) (Some (Finite 3000)) =
     Inr ([(''top1'', \<lparr>played = Finite 700, points = Finite 50000, dailyMemberRaces = Finite 10\<rparr>),
           (''top3'', \<lparr>played = Finite 701, points = Finite 49000, dailyMemberRaces = Finite 11\<rparr>),
           (''top10'', \<lparr>played = Finite 701, points = Finite 49000, dailyMemberRaces = Finite 11\<rparr>),
           (''top50'', \<lparr>played = Finite 701, points = Finite 49000, dailyMemberRaces = Finite 11\<rparr>),
           (''top100'', \<lparr>played = Finite 701, points = Finite 49000, dailyMemberRaces = Finite 11\<rparr>)],
          expected
            (\<lambda>i. seasonDaily (Some (Finite 10)) (Some (Finite 3000))
                   (map projection example_scores ! i))
            (map projection example_scores)) \<and>
   (\<exists>wd sc.
      main example_toLocaleString example_page example_world =
        (Returned,
         example_world
           \<lparr>requests :=
              [''https://www.nitrotype.com/api/v2/teams/ABC'',
               ''https://www.nitrotype.com/api/v2/leaderboards?time=weekly'',
               ''https://www.nitrotype.com/api/v2/leaderboards?time=season''],
            now := 1700000000450,
            localStorage := (localStorage example_world)
              \<lparr>teamStats :=
                 Some (JSON \<lparr>payload = example_team, timestamp = Finite 1700000000150\<rparr>),
               weeklyLeaderboardInfo :=
                 Some (JSON \<lparr>payload = example_scores, timestamp = Finite 1700000000300\<rparr>),
               seasonLeaderboardInfo :=
                 Some (JSON \<lparr>payload = example_scores, timestamp = Finite 1700000000450\<rparr>)\<rparr>,
            document := Some wd, listeners := Some sc\<rparr>) \<and>
      map (\<lambda>(key, v). (key, dailyMemberRaces v)) (weeklyTopInfo sc) =
        [(''top1'', Finite 10), (''top3'', Finite 11), (''top10'', Finite 11),
         (''top50'', Finite 11), (''top100'', Finite 11)] \<and>
      map_option (map daily) (tableBody wd) = Some [''10'', ''?'', ''?'', ''?'', ''?''])"
proof -
  let ?xs = "map projection example_scores"
  let ?w1 = "example_world
        \<lparr>requests := [''https://www.nitrotype.com/api/v2/teams/ABC''],
         now := 1700000000150,
         localStorage := (localStorage example_world)
           \<lparr>teamStats :=
              Some (JSON \<lparr>payload = example_team, timestamp = Finite 1700000000150\<rparr>)\<rparr>\<rparr>"
  let ?w2 = "example_world
        \<lparr>requests :=
           [''https://www.nitrotype.com/api/v2/teams/ABC'',
            ''https://www.nitrotype.com/api/v2/leaderboards?time=weekly'',
            ''https://www.nitrotype.com/api/v2/leaderboards?time=season''],
         now := 1700000000450,
         localStorage := (localStorage example_world)
           \<lparr>teamStats :=
              Some (JSON \<lparr>payload = example_team, timestamp = Finite 1700000000150\<rparr>),
            weeklyLeaderboardInfo :=
              Some (JSON \<lparr>payload = example_scores, timestamp = Finite 1700000000300\<rparr>),
            seasonLeaderboardInfo :=
              Some (JSON \<lparr>payload = example_scores, timestamp = Finite 1700000000450\<rparr>)\<rparr>\<rparr>"
  have len: "100 \<le> length ?xs"
    by (simp add: example_scores_def)
  have m: "(0::int) < 10" "(10::int) < 2 ^ 53"
    by simp_all
  have races: "\<forall>i\<in>{0, 2, 9, 49, 99}.
      0 \<le> (if i = 0 then 700 else 701 :: int) \<and> (if i = 0 then 700 else 701 :: int) < 2 ^ 51 \<and>
      played (?xs ! i) = Finite (of_int (if i = 0 then 700 else 701))"
    by (simp add: example_scores_def projection_def)
  have tag: "index (split CHR ''/'' (href example_page)) 4 = Some ''ABC''"
    by (simp add: example_page_def index_def)
  have guard: "userTeamTAG (persist_nt (localStorage example_world)) =
      Inr (index (split CHR ''/'' (href example_page)) 4)"
    unfolding tag by (simp add: example_world_def)
  have team: "retrieveTeamStats example_page (index (split CHR ''/'' (href example_page)) 4)
      example_world = (Some (Finite (of_int 10)), Some (Finite 3000), ?w1)"
    unfolding tag
    by (simp add: retrieveTeamStats_def fetchTeamStats_def request_def example_world_def
          example_page_def example_team_def)
  have boards: "retrieveLeaderboards example_page ?w1 = (Some ?xs, Some ?xs, ?w2)"
    by (simp add: retrieveLeaderboards_def getWeeklyLeaderBoardInfoStats_def
          getSeasonLeaderBoardInfoStats_def request_def example_world_def example_page_def)
  have anchors: "tables_container example_page" "leaderboard_table example_page"
    by (simp_all add: example_page_def)
  note inst = weekly_dailyMemberRaces_exact
      [where weekly = "?xs" and season = "?xs" and m = 10
         and racesPlayed = "\<lambda>i. if i = 0 then 700 else 701"
         and season_races = "Some (Finite 3000)"
         and w = example_world and pg = example_page and ?w1.0 = "?w1" and ?w2.0 = "?w2"
         and toLocaleString = example_toLocaleString,
       OF len len m races]
  have c: "\<lceil>(701::rat) / 70\<rceil> = 11"
    by (simp add: ceiling_eq_iff)
  have e: "expected
      (\<lambda>i. Finite (of_int \<lceil>(of_int (if i = 0 then 700 else 701) :: rat) / 7 / of_int 10\<rceil>)) ?xs =
      [(''top1'', \<lparr>played = Finite 700, points = Finite 50000, dailyMemberRaces = Finite 10\<rparr>),
       (''top3'', \<lparr>played = Finite 701, points = Finite 49000, dailyMemberRaces = Finite 11\<rparr>),
       (''top10'', \<lparr>played = Finite 701, points = Finite 49000, dailyMemberRaces = Finite 11\<rparr>),
       (''top50'', \<lparr>played = Finite 701, points = Finite 49000, dailyMemberRaces = Finite 11\<rparr>),
       (''top100'', \<lparr>played = Finite 701, points = Finite 49000, dailyMemberRaces = Finite 11\<rparr>)]"
    by (simp add: expected_def milestones_def example_scores_def projection_def c)
  have calc: "topRequirements (Some ?xs) (Some ?xs) (Some (Finite 10)) (Some (Finite 3000)) =
     Inr ([(''top1'', \<lparr>played = Finite 700, points = Finite 50000, dailyMemberRaces = Finite 10\<rparr>),
           (''top3'', \<lparr>played = Finite 701, points = Finite 49000, dailyMemberRaces = Finite 11\<rparr>),
           (''top10'', \<lparr>played = Finite 701, points = Finite 49000, dailyMemberRaces = Finite 11\<rparr>),
           (''top50'', \<lparr>played = Finite 701, points = Finite 49000, dailyMemberRaces = Finite 11\<rparr>),
           (''top100'', \<lparr>played = Finite 701, points = Finite 49000, dailyMemberRaces = Finite 11\<rparr>)],
          expected (\<lambda>i. seasonDaily (Some (Finite 10)) (Some (Finite 3000)) (?xs ! i)) ?xs)"
    using inst [THEN conjunct2, THEN conjunct1] unfolding e by simp
  from inst [THEN conjunct2, THEN conjunct2, THEN conjunct1, THEN mp,
      OF conjI [OF guard conjI [OF team conjI [OF boards conjI [OF anchors]]]]]
  obtain wd sc where
    r: "main example_toLocaleString example_page example_world =
        (Returned, ?w2\<lparr>document := Some wd, listeners := Some sc\<rparr>)"
    and s: "weeklyTopInfo sc =
        [(''top1'', \<lparr>played = Finite 700, points = Finite 50000, dailyMemberRaces = Finite 10\<rparr>),
         (''top3'', \<lparr>played = Finite 701, points = Finite 49000, dailyMemberRaces = Finite 11\<rparr>),
         (''top10'', \<lparr>played = Finite 701, points = Finite 49000, dailyMemberRaces = Finite 11\<rparr>),
         (''top50'', \<lparr>played = Finite 701, points = Finite 49000, dailyMemberRaces = Finite 11\<rparr>),
         (''top100'', \<lparr>played = Finite 701, points = Finite 49000, dailyMemberRaces = Finite 11\<rparr>)]"
    and t: "tableBody wd =
        Some (createTopTeamRequirementsTableBody example_toLocaleString
          [(''top1'', \<lparr>played = Finite 700, points = Finite 50000, dailyMemberRaces = Finite 10\<rparr>),
           (''top3'', \<lparr>played = Finite 701, points = Finite 49000, dailyMemberRaces = Finite 11\<rparr>),
           (''top10'', \<lparr>played = Finite 701, points = Finite 49000, dailyMemberRaces = Finite 11\<rparr>),
           (''top50'', \<lparr>played = Finite 701, points = Finite 49000, dailyMemberRaces = Finite 11\<rparr>),
           (''top100'', \<lparr>played = Finite 701, points = Finite 49000, dailyMemberRaces = Finite 11\<rparr>)])"
    unfolding e by blast
  have a: "map (\<lambda>(key, v). (key, dailyMemberRaces v)) (weeklyTopInfo sc) =
        [(''top1'', Finite 10), (''top3'', Finite 11), (''top10'', Finite 11),
         (''top50'', Finite 11), (''top100'', Finite 11)]"
    by (simp add: s)
  have b: "map_option (map daily) (tableBody wd) = Some [''10'', ''?'', ''?'', ''?'', ''?'']"
    by (simp add: t createTopTeamRequirementsTableBody_def example_toLocaleString_def)
  have entry: "\<exists>wd sc.
      main example_toLocaleString example_page example_world =
        (Returned, ?w2\<lparr>document := Some wd, listeners := Some sc\<rparr>) \<and>
      map (\<lambda>(key, v). (key, dailyMemberRaces v)) (weeklyTopInfo sc) =
        [(''top1'', Finite 10), (''top3'', Finite 11), (''top10'', Finite 11),
         (''top50'', Finite 11), (''top100'', Finite 11)] \<and>
      map_option (map daily) (tableBody wd) = Some [''10'', ''?'', ''?'', ''?'', ''?'']"
    using r a b by (intro exI conjI)
  show ?thesis
    by (intro conjI) (fact len m calc entry)+
qed

text \<open>
  Claim C1 as it is written speaks of every leaderboard and every member count. With
  \<open>2 ^ 55\<close> races at the milestones and 3 members the script divides by 7, which rounds
  \<open>5146971002709138.29\<close> down to an integer, and then by 3, which is exact: it stores
  1715657000903046, and the ceiling of the exact quotient is 1715657000903047.
\<close>

theorem weekly_dailyMemberRaces_rounded_twice:
  "topRequirements
     (Some (replicate 100 \<lparr>played = Finite 36028797018963968, points = Finite 0\<rparr>))
     (Some (replicate 100 \<lparr>played = Finite 36028797018963968, points = Finite 0\<rparr>))
     (Some (Finite 3)) (Some (Finite 0)) =
     Inr (expected (\<lambda>i. Finite 1715657000903046)
            (replicate 100 \<lparr>played = Finite 36028797018963968, points = Finite 0\<rparr>),
          expected
            (\<lambda>i. seasonDaily (Some (Finite 3)) (Some (Finite 0))
                   \<lparr>played = Finite 36028797018963968, points = Finite 0\<rparr>)
            (replicate 100 \<lparr>played = Finite 36028797018963968, points = Finite 0\<rparr>)) \<and>
   \<lceil>(36028797018963968::rat) / 7 / 3\<rceil> = 1715657000903047"
proof -
  have "topRequirements
     (Some (replicate 100 \<lparr>played = Finite 36028797018963968, points = Finite 0\<rparr>))
     (Some (replicate 100 \<lparr>played = Finite 36028797018963968, points = Finite 0\<rparr>))
     (Some (Finite 3)) (Some (Finite 0)) =
     Inr (expected (\<lambda>i. Finite 1715657000903046)
            (replicate 100 \<lparr>played = Finite 36028797018963968, points = Finite 0\<rparr>),
          expected
            (\<lambda>i. seasonDaily (Some (Finite 3)) (Some (Finite 0))
                   \<lparr>played = Finite 36028797018963968, points = Finite 0\<rparr>)
            (replicate 100 \<lparr>played = Finite 36028797018963968, points = Finite 0\<rparr>))"
    by (simp add: topRequirements_long expected_def milestones_def weeklyDaily_2_55)
  then show ?thesis
    using ceilings_2_55(1) by simp
qed

section \<open>The requirement calculation: season mode\<close>

text \<open>
  The season formula on integer counts below \<open>2 ^ 53\<close>: the difference is exact, the
  division rounds, and \<open>Math.ceil\<close> gives the ceiling of the exact quotient, as \<open>-0\<close>
  when the quotient is strictly between \<open>-1\<close> and \<open>0\<close>.
\<close>

lemma seasonDaily_count:
  assumes "played e = Finite (of_int p)" and "0 \<le> p" and "p < 2 ^ 53"
    and "0 \<le> s" and "s < 2 ^ 53" and "0 < m" and "m < 2 ^ 53"
  shows "seasonDaily (Some (Finite (of_int m))) (Some (Finite (of_int s))) e =
     (if p < s \<and> s - p < m then NegZero
      else Finite (of_int \<lceil>(of_int (p - s) :: rat) / of_int m\<rceil>))"
proof -
  define n where "n = p - s"
  have n53: "\<bar>n\<bar> < 2 ^ 53"
    using assms(2,3,4,5) by (simp add: n_def)
  have nr: "(of_int p :: rat) - of_int s = of_int n"
    by (simp add: n_def)
  have sub: "js_sub (Finite (of_int p)) (Finite (of_int s)) = Finite (of_int n)"
    by (simp add: js_sub_def nr binary64_of_int [OF n53])
  show ?thesis
  proof (cases "n = 0")
    case True
    then have "\<not> p < s"
      by (simp add: n_def)
    then show ?thesis
      using True assms(6)
      by (simp add: seasonDaily_def assms(1) sub js_div_def zero_def n_def [symmetric] del: of_int_diff)
  next
    case False
    define M :: rat where "M = of_int m"
    define N :: rat where "N = of_int n"
    have Mlo: "1 \<le> M"
      using assms(6) by (simp add: M_def)
    have "(of_int m :: rat) \<le> 2 ^ 53"
      using assms(7) by (metis less_imp_le of_int_le_iff of_int_numeral of_int_power)
    then have Mhi: "M \<le> 9007199254740992"
      by (simp add: M_def)
    have "(1::rat) \<le> of_int \<bar>n\<bar>"
      using False by (simp del: of_int_abs)
    then have Nlo: "1 \<le> \<bar>N\<bar>"
      by (simp add: N_def)
    have "(of_int \<bar>n\<bar> :: rat) \<le> 2 ^ 53"
      using n53 by (metis less_imp_le of_int_le_iff of_int_numeral of_int_power)
    then have Nhi: "\<bar>N\<bar> \<le> 9007199254740992"
      by (simp add: N_def)
    define z where "z = N / M"
    have az: "\<bar>z\<bar> = \<bar>N\<bar> / M"
      using Mlo by (simp add: z_def)
    have "1 / 9007199254740992 \<le> \<bar>z\<bar>"
      unfolding az using Nlo Mlo Mhi by (intro frac_le) simp_all
    moreover have "(1::rat) / 2 ^ 64 \<le> 1 / 9007199254740992"
      by simp
    ultimately have zlo: "1 / 2 ^ 64 \<le> \<bar>z\<bar>"
      by linarith
    have "\<bar>z\<bar> \<le> \<bar>N\<bar> / 1"
      unfolding az using Nlo Mlo by (intro frac_le) simp_all
    moreover have "(9007199254740992::rat) \<le> 2 ^ 64"
      by simp
    ultimately have zhi: "\<bar>z\<bar> \<le> 2 ^ 64"
      using Nhi by simp
    have fz: "binary64 z = Finite (magnitude (binary64 z))"
      using zlo zhi by (rule binary64_magnitude_rounded(1))
    have "N \<noteq> 0" "M \<noteq> 0"
      using Nlo Mlo by auto
    then have dv: "js_div (Finite N) (Finite M) = Finite (magnitude (binary64 z))"
      using fz by (simp add: js_div_def z_def)
    have "Math_ceil (Finite (magnitude (binary64 (of_int n / of_int m)))) =
          Math_ceil (Finite (of_int n / of_int m))"
      using binary64_magnitude_rounded(2) binary64_magnitude_of_int n53 assms(6,7)
      by (rule rounded_difference_ceiling [where rn = "\<lambda>x. magnitude (binary64 x)"])
    then have c: "Math_ceil (Finite (magnitude (binary64 z))) = Math_ceil (Finite (N / M))"
      by (simp only: z_def N_def M_def)
    have "(- 1 < N / M \<and> N / M < 0) = (p < s \<and> s - p < m)"
    proof -
      have pos: "(0::rat) < M" using Mlo by simp
      have a: "(- 1 < N / M) = (- M < N)"
        using pos by (simp add: pos_less_divide_eq)
      have b: "(N / M < 0) = (N < 0)"
        using pos by (simp add: divide_less_0_iff)
      have c: "(- M < N) = (- m < n)"
        unfolding M_def N_def by (metis of_int_less_iff of_int_minus)
      have d: "(N < 0) = (n < 0)"
        unfolding N_def by (simp only: of_int_less_0_iff)
      show ?thesis unfolding a b c d n_def by auto
    qed
    then have "Math_ceil (Finite (N / M)) =
       (if p < s \<and> s - p < m then NegZero else Finite (of_int \<lceil>N / M\<rceil>))"
      by simp
    then show ?thesis
      unfolding seasonDaily_def assms(1) to_number.simps sub N_def [symmetric] M_def [symmetric]
        dv c n_def [symmetric] by (simp only: N_def M_def)
  qed
qed

lemma seasonDaily_2_55:
  "seasonDaily (Some (Finite 3)) (Some (Finite 0))
     \<lparr>played = Finite 36028797018963968, points = Finite 0\<rparr> =
     Finite 12009599006321322"
  by (simp add: seasonDaily_def js_sub_def js_div_def binary64_2_55 third_of_2_55)

text \<open>
  On a negative quotient the ceiling rounds toward zero; the stored number is never
  positive then, and it is less than zero exactly when the excess reaches the member
  count.
\<close>

lemma ceiling_negative_truncates:
  fixes p s m :: int
  shows "\<lceil>(of_int (p - s) :: rat) / of_int m\<rceil> = - ((s - p) div m)"
proof -
  have "(of_int (p - s) :: rat) = - of_int (s - p)"
    by simp
  then have "(of_int (p - s) :: rat) / of_int m = - (of_int (s - p) / of_int m)"
    by (simp only: minus_divide_left)
  then have "\<lceil>(of_int (p - s) :: rat) / of_int m\<rceil> = - \<lfloor>(of_int (s - p) :: rat) / of_int m\<rfloor>"
    by (simp only: ceiling_minus)
  then show ?thesis
    by (simp only: floor_divide_of_int_eq)
qed

lemma seasonDaily_sign:
  assumes "d = (if p < s \<and> s - p < m then NegZero
                else Finite (of_int \<lceil>(of_int (p - s) :: rat) / of_int m\<rceil>))"
    and "0 < m" and "p < s"
  shows "\<not> js_lt (Finite 0) d"
    and "js_lt d (Finite 0) = (m \<le> s - p)"
proof -
  have neg: "(of_int (p - s) :: rat) / of_int m < 0"
    using assms(2,3) by (simp add: divide_less_0_iff)
  then have c: "\<lceil>(of_int (p - s) :: rat) / of_int m\<rceil> \<le> 0"
    by (simp add: ceiling_le_iff)
  have t: "\<lceil>(of_int (p - s) :: rat) / of_int m\<rceil> = - ((s - p) div m)"
    by (rule ceiling_negative_truncates)
  show "\<not> js_lt (Finite 0) d"
    using c by (simp add: assms(1) js_lt_def del: of_int_diff)
  have "(\<lceil>(of_int (p - s) :: rat) / of_int m\<rceil> < 0) = (m \<le> s - p)"
    unfolding t using assms(2,3) by (simp add: pos_imp_zdiv_pos_iff)
  then show "js_lt d (Finite 0) = (m \<le> s - p)"
    using assms(2,3) by (auto simp add: assms(1) js_lt_def simp del: of_int_diff)
qed

lemma seasonDaily_value:
  assumes "d = (if p < s \<and> s - p < m then NegZero
                else Finite (of_int \<lceil>(of_int (p - s) :: rat) / of_int m\<rceil>))"
    and "0 < m"
  shows "number_value d = Some (of_int \<lceil>(of_int (p - s) :: rat) / of_int m\<rceil>)"
proof (cases "p < s \<and> s - p < m")
  case True
  then have "(s - p) div m = 0"
    by (simp add: div_pos_pos_trivial)
  then have "\<lceil>(of_int (p - s) :: rat) / of_int m\<rceil> = 0"
    by (simp only: ceiling_negative_truncates)
  then show ?thesis
    using True by (simp add: assms(1) del: of_int_diff)
next
  case False
  then show ?thesis
    by (auto simp add: assms(1) simp del: of_int_diff)
qed

text \<open>
  Claim C2, as the script computes it. For leaderboards of at least 100 entries whose
  season milestone entries hold integer race counts from 0 to below \<open>2 ^ 53\<close>, a positive
  integer member count \<open>m\<close> below \<open>2 ^ 53\<close> and an integer season count \<open>s\<close> from 0 to
  below \<open>2 ^ 53\<close>: the season loop completes and stores in each milestone the number
  \<open>\<lceil>(racesPlayed - s) / m\<rceil>\<close>, as \<open>-0\<close> when \<open>s\<close> exceeds the race count by less than
  \<open>m\<close>; the calculation of the entry point returns this list as its season result; the
  entry point keeps it, unmodified, for the season button, whose click renders it. When
  \<open>s\<close> exceeds the race count the ceiling rounds toward zero (it is
  \<open>- ((s - racesPlayed) div m)\<close>), the result is never positive, and it is negative
  exactly when the excess is at least \<open>m\<close>.
\<close>

theorem season_dailyMemberRaces_ceiling:
  fixes racesPlayed :: "nat \<Rightarrow> int" and m s :: int
  assumes len: "100 \<le> length weekly" "100 \<le> length season"
    and m: "0 < m" "m < 2 ^ 53"
    and s: "0 \<le> s" "s < 2 ^ 53"
    and races: "\<forall>i\<in>{0, 2, 9, 49, 99}.
          0 \<le> racesPlayed i \<and> racesPlayed i < 2 ^ 53 \<and>
          played (season ! i) = Finite (of_int (racesPlayed i))"
  shows "(\<exists>seasonInfo.
           topInfo (Some season) = Inr seasonInfo \<and>
           assignDaily (seasonDaily (Some (Finite (of_int m))) (Some (Finite (of_int s)))) seasonInfo =
             Inr (expected
                    (\<lambda>i. if racesPlayed i < s \<and> s - racesPlayed i < m then NegZero
                         else Finite (of_int \<lceil>(of_int (racesPlayed i - s) :: rat) / of_int m\<rceil>))
                    season)) \<and>
         topRequirements (Some weekly) (Some season)
             (Some (Finite (of_int m))) (Some (Finite (of_int s))) =
           Inr (expected (\<lambda>i. weeklyDaily (Some (Finite (of_int m))) (weekly ! i)) weekly,
                expected
                  (\<lambda>i. if racesPlayed i < s \<and> s - racesPlayed i < m then NegZero
                       else Finite (of_int \<lceil>(of_int (racesPlayed i - s) :: rat) / of_int m\<rceil>))
                  season) \<and>
         (userTeamTAG (persist_nt (localStorage w)) = Inr (index (split CHR ''/'' (href pg)) 4) \<and>
          retrieveTeamStats pg (index (split CHR ''/'' (href pg)) 4) w =
            (Some (Finite (of_int m)), Some (Finite (of_int s)), w1) \<and>
          retrieveLeaderboards pg w1 = (Some weekly, Some season, w2) \<and>
          tables_container pg \<and> leaderboard_table pg \<longrightarrow>
            (\<exists>wd sc.
               main toLocaleString pg w = (Returned, w2\<lparr>document := Some wd, listeners := Some sc\<rparr>) \<and>
               seasonTopInfo sc =
                 expected
                   (\<lambda>i. if racesPlayed i < s \<and> s - racesPlayed i < m then NegZero
                        else Finite (of_int \<lceil>(of_int (racesPlayed i - s) :: rat) / of_int m\<rceil>))
                   season \<and>
               tableBody (clickSeason toLocaleString sc wd) =
                 Some (createTopTeamRequirementsTableBody toLocaleString
                         (expected
                            (\<lambda>i. if racesPlayed i < s \<and> s - racesPlayed i < m then NegZero
                                 else Finite (of_int \<lceil>(of_int (racesPlayed i - s) :: rat) / of_int m\<rceil>))
                            season)))) \<and>
         (\<forall>i\<in>{0, 2, 9, 49, 99}.
            seasonDaily (Some (Finite (of_int m))) (Some (Finite (of_int s))) (season ! i) =
              (if racesPlayed i < s \<and> s - racesPlayed i < m then NegZero
               else Finite (of_int \<lceil>(of_int (racesPlayed i - s) :: rat) / of_int m\<rceil>)) \<and>
            number_value
              (seasonDaily (Some (Finite (of_int m))) (Some (Finite (of_int s))) (season ! i)) =
              Some (of_int \<lceil>(of_int (racesPlayed i - s) :: rat) / of_int m\<rceil>) \<and>
            (racesPlayed i < s \<longrightarrow>
               \<lceil>(of_int (racesPlayed i - s) :: rat) / of_int m\<rceil> = - ((s - racesPlayed i) div m) \<and>
               \<not> js_lt (Finite 0)
                   (seasonDaily (Some (Finite (of_int m))) (Some (Finite (of_int s))) (season ! i)) \<and>
               js_lt (seasonDaily (Some (Finite (of_int m))) (Some (Finite (of_int s))) (season ! i))
                   (Finite 0) =
                 (m \<le> s - racesPlayed i)))"
proof -
  let ?d = "\<lambda>i. if racesPlayed i < s \<and> s - racesPlayed i < m then NegZero
                 else Finite (of_int \<lceil>(of_int (racesPlayed i - s) :: rat) / of_int m\<rceil>)"
  let ?mc = "Some (Finite (of_int m))"
  let ?sr = "Some (Finite (of_int s))"
  have daily: "\<forall>i\<in>{0, 2, 9, 49, 99}. seasonDaily ?mc ?sr (season ! i) = ?d i"
  proof
    fix i :: nat
    assume "i \<in> {0, 2, 9, 49, 99}"
    then have "played (season ! i) = Finite (of_int (racesPlayed i))"
      and "0 \<le> racesPlayed i" and "racesPlayed i < 2 ^ 53"
      using races by blast+
    then show "seasonDaily ?mc ?sr (season ! i) = ?d i"
      using s m by (rule seasonDaily_count)
  qed
  have same: "expected (\<lambda>i. seasonDaily ?mc ?sr (season ! i)) season = expected ?d season"
    using daily by (rule expected_cong)
  have loop: "\<exists>seasonInfo.
           topInfo (Some season) = Inr seasonInfo \<and>
           assignDaily (seasonDaily ?mc ?sr) seasonInfo = Inr (expected ?d season)"
  proof (intro exI conjI)
    show "topInfo (Some season) =
        Inr [(''top1'', Some (season ! 0)), (''top3'', Some (season ! 2)),
             (''top10'', Some (season ! 9)), (''top50'', Some (season ! 49)),
             (''top100'', Some (season ! 99))]"
      using len(2) by (rule topInfo_long)
    show "assignDaily (seasonDaily ?mc ?sr)
        [(''top1'', Some (season ! 0)), (''top3'', Some (season ! 2)),
         (''top10'', Some (season ! 9)), (''top50'', Some (season ! 49)),
         (''top100'', Some (season ! 99))] = Inr (expected ?d season)"
      by (simp only: assignDaily_long same)
  qed
  have both: "topRequirements (Some weekly) (Some season) ?mc ?sr =
           Inr (expected (\<lambda>i. weeklyDaily ?mc (weekly ! i)) weekly, expected ?d season)"
    by (simp only: topRequirements_long [OF len] same)
  have entry: "\<exists>wd sc.
         main toLocaleString pg w = (Returned, w2\<lparr>document := Some wd, listeners := Some sc\<rparr>) \<and>
         seasonTopInfo sc = expected ?d season \<and>
         tableBody (clickSeason toLocaleString sc wd) =
           Some (createTopTeamRequirementsTableBody toLocaleString (expected ?d season))"
    if "userTeamTAG (persist_nt (localStorage w)) = Inr (index (split CHR ''/'' (href pg)) 4) \<and>
        retrieveTeamStats pg (index (split CHR ''/'' (href pg)) 4) w = (?mc, ?sr, w1) \<and>
        retrieveLeaderboards pg w1 = (Some weekly, Some season, w2) \<and>
        tables_container pg \<and> leaderboard_table pg"
  proof -
    let ?sc = "\<lparr>weeklyTopInfo = expected (\<lambda>i. weeklyDaily ?mc (weekly ! i)) weekly,
                seasonTopInfo = expected ?d season,
                memberCount = ?mc, seasonRaces = ?sr\<rparr>"
    from that have guard: "userTeamTAG (persist_nt (localStorage w)) =
          Inr (index (split CHR ''/'' (href pg)) 4)"
      and team: "retrieveTeamStats pg (index (split CHR ''/'' (href pg)) 4) w = (?mc, ?sr, w1)"
      and boards: "retrieveLeaderboards pg w1 = (Some weekly, Some season, w2)"
      and anchors: "tables_container pg" "leaderboard_table pg"
      by simp_all
    have "main toLocaleString pg w =
        (Returned, w2\<lparr>document := Some (inserted toLocaleString ?sc), listeners := Some ?sc\<rparr>)"
      using guard team boards both anchors by (rule main_inserts)
    moreover have "seasonTopInfo ?sc = expected ?d season"
      by simp
    moreover have "tableBody (clickSeason toLocaleString ?sc (inserted toLocaleString ?sc)) =
        Some (createTopTeamRequirementsTableBody toLocaleString (expected ?d season))"
      by (simp add: clickSeason_def inserted_def createTopTeamRequirementsWidget_def)
    ultimately show ?thesis
      by blast
  qed
  have each: "seasonDaily ?mc ?sr (season ! i) = ?d i \<and>
            number_value (seasonDaily ?mc ?sr (season ! i)) =
              Some (of_int \<lceil>(of_int (racesPlayed i - s) :: rat) / of_int m\<rceil>) \<and>
            (racesPlayed i < s \<longrightarrow>
               \<lceil>(of_int (racesPlayed i - s) :: rat) / of_int m\<rceil> = - ((s - racesPlayed i) div m) \<and>
               \<not> js_lt (Finite 0) (seasonDaily ?mc ?sr (season ! i)) \<and>
               js_lt (seasonDaily ?mc ?sr (season ! i)) (Finite 0) = (m \<le> s - racesPlayed i))"
    if "i \<in> {0, 2, 9, 49, 99}" for i
  proof -
    have d: "seasonDaily ?mc ?sr (season ! i) = ?d i"
      using daily that by blast
    show ?thesis
      using d seasonDaily_value [OF d m(1)] seasonDaily_sign [OF d m(1)]
        ceiling_negative_truncates [of "racesPlayed i" s m]
      by blast
  qed
  from loop both entry each show ?thesis
    by blast
qed

text \<open>
  The theorem on the second example page, 25 members and 3000 season races: 5000 races
  at rank 1 give 80; 2990 races, ten less than the team has, give \<open>-0\<close>, which is not
  less than zero; 1010 races at rank 100 give \<open>\<lceil>-79.6\<rceil> = -79\<close>.
\<close>

theorem season_dailyMemberRaces_ceiling_witness:
  "100 \<le> length (map projection example_season_scores) \<and>
   topRequirements (Some (map projection example_season_scores))
     (Some (map projection example_season_scores)) (Some (Finite 25)) (Some (Finite 3000)) =
     Inr (expected
            (\<lambda>i. weeklyDaily (Some (Finite 25)) (map projection example_season_scores ! i))
            (map projection example_season_scores),
          [(''top1'', \<lparr>played = Finite 5000, points = Finite 900000, dailyMemberRaces = Finite 80\<rparr>),
           (''top3'', \<lparr>played = Finite 2990, points = Finite 49000, dailyMemberRaces = NegZero\<rparr>),
           (''top10'', \<lparr>played = Finite 2990, points = Finite 49000, dailyMemberRaces = NegZero\<rparr>),
           (''top50'', \<lparr>played = Finite 2990, points = Finite 49000, dailyMemberRaces = NegZero\<rparr>),
           (''top100'', \<lparr>played = Finite 1010, points = Finite 20000,
                         dailyMemberRaces = Finite (- 79)\<rparr>)]) \<and>
   (\<exists>wd sc.
      main example_toLocaleString example_season_page example_world =
        (Returned,
         example_world
           \<lparr>requests :=
              [''https://www.nitrotype.com/api/v2/teams/ABC'',
               ''https://www.nitrotype.com/api/v2/leaderboards?time=weekly'',
               ''https://www.nitrotype.com/api/v2/leaderboards?time=season''],
            now := 1700000000450,
            localStorage := (localStorage example_world)
              \<lparr>teamStats :=
                 Some (JSON \<lparr>payload = \<lparr>members = Finite 25, stats = [(''season'', Finite 3000)]\<rparr>,
                             timestamp = Finite 1700000000150\<rparr>),
               weeklyLeaderboardInfo :=
                 Some (JSON \<lparr>payload = example_season_scores, timestamp = Finite 1700000000300\<rparr>),
               seasonLeaderboardInfo :=
                 Some (JSON \<lparr>payload = example_season_scores, timestamp = Finite 1700000000450\<rparr>)\<rparr>,
            document := Some wd, listeners := Some sc\<rparr>) \<and>
      map (\<lambda>(key, v). (key, dailyMemberRaces v)) (seasonTopInfo sc) =
        [(''top1'', Finite 80), (''top3'', NegZero), (''top10'', NegZero), (''top50'', NegZero),
         (''top100'', Finite (- 79))] \<and>
      map_option (map races) (tableBody (clickSeason example_toLocaleString sc wd)) =
        Some [''5,000'', ''?'', ''?'', ''?'', ''?'']) \<and>
   seasonDaily (Some (Finite 25)) (Some (Finite 3000)) (map projection example_season_scores ! 2) =
     NegZero \<and>
   \<not> js_lt (seasonDaily (Some (Finite 25)) (Some (Finite 3000))
              (map projection example_season_scores ! 2)) (Finite 0) \<and>
   js_lt (seasonDaily (Some (Finite 25)) (Some (Finite 3000))
            (map projection example_season_scores ! 99)) (Finite 0)"
proof -
  let ?xs = "map projection example_season_scores"
  let ?rp = "\<lambda>i::nat. if i = 0 then 5000 else if i = 99 then 1010 else (2990::int)"
  let ?w1 = "example_world
        \<lparr>requests := [''https://www.nitrotype.com/api/v2/teams/ABC''],
         now := 1700000000150,
         localStorage := (localStorage example_world)
           \<lparr>teamStats :=
              Some (JSON \<lparr>payload = \<lparr>members = Finite 25, stats = [(''season'', Finite 3000)]\<rparr>,
                          timestamp = Finite 1700000000150\<rparr>)\<rparr>\<rparr>"
  let ?w2 = "example_world
        \<lparr>requests :=
           [''https://www.nitrotype.com/api/v2/teams/ABC'',
            ''https://www.nitrotype.com/api/v2/leaderboards?time=weekly'',
            ''https://www.nitrotype.com/api/v2/leaderboards?time=season''],
         now := 1700000000450,
         localStorage := (localStorage example_world)
           \<lparr>teamStats :=
              Some (JSON \<lparr>payload = \<lparr>members = Finite 25, stats = [(''season'', Finite 3000)]\<rparr>,
                          timestamp = Finite 1700000000150\<rparr>),
            weeklyLeaderboardInfo :=
              Some (JSON \<lparr>payload = example_season_scores, timestamp = Finite 1700000000300\<rparr>),
            seasonLeaderboardInfo :=
              Some (JSON \<lparr>payload = example_season_scores, timestamp = Finite 1700000000450\<rparr>)\<rparr>\<rparr>"
  let ?info = "[(''top1'', \<lparr>played = Finite 5000, points = Finite 900000, dailyMemberRaces = Finite 80\<rparr>),
           (''top3'', \<lparr>played = Finite 2990, points = Finite 49000, dailyMemberRaces = NegZero\<rparr>),
           (''top10'', \<lparr>played = Finite 2990, points = Finite 49000, dailyMemberRaces = NegZero\<rparr>),
           (''top50'', \<lparr>played = Finite 2990, points = Finite 49000, dailyMemberRaces = NegZero\<rparr>),
           (''top100'', \<lparr>played = Finite 1010, points = Finite 20000,
                         dailyMemberRaces = Finite (- 79)\<rparr>)]"
  have len: "100 \<le> length ?xs"
    by (simp add: example_season_scores_def)
  have m: "(0::int) < 25" "(25::int) < 2 ^ 53"
    by simp_all
  have s: "(0::int) \<le> 3000" "(3000::int) < 2 ^ 53"
    by simp_all
  have races: "\<forall>i\<in>{0, 2, 9, 49, 99}.
      0 \<le> ?rp i \<and> ?rp i < 2 ^ 53 \<and> played (?xs ! i) = Finite (of_int (?rp i))"
    by (simp add: example_season_scores_def projection_def nth_append)
  have tag: "index (split CHR ''/'' (href example_season_page)) 4 = Some ''ABC''"
    by (simp add: example_season_page_def example_page_def index_def)
  have guard: "userTeamTAG (persist_nt (localStorage example_world)) =
      Inr (index (split CHR ''/'' (href example_season_page)) 4)"
    unfolding tag by (simp add: example_world_def)
  have team: "retrieveTeamStats example_season_page
      (index (split CHR ''/'' (href example_season_page)) 4) example_world =
      (Some (Finite (of_int 25)), Some (Finite (of_int 3000)), ?w1)"
    unfolding tag
    by (simp add: retrieveTeamStats_def fetchTeamStats_def request_def example_world_def
          example_season_page_def example_page_def)
  have boards: "retrieveLeaderboards example_season_page ?w1 = (Some ?xs, Some ?xs, ?w2)"
    by (simp add: retrieveLeaderboards_def getWeeklyLeaderBoardInfoStats_def
          getSeasonLeaderBoardInfoStats_def request_def example_world_def
          example_season_page_def example_page_def)
  have anchors: "tables_container example_season_page" "leaderboard_table example_season_page"
    by (simp_all add: example_season_page_def example_page_def)
  note inst = season_dailyMemberRaces_ceiling
      [where weekly = "?xs" and season = "?xs" and m = 25 and s = 3000 and racesPlayed = "?rp"
         and w = example_world and pg = example_season_page and ?w1.0 = "?w1" and ?w2.0 = "?w2"
         and toLocaleString = example_toLocaleString,
       OF len len m s races]
  have c: "\<lceil>- (398 / 5 :: rat)\<rceil> = - 79"
    by (simp add: ceiling_eq_iff)
  have e: "expected
      (\<lambda>i. if ?rp i < 3000 \<and> 3000 - ?rp i < 25 then NegZero
           else Finite (of_int \<lceil>(of_int (?rp i - 3000) :: rat) / of_int 25\<rceil>)) ?xs = ?info"
    by (simp add: expected_def milestones_def example_season_scores_def projection_def nth_append c)
  have calc: "topRequirements (Some ?xs) (Some ?xs) (Some (Finite 25)) (Some (Finite 3000)) =
     Inr (expected (\<lambda>i. weeklyDaily (Some (Finite 25)) (?xs ! i)) ?xs, ?info)"
    using inst [THEN conjunct2, THEN conjunct1] unfolding e by simp
  from inst [THEN conjunct2, THEN conjunct2, THEN conjunct1, THEN mp,
      OF conjI [OF guard conjI [OF team conjI [OF boards conjI [OF anchors]]]]]
  obtain wd sc where
    r: "main example_toLocaleString example_season_page example_world =
        (Returned, ?w2\<lparr>document := Some wd, listeners := Some sc\<rparr>)"
    and i: "seasonTopInfo sc = ?info"
    and t: "tableBody (clickSeason example_toLocaleString sc wd) =
        Some (createTopTeamRequirementsTableBody example_toLocaleString ?info)"
    unfolding e by blast
  have a: "map (\<lambda>(key, v). (key, dailyMemberRaces v)) (seasonTopInfo sc) =
        [(''top1'', Finite 80), (''top3'', NegZero), (''top10'', NegZero), (''top50'', NegZero),
         (''top100'', Finite (- 79))]"
    by (simp add: i)
  have b: "map_option (map races) (tableBody (clickSeason example_toLocaleString sc wd)) =
        Some [''5,000'', ''?'', ''?'', ''?'', ''?'']"
    by (simp add: t createTopTeamRequirementsTableBody_def example_toLocaleString_def)
  have entry: "\<exists>wd sc.
      main example_toLocaleString example_season_page example_world =
        (Returned, ?w2\<lparr>document := Some wd, listeners := Some sc\<rparr>) \<and>
      map (\<lambda>(key, v). (key, dailyMemberRaces v)) (seasonTopInfo sc) =
        [(''top1'', Finite 80), (''top3'', NegZero), (''top10'', NegZero), (''top50'', NegZero),
         (''top100'', Finite (- 79))] \<and>
      map_option (map races) (tableBody (clickSeason example_toLocaleString sc wd)) =
        Some [''5,000'', ''?'', ''?'', ''?'', ''?'']"
    using r a b by (intro exI conjI)
  note each = inst [THEN conjunct2, THEN conjunct2, THEN conjunct2, rule_format]
  have z: "seasonDaily (Some (Finite 25)) (Some (Finite 3000)) (?xs ! 2) = NegZero"
    using each [of 2, THEN conjunct1] by simp
  have nz: "\<not> js_lt (seasonDaily (Some (Finite 25)) (Some (Finite 3000)) (?xs ! 2)) (Finite 0)"
    using each [of 2, THEN conjunct2, THEN conjunct2] by simp
  have ng: "js_lt (seasonDaily (Some (Finite 25)) (Some (Finite 3000)) (?xs ! 99)) (Finite 0)"
    using each [of 99, THEN conjunct2, THEN conjunct2] by simp
  show ?thesis
    by (intro conjI) (fact len calc entry z nz ng)+
qed

text \<open>
  Claim C2 as it is written says that the result is negative whenever the season count
  of the team exceeds the race count of the milestone, and speaks of every count. With
  10 members, 100 races at the milestones and 101 season races the script computes
  \<open>Math.ceil(-0.1)\<close>, which is \<open>-0\<close> and not less than zero. With 3 members, \<open>2 ^ 55\<close>
  races and no season races the division rounds \<open>12009599006321322.67\<close> down to an
  even integer: the script stores 12009599006321322, and the ceiling of the exact
  quotient is 12009599006321323.
\<close>

theorem season_dailyMemberRaces_zero_or_rounded:
  "(100::int) < 101 \<and>
   topRequirements
     (Some (replicate 100 \<lparr>played = Finite 100, points = Finite 5000\<rparr>))
     (Some (replicate 100 \<lparr>played = Finite 100, points = Finite 5000\<rparr>))
     (Some (Finite 10)) (Some (Finite 101)) =
     Inr (expected (\<lambda>i. Finite 2) (replicate 100 \<lparr>played = Finite 100, points = Finite 5000\<rparr>),
          expected (\<lambda>i. NegZero) (replicate 100 \<lparr>played = Finite 100, points = Finite 5000\<rparr>)) \<and>
   \<not> js_lt NegZero (Finite 0) \<and>
   seasonDaily (Some (Finite 3)) (Some (Finite 0))
     \<lparr>played = Finite 36028797018963968, points = Finite 0\<rparr> = Finite 12009599006321322 \<and>
   \<lceil>((36028797018963968::rat) - 0) / 3\<rceil> = 12009599006321323"
proof -
  have c: "\<lceil>(10 / 7 :: rat)\<rceil> = 2"
    by (simp add: ceiling_eq_iff)
  have w: "weeklyDaily (Some (Finite 10)) \<lparr>played = Finite 100, points = Finite 5000\<rparr> = Finite 2"
    using weeklyDaily_count [where p = 100 and m = 10
        and e = "\<lparr>played = Finite 100, points = Finite 5000\<rparr>"]
    by (simp add: c)
  have s: "seasonDaily (Some (Finite 10)) (Some (Finite 101))
      \<lparr>played = Finite 100, points = Finite 5000\<rparr> = NegZero"
    using seasonDaily_count [where p = 100 and s = 101 and m = 10
        and e = "\<lparr>played = Finite 100, points = Finite 5000\<rparr>"]
    by simp
  have "topRequirements
     (Some (replicate 100 \<lparr>played = Finite 100, points = Finite 5000\<rparr>))
     (Some (replicate 100 \<lparr>played = Finite 100, points = Finite 5000\<rparr>))
     (Some (Finite 10)) (Some (Finite 101)) =
     Inr (expected (\<lambda>i. Finite 2) (replicate 100 \<lparr>played = Finite 100, points = Finite 5000\<rparr>),
          expected (\<lambda>i. NegZero) (replicate 100 \<lparr>played = Finite 100, points = Finite 5000\<rparr>))"
    by (simp add: topRequirements_long expected_def milestones_def w s)
  moreover have "\<not> js_lt NegZero (Finite 0)"
    by (simp add: js_lt_def)
  ultimately show ?thesis
    using seasonDaily_2_55 ceilings_2_55(2) by simp
qed

section \<open>The requirement calculation is partial\<close>

lemma assignDaily_eq:
  "assignDaily f info =
     (if None \<in> snd ` set info then Inl TypeError
      else Inr (map (\<lambda>(key, v). (key, \<lparr>played = played (the v), points = points (the v),
                                        dailyMemberRaces = f (the v)\<rparr>)) info))"
  by (induction f info rule: assignDaily.induct) (auto simp: image_iff)

lemma topInfo_short:
  assumes "length xs < 100"
  shows "\<exists>info. topInfo (Some xs) = Inr info \<and> None \<in> snd ` set info"
  using assms by (simp add: topInfo_def index_def)

lemma topInfo_full:
  assumes "100 \<le> length xs"
  shows "\<exists>info. topInfo (Some xs) = Inr info \<and> None \<notin> snd ` set info"
  using assms by (auto simp add: topInfo_def index_def)

lemma topRequirements_throws_iff:
  "(topRequirements (Some weekly) (Some season) mc sr = Inl TypeError) =
     (length weekly < 100 \<or> length season < 100)"
proof (cases "length weekly < 100")
  case True
  then obtain wi where "topInfo (Some weekly) = Inr wi" "None \<in> snd ` set wi"
    using topInfo_short by blast
  moreover obtain si where "topInfo (Some season) = Inr si"
    by (simp add: topInfo_def)
  ultimately show ?thesis using True
    by (simp add: topRequirements_def assignDaily_eq)
next
  case False
  then obtain wi where wi: "topInfo (Some weekly) = Inr wi" "None \<notin> snd ` set wi"
    using topInfo_full [of weekly] by auto
  show ?thesis
  proof (cases "length season < 100")
    case True
    then obtain si where "topInfo (Some season) = Inr si" "None \<in> snd ` set si"
      using topInfo_short by blast
    then show ?thesis using True wi
      by (simp add: topRequirements_def assignDaily_eq)
  next
    case s: False
    then obtain si where "topInfo (Some season) = Inr si" "None \<notin> snd ` set si"
      using topInfo_full [of season] by auto
    then show ?thesis using s False wi
      by (simp add: topRequirements_def assignDaily_eq)
  qed
qed

lemma topRequirements_errors:
  "topRequirements weekly season mc sr = Inl e \<Longrightarrow> e = TypeError"
  by (auto simp: topRequirements_def topInfo_def assignDaily_eq split: option.splits sum.splits if_splits)

section \<open>The cache\<close>

text \<open>
  The freshness test on integer clock readings, and each operation on its branches: the
  entry is fresh, the entry is not JSON, the request is made, the response is successful,
  the response is not successful.
\<close>

lemma fresh_int:
  "js_lt (js_sub (Finite (of_int a)) (Finite (of_int t))) (Finite 1200000) =
     (a - t < 1200000)"
proof -
  define d where "d = a - t"
  have dr: "(of_int a :: rat) - of_int t = of_int d"
    by (simp add: d_def)
  consider "d = 0" | "d \<noteq> 0" "\<bar>d\<bar> < 2 ^ 53" | "2 ^ 53 \<le> d" | "d \<le> - (2 ^ 53)"
    by linarith
  then have "js_lt (js_sub (Finite (of_int a)) (Finite (of_int t))) (Finite 1200000) = (d < 1200000)"
  proof cases
    case 1
    then show ?thesis
      by (simp add: js_sub_def js_lt_def dr)
  next
    case 2
    have "((of_int d :: rat) < 1200000) = (d < 1200000)"
      by (metis of_int_less_iff of_int_numeral)
    then show ?thesis
      using 2 by (simp add: js_sub_def js_lt_def dr binary64_of_int)
  next
    case 3
    define x :: rat where "x = of_int d"
    have "(2::rat) ^ 53 \<le> x"
      unfolding x_def using 3 by (metis of_int_le_iff of_int_numeral of_int_power)
    then have xge: "9007199254740992 \<le> x"
      by simp
    have "(2::rat) powi (- 1022) \<le> 2 powi 0"
      by (simp add: two_powi_le_iff)
    then have lo: "2 powi (- 1022) \<le> \<bar>x\<bar>"
      using xge by simp
    define y where "y = of_int (round_half_even (x / quantum x)) * quantum x"
    have err: "\<bar>y - x\<bar> \<le> \<bar>x\<bar> / 2 ^ 53"
      unfolding y_def using lo by (rule binary64_rounded(1))
    have b: "binary64 x = (if 2 ^ 1024 \<le> \<bar>y\<bar> then Infinity (x < 0) else Finite y)"
      unfolding y_def using lo by (rule binary64_rounded(2))
    have "\<bar>x\<bar> / 2 ^ 53 = x / 9007199254740992"
      using xge by simp
    then have "1200000 \<le> y"
      using err xge by linarith
    then have "\<not> js_lt (binary64 x) (Finite 1200000)"
      using xge by (simp add: b js_lt_def)
    moreover have "d \<noteq> 0" "\<not> d < 1200000"
      using 3 by simp_all
    ultimately show ?thesis
      by (simp add: js_sub_def dr x_def)
  next
    case 4
    define x :: rat where "x = of_int d"
    have "x \<le> - (2 ^ 53)"
      unfolding x_def using 4 by (metis of_int_le_iff of_int_minus of_int_numeral of_int_power)
    then have xle: "x \<le> - 9007199254740992"
      by simp
    have "(2::rat) powi (- 1022) \<le> 2 powi 0"
      by (simp add: two_powi_le_iff)
    then have lo: "2 powi (- 1022) \<le> \<bar>x\<bar>"
      using xle by simp
    define y where "y = of_int (round_half_even (x / quantum x)) * quantum x"
    have err: "\<bar>y - x\<bar> \<le> \<bar>x\<bar> / 2 ^ 53"
      unfolding y_def using lo by (rule binary64_rounded(1))
    have b: "binary64 x = (if 2 ^ 1024 \<le> \<bar>y\<bar> then Infinity (x < 0) else Finite y)"
      unfolding y_def using lo by (rule binary64_rounded(2))
    have "\<bar>x\<bar> / 2 ^ 53 = - x / 9007199254740992"
      using xle by simp
    then have "y < 1200000"
      using err xle by linarith
    then have "js_lt (binary64 x) (Finite 1200000)"
      using xle by (simp add: b js_lt_def)
    moreover have "d \<noteq> 0" "d < 1200000"
      using 4 by simp_all
    ultimately show ?thesis
      by (simp add: js_sub_def dr x_def)
  qed
  then show ?thesis
    by (simp only: d_def)
qed

lemma cached_payload_written:
  "cached_payload a (Some (JSON \<lparr>payload = d, timestamp = Finite (of_int t)\<rparr>)) =
     Inr (if a - t < 1200000 then Some d else None)"
  by (simp add: fresh_int)

lemma fetchTeamStats_hit:
  assumes "cached_payload (now w) (teamStats (localStorage w)) = Inr (Some d)"
  shows "fetchTeamStats pg tag w = (Inr d, w)"
  using assms by (simp add: fetchTeamStats_def)

lemma fetchTeamStats_malformed:
  assumes "teamStats (localStorage w) = Some NotJSON"
  shows "fetchTeamStats pg tag w =
     (Inl SyntaxError,
      w\<lparr>console := console w @ [(''Error fetching team stats'', Some SyntaxError)]\<rparr>)"
  using assms by (simp add: fetchTeamStats_def)

lemma fetchTeamStats_miss_requests:
  assumes "cached_payload (now w) (teamStats (localStorage w)) = Inr None"
  shows "requests (snd (fetchTeamStats pg tag w)) =
     requests w @ [''https://www.nitrotype.com/api/v2/teams/'' @ template tag]"
  using assms
  by (simp add: fetchTeamStats_def request_def Let_def split: response.splits option.splits)

lemma fetchTeamStats_miss_ok:
  assumes "cached_payload (now w) (teamStats (localStorage w)) = Inr None"
    and "teams_api pg (template tag) = Response True status (Some d)"
  shows "fetchTeamStats pg tag w =
     (Inr d,
      w\<lparr>requests := requests w @ [''https://www.nitrotype.com/api/v2/teams/'' @ template tag],
        now := now w + int (latency pg),
        localStorage := (localStorage w)
          \<lparr>teamStats :=
             Some (JSON \<lparr>payload = d,
                         timestamp = Finite (of_int (now w + int (latency pg)))\<rparr>)\<rparr>\<rparr>)"
  using assms by (simp add: fetchTeamStats_def request_def Let_def)

lemma fetchTeamStats_miss_failed:
  assumes "cached_payload (now w) (teamStats (localStorage w)) = Inr None"
    and "teams_api pg (template tag) = Response False status body"
  shows "fetchTeamStats pg tag w =
     (Inl (Failed ''team stats'' status),
      w\<lparr>requests := requests w @ [''https://www.nitrotype.com/api/v2/teams/'' @ template tag],
        now := now w + int (latency pg),
        console := console w @
          [(''Error fetching team stats'', Some (Failed ''team stats'' status))]\<rparr>)"
  using assms by (simp add: fetchTeamStats_def request_def Let_def)

lemma fetchTeamStats_document:
  "document (snd (fetchTeamStats pg tag w)) = document w"
  by (cases "cached_payload (now w) (teamStats (localStorage w))")
     (simp_all add: fetchTeamStats_def request_def Let_def
        split: response.splits option.splits)

lemma getSeasonLeaderBoardInfoStats_hit:
  assumes "cached_payload (now w) (seasonLeaderboardInfo (localStorage w)) = Inr (Some d)"
  shows "getSeasonLeaderBoardInfoStats pg w = (Inr d, w)"
  using assms by (simp add: getSeasonLeaderBoardInfoStats_def)

lemma getSeasonLeaderBoardInfoStats_malformed:
  assumes "seasonLeaderboardInfo (localStorage w) = Some NotJSON"
  shows "getSeasonLeaderBoardInfoStats pg w =
     (Inl SyntaxError,
      w\<lparr>console := console w @ [(''Error fetching season leaderboard'', Some SyntaxError)]\<rparr>)"
  using assms by (simp add: getSeasonLeaderBoardInfoStats_def)

lemma getSeasonLeaderBoardInfoStats_miss_requests:
  assumes "cached_payload (now w) (seasonLeaderboardInfo (localStorage w)) = Inr None"
  shows "requests (snd (getSeasonLeaderBoardInfoStats pg w)) =
     requests w @ [''https://www.nitrotype.com/api/v2/leaderboards?time=season'']"
  using assms
  by (simp add: getSeasonLeaderBoardInfoStats_def request_def Let_def split: response.splits option.splits)

lemma getSeasonLeaderBoardInfoStats_miss_ok:
  assumes "cached_payload (now w) (seasonLeaderboardInfo (localStorage w)) = Inr None"
    and "leaderboards_api pg ''season'' = Response True status (Some d)"
  shows "getSeasonLeaderBoardInfoStats pg w =
     (Inr d,
      w\<lparr>requests := requests w @ [''https://www.nitrotype.com/api/v2/leaderboards?time=season''],
        now := now w + int (latency pg),
        localStorage := (localStorage w)
          \<lparr>seasonLeaderboardInfo :=
             Some (JSON \<lparr>payload = d,
                         timestamp = Finite (of_int (now w + int (latency pg)))\<rparr>)\<rparr>\<rparr>)"
  using assms by (simp add: getSeasonLeaderBoardInfoStats_def request_def Let_def)

lemma getSeasonLeaderBoardInfoStats_miss_failed:
  assumes "cached_payload (now w) (seasonLeaderboardInfo (localStorage w)) = Inr None"
    and "leaderboards_api pg ''season'' = Response False status body"
  shows "getSeasonLeaderBoardInfoStats pg w =
     (Inl (Failed ''season leaderboard'' status),
      w\<lparr>requests := requests w @ [''https://www.nitrotype.com/api/v2/leaderboards?time=season''],
        now := now w + int (latency pg),
        console := console w @
          [(''Error fetching season leaderboard'', Some (Failed ''season leaderboard'' status))]\<rparr>)"
  using assms by (simp add: getSeasonLeaderBoardInfoStats_def request_def Let_def)

lemma getSeasonLeaderBoardInfoStats_document:
  "document (snd (getSeasonLeaderBoardInfoStats pg w)) = document w"
  by (cases "cached_payload (now w) (seasonLeaderboardInfo (localStorage w))")
     (simp_all add: getSeasonLeaderBoardInfoStats_def request_def Let_def
        split: response.splits option.splits)

lemma getWeeklyLeaderBoardInfoStats_hit:
  assumes "cached_payload (now w) (weeklyLeaderboardInfo (localStorage w)) = Inr (Some d)"
  shows "getWeeklyLeaderBoardInfoStats pg w = (Inr d, w)"
  using assms by (simp add: getWeeklyLeaderBoardInfoStats_def)

lemma getWeeklyLeaderBoardInfoStats_malformed:
  assumes "weeklyLeaderboardInfo (localStorage w) = Some NotJSON"
  shows "getWeeklyLeaderBoardInfoStats pg w =
     (Inl SyntaxError,
      w\<lparr>console := console w @ [(''Error fetching season leaderboard'', Some SyntaxError)]\<rparr>)"
  using assms by (simp add: getWeeklyLeaderBoardInfoStats_def)

lemma getWeeklyLeaderBoardInfoStats_miss_requests:
  assumes "cached_payload (now w) (weeklyLeaderboardInfo (localStorage w)) = Inr None"
  shows "requests (snd (getWeeklyLeaderBoardInfoStats pg w)) =
     requests w @ [''https://www.nitrotype.com/api/v2/leaderboards?time=weekly'']"
  using assms
  by (simp add: getWeeklyLeaderBoardInfoStats_def request_def Let_def split: response.splits option.splits)

lemma getWeeklyLeaderBoardInfoStats_miss_ok:
  assumes "cached_payload (now w) (weeklyLeaderboardInfo (localStorage w)) = Inr None"
    and "leaderboards_api pg ''weekly'' = Response True status (Some d)"
  shows "getWeeklyLeaderBoardInfoStats pg w =
     (Inr d,
      w\<lparr>requests := requests w @ [''https://www.nitrotype.com/api/v2/leaderboards?time=weekly''],
        now := now w + int (latency pg),
        localStorage := (localStorage w)
          \<lparr>weeklyLeaderboardInfo :=
             Some (JSON \<lparr>payload = d,
                         timestamp = Finite (of_int (now w + int (latency pg)))\<rparr>)\<rparr>\<rparr>)"
  using assms by (simp add: getWeeklyLeaderBoardInfoStats_def request_def Let_def)

lemma getWeeklyLeaderBoardInfoStats_miss_failed:
  assumes "cached_payload (now w) (weeklyLeaderboardInfo (localStorage w)) = Inr None"
    and "leaderboards_api pg ''weekly'' = Response False status body"
  shows "getWeeklyLeaderBoardInfoStats pg w =
     (Inl (Failed ''weekly leaderboard'' status),
      w\<lparr>requests := requests w @ [''https://www.nitrotype.com/api/v2/leaderboards?time=weekly''],
        now := now w + int (latency pg),
        console := console w @
          [(''Error fetching season leaderboard'', Some (Failed ''weekly leaderboard'' status))]\<rparr>)"
  using assms by (simp add: getWeeklyLeaderBoardInfoStats_def request_def Let_def)

lemma getWeeklyLeaderBoardInfoStats_document:
  "document (snd (getWeeklyLeaderBoardInfoStats pg w)) = document w"
  by (cases "cached_payload (now w) (weeklyLeaderboardInfo (localStorage w))")
     (simp_all add: getWeeklyLeaderBoardInfoStats_def request_def Let_def
        split: response.splits option.splits)
lemma fetchTeamStats_write:
  assumes "cached_payload (now w) (teamStats (localStorage w)) = Inr None"
    and "teams_api pg (template tag) = Response True status (Some d)"
  shows "fst (fetchTeamStats pg tag w) = Inr d"
    and "teamStats (localStorage (snd (fetchTeamStats pg tag w))) =
           Some (JSON \<lparr>payload = d,
                       timestamp = Finite (of_int (now (snd (fetchTeamStats pg tag w))))\<rparr>)"
  by (simp_all add: fetchTeamStats_miss_ok [OF assms])

lemma fetchTeamStats_read:
  assumes "teamStats (localStorage v) =
     Some (JSON \<lparr>payload = d, timestamp = Finite (of_int t)\<rparr>)"
  shows "now v - t < 20 * 60 * 1000 \<Longrightarrow> fetchTeamStats pg tag v = (Inr d, v)"
    and "20 * 60 * 1000 \<le> now v - t \<Longrightarrow>
           requests (snd (fetchTeamStats pg tag v)) =
             requests v @ [''https://www.nitrotype.com/api/v2/teams/'' @ template tag]"
proof -
  assume "now v - t < 20 * 60 * 1000"
  then have "cached_payload (now v) (teamStats (localStorage v)) = Inr (Some d)"
    by (simp only: assms cached_payload_written) simp
  then show "fetchTeamStats pg tag v = (Inr d, v)"
    by (rule fetchTeamStats_hit)
next
  assume "20 * 60 * 1000 \<le> now v - t"
  then have "cached_payload (now v) (teamStats (localStorage v)) = Inr None"
    by (simp only: assms cached_payload_written) simp
  then show "requests (snd (fetchTeamStats pg tag v)) =
             requests v @ [''https://www.nitrotype.com/api/v2/teams/'' @ template tag]"
    by (rule fetchTeamStats_miss_requests)
qed

lemma getSeasonLeaderBoardInfoStats_write:
  assumes "cached_payload (now w) (seasonLeaderboardInfo (localStorage w)) = Inr None"
    and "leaderboards_api pg ''season'' = Response True status (Some d)"
  shows "fst (getSeasonLeaderBoardInfoStats pg w) = Inr d"
    and "seasonLeaderboardInfo (localStorage (snd (getSeasonLeaderBoardInfoStats pg w))) =
           Some (JSON \<lparr>payload = d,
                       timestamp = Finite (of_int (now (snd (getSeasonLeaderBoardInfoStats pg w))))\<rparr>)"
  by (simp_all add: getSeasonLeaderBoardInfoStats_miss_ok [OF assms])

lemma getSeasonLeaderBoardInfoStats_read:
  assumes "seasonLeaderboardInfo (localStorage v) =
     Some (JSON \<lparr>payload = d, timestamp = Finite (of_int t)\<rparr>)"
  shows "now v - t < 20 * 60 * 1000 \<Longrightarrow> getSeasonLeaderBoardInfoStats pg v = (Inr d, v)"
    and "20 * 60 * 1000 \<le> now v - t \<Longrightarrow>
           requests (snd (getSeasonLeaderBoardInfoStats pg v)) =
             requests v @ [''https://www.nitrotype.com/api/v2/leaderboards?time=season'']"
proof -
  assume "now v - t < 20 * 60 * 1000"
  then have "cached_payload (now v) (seasonLeaderboardInfo (localStorage v)) = Inr (Some d)"
    by (simp only: assms cached_payload_written) simp
  then show "getSeasonLeaderBoardInfoStats pg v = (Inr d, v)"
    by (rule getSeasonLeaderBoardInfoStats_hit)
next
  assume "20 * 60 * 1000 \<le> now v - t"
  then have "cached_payload (now v) (seasonLeaderboardInfo (localStorage v)) = Inr None"
    by (simp only: assms cached_payload_written) simp
  then show "requests (snd (getSeasonLeaderBoardInfoStats pg v)) =
             requests v @ [''https://www.nitrotype.com/api/v2/leaderboards?time=season'']"
    by (rule getSeasonLeaderBoardInfoStats_miss_requests)
qed

lemma getWeeklyLeaderBoardInfoStats_write:
  assumes "cached_payload (now w) (weeklyLeaderboardInfo (localStorage w)) = Inr None"
    and "leaderboards_api pg ''weekly'' = Response True status (Some d)"
  shows "fst (getWeeklyLeaderBoardInfoStats pg w) = Inr d"
    and "weeklyLeaderboardInfo (localStorage (snd (getWeeklyLeaderBoardInfoStats pg w))) =
           Some (JSON \<lparr>payload = d,
                       timestamp = Finite (of_int (now (snd (getWeeklyLeaderBoardInfoStats pg w))))\<rparr>)"
  by (simp_all add: getWeeklyLeaderBoardInfoStats_miss_ok [OF assms])

lemma getWeeklyLeaderBoardInfoStats_read:
  assumes "weeklyLeaderboardInfo (localStorage v) =
     Some (JSON \<lparr>payload = d, timestamp = Finite (of_int t)\<rparr>)"
  shows "now v - t < 20 * 60 * 1000 \<Longrightarrow> getWeeklyLeaderBoardInfoStats pg v = (Inr d, v)"
    and "20 * 60 * 1000 \<le> now v - t \<Longrightarrow>
           requests (snd (getWeeklyLeaderBoardInfoStats pg v)) =
             requests v @ [''https://www.nitrotype.com/api/v2/leaderboards?time=weekly'']"
proof -
  assume "now v - t < 20 * 60 * 1000"
  then have "cached_payload (now v) (weeklyLeaderboardInfo (localStorage v)) = Inr (Some d)"
    by (simp only: assms cached_payload_written) simp
  then show "getWeeklyLeaderBoardInfoStats pg v = (Inr d, v)"
    by (rule getWeeklyLeaderBoardInfoStats_hit)
next
  assume "20 * 60 * 1000 \<le> now v - t"
  then have "cached_payload (now v) (weeklyLeaderboardInfo (localStorage v)) = Inr None"
    by (simp only: assms cached_payload_written) simp
  then show "requests (snd (getWeeklyLeaderBoardInfoStats pg v)) =
             requests v @ [''https://www.nitrotype.com/api/v2/leaderboards?time=weekly'']"
    by (rule getWeeklyLeaderBoardInfoStats_miss_requests)
qed


text \<open>
  Claim C3. Each of the three operations, when it has to ask the network and the response
  is successful, returns the payload and stores it under its key with \<open>timestamp\<close>
  equal to \<open>Date.now()\<close> at the write, the same clock that the freshness test reads.
  Whoever later finds this entry in the store gets the identical payload back, without a
  request and without any other effect, as long as less than 20 minutes have passed on that
  clock; from 20 minutes on the entry counts for nothing and the request is made.
\<close>

theorem cache_round_trip:
  fixes w v :: "'x world" and pg pg' :: "'x page"
  shows
   "(cached_payload (now w) (teamStats (localStorage w)) = Inr None \<and>
     teams_api pg (template tag) = Response True status (Some d) \<longrightarrow>
       fst (fetchTeamStats pg tag w) = Inr d \<and>
       teamStats (localStorage (snd (fetchTeamStats pg tag w))) =
         Some (JSON \<lparr>payload = d,
                     timestamp = Finite (of_int (now (snd (fetchTeamStats pg tag w))))\<rparr>) \<and>
       (teamStats (localStorage v) = teamStats (localStorage (snd (fetchTeamStats pg tag w))) \<longrightarrow>
          (now v - now (snd (fetchTeamStats pg tag w)) < 20 * 60 * 1000 \<longrightarrow>
             fetchTeamStats pg' tag' v = (Inr d, v)) \<and>
          (20 * 60 * 1000 \<le> now v - now (snd (fetchTeamStats pg tag w)) \<longrightarrow>
             requests (snd (fetchTeamStats pg' tag' v)) =
               requests v @ [''https://www.nitrotype.com/api/v2/teams/'' @ template tag']))) \<and>
    (cached_payload (now w) (seasonLeaderboardInfo (localStorage w)) = Inr None \<and>
     leaderboards_api pg ''season'' = Response True status (Some scores) \<longrightarrow>
       fst (getSeasonLeaderBoardInfoStats pg w) = Inr scores \<and>
       seasonLeaderboardInfo (localStorage (snd (getSeasonLeaderBoardInfoStats pg w))) =
         Some (JSON \<lparr>payload = scores,
                     timestamp =
                       Finite (of_int (now (snd (getSeasonLeaderBoardInfoStats pg w))))\<rparr>) \<and>
       (seasonLeaderboardInfo (localStorage v) =
          seasonLeaderboardInfo (localStorage (snd (getSeasonLeaderBoardInfoStats pg w))) \<longrightarrow>
          (now v - now (snd (getSeasonLeaderBoardInfoStats pg w)) < 20 * 60 * 1000 \<longrightarrow>
             getSeasonLeaderBoardInfoStats pg' v = (Inr scores, v)) \<and>
          (20 * 60 * 1000 \<le> now v - now (snd (getSeasonLeaderBoardInfoStats pg w)) \<longrightarrow>
             requests (snd (getSeasonLeaderBoardInfoStats pg' v)) =
               requests v @ [''https://www.nitrotype.com/api/v2/leaderboards?time=season'']))) \<and>
    (cached_payload (now w) (weeklyLeaderboardInfo (localStorage w)) = Inr None \<and>
     leaderboards_api pg ''weekly'' = Response True status (Some scores) \<longrightarrow>
       fst (getWeeklyLeaderBoardInfoStats pg w) = Inr scores \<and>
       weeklyLeaderboardInfo (localStorage (snd (getWeeklyLeaderBoardInfoStats pg w))) =
         Some (JSON \<lparr>payload = scores,
                     timestamp =
                       Finite (of_int (now (snd (getWeeklyLeaderBoardInfoStats pg w))))\<rparr>) \<and>
       (weeklyLeaderboardInfo (localStorage v) =
          weeklyLeaderboardInfo (localStorage (snd (getWeeklyLeaderBoardInfoStats pg w))) \<longrightarrow>
          (now v - now (snd (getWeeklyLeaderBoardInfoStats pg w)) < 20 * 60 * 1000 \<longrightarrow>
             getWeeklyLeaderBoardInfoStats pg' v = (Inr scores, v)) \<and>
          (20 * 60 * 1000 \<le> now v - now (snd (getWeeklyLeaderBoardInfoStats pg w)) \<longrightarrow>
             requests (snd (getWeeklyLeaderBoardInfoStats pg' v)) =
               requests v @ [''https://www.nitrotype.com/api/v2/leaderboards?time=weekly''])))"
proof (intro conjI impI; (elim conjE)?)
  assume miss: "cached_payload (now w) (teamStats (localStorage w)) = Inr None"
    and ok: "teams_api pg (template tag) = Response True status (Some d)"
  show "fst (fetchTeamStats pg tag w) = Inr d"
    by (rule fetchTeamStats_write [OF miss ok])
  show written: "teamStats (localStorage (snd (fetchTeamStats pg tag w))) =
         Some (JSON \<lparr>payload = d,
                     timestamp = Finite (of_int (now (snd (fetchTeamStats pg tag w))))\<rparr>)"
    by (rule fetchTeamStats_write [OF miss ok])
  assume "teamStats (localStorage v) = teamStats (localStorage (snd (fetchTeamStats pg tag w)))"
  then have slot: "teamStats (localStorage v) =
         Some (JSON \<lparr>payload = d,
                     timestamp = Finite (of_int (now (snd (fetchTeamStats pg tag w))))\<rparr>)"
    by (simp only: written)
  show "fetchTeamStats pg' tag' v = (Inr d, v)"
    if "now v - now (snd (fetchTeamStats pg tag w)) < 20 * 60 * 1000"
    using slot that by (rule fetchTeamStats_read)
  show "requests (snd (fetchTeamStats pg' tag' v)) =
               requests v @ [''https://www.nitrotype.com/api/v2/teams/'' @ template tag']"
    if "20 * 60 * 1000 \<le> now v - now (snd (fetchTeamStats pg tag w))"
    using slot that by (rule fetchTeamStats_read)
next
  assume miss: "cached_payload (now w) (seasonLeaderboardInfo (localStorage w)) = Inr None"
    and ok: "leaderboards_api pg ''season'' = Response True status (Some scores)"
  show "fst (getSeasonLeaderBoardInfoStats pg w) = Inr scores"
    by (rule getSeasonLeaderBoardInfoStats_write [OF miss ok])
  show written: "seasonLeaderboardInfo (localStorage (snd (getSeasonLeaderBoardInfoStats pg w))) =
         Some (JSON \<lparr>payload = scores,
                     timestamp =
                       Finite (of_int (now (snd (getSeasonLeaderBoardInfoStats pg w))))\<rparr>)"
    by (rule getSeasonLeaderBoardInfoStats_write [OF miss ok])
  assume "seasonLeaderboardInfo (localStorage v) =
          seasonLeaderboardInfo (localStorage (snd (getSeasonLeaderBoardInfoStats pg w)))"
  then have slot: "seasonLeaderboardInfo (localStorage v) =
         Some (JSON \<lparr>payload = scores,
                     timestamp =
                       Finite (of_int (now (snd (getSeasonLeaderBoardInfoStats pg w))))\<rparr>)"
    by (simp only: written)
  show "getSeasonLeaderBoardInfoStats pg' v = (Inr scores, v)"
    if "now v - now (snd (getSeasonLeaderBoardInfoStats pg w)) < 20 * 60 * 1000"
    using slot that by (rule getSeasonLeaderBoardInfoStats_read)
  show "requests (snd (getSeasonLeaderBoardInfoStats pg' v)) =
               requests v @ [''https://www.nitrotype.com/api/v2/leaderboards?time=season'']"
    if "20 * 60 * 1000 \<le> now v - now (snd (getSeasonLeaderBoardInfoStats pg w))"
    using slot that by (rule getSeasonLeaderBoardInfoStats_read)
next
  assume miss: "cached_payload (now w) (weeklyLeaderboardInfo (localStorage w)) = Inr None"
    and ok: "leaderboards_api pg ''weekly'' = Response True status (Some scores)"
  show "fst (getWeeklyLeaderBoardInfoStats pg w) = Inr scores"
    by (rule getWeeklyLeaderBoardInfoStats_write [OF miss ok])
  show written: "weeklyLeaderboardInfo (localStorage (snd (getWeeklyLeaderBoardInfoStats pg w))) =
         Some (JSON \<lparr>payload = scores,
                     timestamp =
                       Finite (of_int (now (snd (getWeeklyLeaderBoardInfoStats pg w))))\<rparr>)"
    by (rule getWeeklyLeaderBoardInfoStats_write [OF miss ok])
  assume "weeklyLeaderboardInfo (localStorage v) =
          weeklyLeaderboardInfo (localStorage (snd (getWeeklyLeaderBoardInfoStats pg w)))"
  then have slot: "weeklyLeaderboardInfo (localStorage v) =
         Some (JSON \<lparr>payload = scores,
                     timestamp =
                       Finite (of_int (now (snd (getWeeklyLeaderBoardInfoStats pg w))))\<rparr>)"
    by (simp only: written)
  show "getWeeklyLeaderBoardInfoStats pg' v = (Inr scores, v)"
    if "now v - now (snd (getWeeklyLeaderBoardInfoStats pg w)) < 20 * 60 * 1000"
    using slot that by (rule getWeeklyLeaderBoardInfoStats_read)
  show "requests (snd (getWeeklyLeaderBoardInfoStats pg' v)) =
               requests v @ [''https://www.nitrotype.com/api/v2/leaderboards?time=weekly'']"
    if "20 * 60 * 1000 \<le> now v - now (snd (getWeeklyLeaderBoardInfoStats pg w))"
    using slot that by (rule getWeeklyLeaderBoardInfoStats_read)
qed


text \<open>
  The theorem on the example: the entry written at 1700000000150 is served 1199999 ms
  later and asked for again 1200000 ms later.
\<close>

theorem cache_round_trip_witness:
  "teamStats (localStorage (snd (fetchTeamStats example_page (Some ''ABC'') example_world))) =
     Some (JSON \<lparr>payload = example_team, timestamp = Finite 1700000000150\<rparr>) \<and>
   fetchTeamStats example_page (Some ''ABC'') (example_later 1199999) =
     (Inr example_team, example_later 1199999) \<and>
   getSeasonLeaderBoardInfoStats example_page (example_later 1199999) =
     (Inr example_scores, example_later 1199999) \<and>
   getWeeklyLeaderBoardInfoStats example_page (example_later 1199999) =
     (Inr example_scores, example_later 1199999) \<and>
   requests (snd (fetchTeamStats example_page (Some ''ABC'') (example_later 1200000))) =
     [''https://www.nitrotype.com/api/v2/teams/ABC'']"
proof -
  have miss: "cached_payload (now example_world) (teamStats (localStorage example_world)) = Inr None"
    "cached_payload (now example_world) (seasonLeaderboardInfo (localStorage example_world)) = Inr None"
    "cached_payload (now example_world) (weeklyLeaderboardInfo (localStorage example_world)) = Inr None"
    by (simp_all add: example_world_def)
  have ok: "teams_api example_page (template (Some ''ABC'')) = Response True 200 (Some example_team)"
    "leaderboards_api example_page ''season'' = Response True 200 (Some example_scores)"
    "leaderboards_api example_page ''weekly'' = Response True 200 (Some example_scores)"
    by (simp_all add: example_page_def)
  have t: "fetchTeamStats example_page (Some ''ABC'') example_world =
      (Inr example_team,
       example_world
        \<lparr>requests := [''https://www.nitrotype.com/api/v2/teams/ABC''],
         now := 1700000000150,
         localStorage := (localStorage example_world)
           \<lparr>teamStats := Some (JSON \<lparr>payload = example_team, timestamp = Finite 1700000000150\<rparr>)\<rparr>\<rparr>)"
    using fetchTeamStats_miss_ok [OF miss(1) ok(1)] by (simp add: example_world_def example_page_def)
  have s: "getSeasonLeaderBoardInfoStats example_page example_world =
      (Inr example_scores,
       example_world
        \<lparr>requests := [''https://www.nitrotype.com/api/v2/leaderboards?time=season''],
         now := 1700000000150,
         localStorage := (localStorage example_world)
           \<lparr>seasonLeaderboardInfo := Some (JSON \<lparr>payload = example_scores, timestamp = Finite 1700000000150\<rparr>)\<rparr>\<rparr>)"
    using getSeasonLeaderBoardInfoStats_miss_ok [OF miss(2) ok(2)] by (simp add: example_world_def example_page_def)
  have k: "getWeeklyLeaderBoardInfoStats example_page example_world =
      (Inr example_scores,
       example_world
        \<lparr>requests := [''https://www.nitrotype.com/api/v2/leaderboards?time=weekly''],
         now := 1700000000150,
         localStorage := (localStorage example_world)
           \<lparr>weeklyLeaderboardInfo := Some (JSON \<lparr>payload = example_scores, timestamp = Finite 1700000000150\<rparr>)\<rparr>\<rparr>)"
    using getWeeklyLeaderBoardInfoStats_miss_ok [OF miss(3) ok(3)] by (simp add: example_world_def example_page_def)
  note fresh = cache_round_trip
        [where w = example_world and pg = example_page and tag = "Some ''ABC''" and status = 200
           and d = example_team and scores = example_scores and v = "example_later 1199999"
           and pg' = example_page and tag' = "Some ''ABC''"]
  note stale = cache_round_trip
        [where w = example_world and pg = example_page and tag = "Some ''ABC''" and status = 200
           and d = example_team and scores = example_scores and v = "example_later 1200000"
           and pg' = example_page and tag' = "Some ''ABC''"]
  note team = fresh [THEN conjunct1, THEN mp, OF conjI [OF miss(1) ok(1)]]
  note season = fresh [THEN conjunct2, THEN conjunct1, THEN mp, OF conjI [OF miss(2) ok(2)]]
  note weekly = fresh [THEN conjunct2, THEN conjunct2, THEN mp, OF conjI [OF miss(3) ok(3)]]
  note team' = stale [THEN conjunct1, THEN mp, OF conjI [OF miss(1) ok(1)]]
  have written: "teamStats (localStorage (snd (fetchTeamStats example_page (Some ''ABC'') example_world))) =
     Some (JSON \<lparr>payload = example_team, timestamp = Finite 1700000000150\<rparr>)"
    using team [THEN conjunct2, THEN conjunct1] by (simp add: t)
  have "teamStats (localStorage (example_later 1199999)) =
      teamStats (localStorage (snd (fetchTeamStats example_page (Some ''ABC'') example_world)))"
    by (simp only: t) (simp add: example_later_def example_world_def)
  from team [THEN conjunct2, THEN conjunct2, THEN mp, OF this, THEN conjunct1]
  have read_team: "fetchTeamStats example_page (Some ''ABC'') (example_later 1199999) =
     (Inr example_team, example_later 1199999)"
    by (simp only: t) (simp add: example_later_def example_world_def)
  have "seasonLeaderboardInfo (localStorage (example_later 1199999)) =
      seasonLeaderboardInfo (localStorage (snd (getSeasonLeaderBoardInfoStats example_page example_world)))"
    by (simp only: s) (simp add: example_later_def example_world_def)
  from season [THEN conjunct2, THEN conjunct2, THEN mp, OF this, THEN conjunct1]
  have read_season: "getSeasonLeaderBoardInfoStats example_page (example_later 1199999) =
     (Inr example_scores, example_later 1199999)"
    by (simp only: s) (simp add: example_later_def example_world_def)
  have "weeklyLeaderboardInfo (localStorage (example_later 1199999)) =
      weeklyLeaderboardInfo (localStorage (snd (getWeeklyLeaderBoardInfoStats example_page example_world)))"
    by (simp only: k) (simp add: example_later_def example_world_def)
  from weekly [THEN conjunct2, THEN conjunct2, THEN mp, OF this, THEN conjunct1]
  have read_weekly: "getWeeklyLeaderBoardInfoStats example_page (example_later 1199999) =
     (Inr example_scores, example_later 1199999)"
    by (simp only: k) (simp add: example_later_def example_world_def)
  have "teamStats (localStorage (example_later 1200000)) =
      teamStats (localStorage (snd (fetchTeamStats example_page (Some ''ABC'') example_world)))"
    by (simp only: t) (simp add: example_later_def example_world_def)
  from team' [THEN conjunct2, THEN conjunct2, THEN mp, OF this, THEN conjunct2]
  have read_stale: "requests (snd (fetchTeamStats example_page (Some ''ABC'') (example_later 1200000))) =
     [''https://www.nitrotype.com/api/v2/teams/ABC'']"
    by (simp only: t) (simp add: example_later_def example_world_def)
  from written read_team read_season read_weekly read_stale show ?thesis
    by (intro conjI)
qed

section \<open>Malformed cache entries\<close>

text \<open>
  Claim C4, as the script behaves. \<open>JSON.parse\<close> of the stored string is inside the
  \<open>try\<close> block of each operation, and the \<open>catch\<close> block logs the error and throws it
  again. When the entry under the key of an operation is not JSON, the operation fails
  with the \<open>SyntaxError\<close>: one console line is written, no request is sent and the store
  is left as it is. An absent entry, in contrast, leads to the request.
\<close>

theorem malformed_cache_entry_is_rethrown:
  "(teamStats (localStorage w) = Some NotJSON \<longrightarrow>
      fetchTeamStats pg tag w =
        (Inl SyntaxError,
         w\<lparr>console := console w @ [(''Error fetching team stats'', Some SyntaxError)]\<rparr>)) \<and>
   (seasonLeaderboardInfo (localStorage w) = Some NotJSON \<longrightarrow>
      getSeasonLeaderBoardInfoStats pg w =
        (Inl SyntaxError,
         w\<lparr>console := console w @ [(''Error fetching season leaderboard'', Some SyntaxError)]\<rparr>)) \<and>
   (weeklyLeaderboardInfo (localStorage w) = Some NotJSON \<longrightarrow>
      getWeeklyLeaderBoardInfoStats pg w =
        (Inl SyntaxError,
         w\<lparr>console := console w @ [(''Error fetching season leaderboard'', Some SyntaxError)]\<rparr>)) \<and>
   (teamStats (localStorage w) = None \<longrightarrow>
      requests (snd (fetchTeamStats pg tag w)) =
        requests w @ [''https://www.nitrotype.com/api/v2/teams/'' @ template tag]) \<and>
   (seasonLeaderboardInfo (localStorage w) = None \<longrightarrow>
      requests (snd (getSeasonLeaderBoardInfoStats pg w)) =
        requests w @ [''https://www.nitrotype.com/api/v2/leaderboards?time=season'']) \<and>
   (weeklyLeaderboardInfo (localStorage w) = None \<longrightarrow>
      requests (snd (getWeeklyLeaderBoardInfoStats pg w)) =
        requests w @ [''https://www.nitrotype.com/api/v2/leaderboards?time=weekly''])"
proof (intro conjI impI)
  show "fetchTeamStats pg tag w =
        (Inl SyntaxError,
         w\<lparr>console := console w @ [(''Error fetching team stats'', Some SyntaxError)]\<rparr>)"
    if "teamStats (localStorage w) = Some NotJSON"
    using that by (rule fetchTeamStats_malformed)
  show "getSeasonLeaderBoardInfoStats pg w =
        (Inl SyntaxError,
         w\<lparr>console := console w @ [(''Error fetching season leaderboard'', Some SyntaxError)]\<rparr>)"
    if "seasonLeaderboardInfo (localStorage w) = Some NotJSON"
    using that by (rule getSeasonLeaderBoardInfoStats_malformed)
  show "getWeeklyLeaderBoardInfoStats pg w =
        (Inl SyntaxError,
         w\<lparr>console := console w @ [(''Error fetching season leaderboard'', Some SyntaxError)]\<rparr>)"
    if "weeklyLeaderboardInfo (localStorage w) = Some NotJSON"
    using that by (rule getWeeklyLeaderBoardInfoStats_malformed)
  show "requests (snd (fetchTeamStats pg tag w)) =
        requests w @ [''https://www.nitrotype.com/api/v2/teams/'' @ template tag]"
    if "teamStats (localStorage w) = None"
    using that by (intro fetchTeamStats_miss_requests) simp
  show "requests (snd (getSeasonLeaderBoardInfoStats pg w)) =
        requests w @ [''https://www.nitrotype.com/api/v2/leaderboards?time=season'']"
    if "seasonLeaderboardInfo (localStorage w) = None"
    using that by (intro getSeasonLeaderBoardInfoStats_miss_requests) simp
  show "requests (snd (getWeeklyLeaderBoardInfoStats pg w)) =
        requests w @ [''https://www.nitrotype.com/api/v2/leaderboards?time=weekly'']"
    if "weeklyLeaderboardInfo (localStorage w) = None"
    using that by (intro getWeeklyLeaderBoardInfoStats_miss_requests) simp
qed

text \<open>
  The theorem on the example store, with all three entries malformed and with none.
\<close>

theorem malformed_cache_entry_is_rethrown_witness:
  "getWeeklyLeaderBoardInfoStats example_page
     (example_world
        \<lparr>localStorage :=
           \<lparr>teamStats = Some NotJSON, seasonLeaderboardInfo = Some NotJSON,
            weeklyLeaderboardInfo = Some NotJSON, persist_nt = None\<rparr>\<rparr>) =
     (Inl SyntaxError,
      example_world
        \<lparr>localStorage :=
           \<lparr>teamStats = Some NotJSON, seasonLeaderboardInfo = Some NotJSON,
            weeklyLeaderboardInfo = Some NotJSON, persist_nt = None\<rparr>,
         console := [(''Error fetching season leaderboard'', Some SyntaxError)]\<rparr>) \<and>
   requests (snd (getWeeklyLeaderBoardInfoStats example_page example_world)) =
     [''https://www.nitrotype.com/api/v2/leaderboards?time=weekly'']"
proof -
  note bad = malformed_cache_entry_is_rethrown
    [where w = "example_world
        \<lparr>localStorage :=
           \<lparr>teamStats = Some NotJSON, seasonLeaderboardInfo = Some NotJSON,
            weeklyLeaderboardInfo = Some NotJSON, persist_nt = None\<rparr>\<rparr>"
       and pg = example_page and tag = "Some ''ABC''"]
  note absent = malformed_cache_entry_is_rethrown
    [where w = example_world and pg = example_page and tag = "Some ''ABC''"]
  from bad have a: "getWeeklyLeaderBoardInfoStats example_page
     (example_world
        \<lparr>localStorage :=
           \<lparr>teamStats = Some NotJSON, seasonLeaderboardInfo = Some NotJSON,
            weeklyLeaderboardInfo = Some NotJSON, persist_nt = None\<rparr>\<rparr>) =
     (Inl SyntaxError,
      example_world
        \<lparr>localStorage :=
           \<lparr>teamStats = Some NotJSON, seasonLeaderboardInfo = Some NotJSON,
            weeklyLeaderboardInfo = Some NotJSON, persist_nt = None\<rparr>,
         console := [(''Error fetching season leaderboard'', Some SyntaxError)]\<rparr>)"
    by (simp add: example_world_def)
  from absent have b: "requests (snd (getWeeklyLeaderBoardInfoStats example_page example_world)) =
     [''https://www.nitrotype.com/api/v2/leaderboards?time=weekly'']"
    by (simp add: example_world_def)
  from a b show ?thesis
    by (rule conjI)
qed

text \<open>
  Claim C4 as it is written says that unparseable cached data never makes the operation
  throw and that the operation goes on to the network. On the example store with a
  malformed \<open>teamStats\<close> entry the operation throws and no request is made.
\<close>

theorem malformed_cache_entry_throws:
  "fetchTeamStats example_page (Some ''ABC'')
     (example_world\<lparr>localStorage := (localStorage example_world)\<lparr>teamStats := Some NotJSON\<rparr>\<rparr>) =
     (Inl SyntaxError,
      example_world
        \<lparr>localStorage := (localStorage example_world)\<lparr>teamStats := Some NotJSON\<rparr>,
         console := [(''Error fetching team stats'', Some SyntaxError)]\<rparr>) \<and>
   requests
     (snd (fetchTeamStats example_page (Some ''ABC'')
        (example_world\<lparr>localStorage := (localStorage example_world)\<lparr>teamStats := Some NotJSON\<rparr>\<rparr>))) =
     []"
  by (simp add: fetchTeamStats_def example_world_def)

section \<open>Responses that are not successful\<close>

lemma retrieveTeamStats_failed:
  assumes "fetchTeamStats pg tag w = (Inl e, w1)"
  shows "retrieveTeamStats pg tag w =
     (None, None, w1\<lparr>console := console w1 @ [(''Error retrieving team stats'', Some e)]\<rparr>)"
  using assms by (simp add: retrieveTeamStats_def)

lemma retrieveLeaderboards_weekly_failed:
  assumes "getWeeklyLeaderBoardInfoStats pg w = (Inl e, w1)"
  shows "retrieveLeaderboards pg w =
     (None, None,
      w1\<lparr>console := console w1 @ [(''Error retrieving leaderboard info'', Some e)]\<rparr>)"
  using assms by (simp add: retrieveLeaderboards_def)

lemma retrieveLeaderboards_season_failed:
  assumes "getWeeklyLeaderBoardInfoStats pg w = (Inr weekly, w1)"
    and "getSeasonLeaderBoardInfoStats pg w1 = (Inl e, w2)"
  shows "retrieveLeaderboards pg w =
     (Some (map projection weekly), None,
      w2\<lparr>console := console w2 @ [(''Error retrieving leaderboard info'', Some e)]\<rparr>)"
  using assms by (simp add: retrieveLeaderboards_def)


text \<open>
  Claim C5. Whenever an operation finds no fresh entry it sends exactly one request,
  whatever the answer. When the response is not successful the operation throws the
  \<open>Error\<close> that carries the status; the \<open>catch\<close> block of the operation logs it and
  throws it again, nothing is asked a second time, and the \<open>catch\<close> block of the entry
  point logs it and goes on: \<open>memberCount\<close> and \<open>seasonRaces\<close> stay \<open>undefined\<close> when
  the team request failed, both leaderboards stay \<open>undefined\<close> when the weekly request
  failed, and the season leaderboard alone when the season request failed.
\<close>

theorem failed_response_propagates_once:
  "(cached_payload (now w) (teamStats (localStorage w)) = Inr None \<longrightarrow>
      requests (snd (fetchTeamStats pg tag w)) =
        requests w @ [''https://www.nitrotype.com/api/v2/teams/'' @ template tag] \<and>
      (teams_api pg (template tag) = Response False status body \<longrightarrow>
         fetchTeamStats pg tag w =
           (Inl (Failed ''team stats'' status),
            w\<lparr>requests := requests w @ [''https://www.nitrotype.com/api/v2/teams/'' @ template tag],
              now := now w + int (latency pg),
              console := console w @
                [(''Error fetching team stats'', Some (Failed ''team stats'' status))]\<rparr>) \<and>
         retrieveTeamStats pg tag w =
           (None, None,
            w\<lparr>requests := requests w @ [''https://www.nitrotype.com/api/v2/teams/'' @ template tag],
              now := now w + int (latency pg),
              console := console w @
                [(''Error fetching team stats'', Some (Failed ''team stats'' status)),
                 (''Error retrieving team stats'', Some (Failed ''team stats'' status))]\<rparr>))) \<and>
   (cached_payload (now w) (weeklyLeaderboardInfo (localStorage w)) = Inr None \<longrightarrow>
      requests (snd (getWeeklyLeaderBoardInfoStats pg w)) =
        requests w @ [''https://www.nitrotype.com/api/v2/leaderboards?time=weekly''] \<and>
      (leaderboards_api pg ''weekly'' = Response False status scores \<longrightarrow>
         getWeeklyLeaderBoardInfoStats pg w =
           (Inl (Failed ''weekly leaderboard'' status),
            w\<lparr>requests := requests w @ [''https://www.nitrotype.com/api/v2/leaderboards?time=weekly''],
              now := now w + int (latency pg),
              console := console w @
                [(''Error fetching season leaderboard'',
                  Some (Failed ''weekly leaderboard'' status))]\<rparr>) \<and>
         retrieveLeaderboards pg w =
           (None, None,
            w\<lparr>requests := requests w @ [''https://www.nitrotype.com/api/v2/leaderboards?time=weekly''],
              now := now w + int (latency pg),
              console := console w @
                [(''Error fetching season leaderboard'',
                  Some (Failed ''weekly leaderboard'' status)),
                 (''Error retrieving leaderboard info'',
                  Some (Failed ''weekly leaderboard'' status))]\<rparr>))) \<and>
   (cached_payload (now w) (seasonLeaderboardInfo (localStorage w)) = Inr None \<longrightarrow>
      requests (snd (getSeasonLeaderBoardInfoStats pg w)) =
        requests w @ [''https://www.nitrotype.com/api/v2/leaderboards?time=season''] \<and>
      (leaderboards_api pg ''season'' = Response False status scores \<longrightarrow>
         getSeasonLeaderBoardInfoStats pg w =
           (Inl (Failed ''season leaderboard'' status),
            w\<lparr>requests := requests w @ [''https://www.nitrotype.com/api/v2/leaderboards?time=season''],
              now := now w + int (latency pg),
              console := console w @
                [(''Error fetching season leaderboard'',
                  Some (Failed ''season leaderboard'' status))]\<rparr>) \<and>
         (getWeeklyLeaderBoardInfoStats pg w0 = (Inr weekly, w) \<longrightarrow>
            retrieveLeaderboards pg w0 =
              (Some (map projection weekly), None,
               w\<lparr>requests := requests w @
                    [''https://www.nitrotype.com/api/v2/leaderboards?time=season''],
                 now := now w + int (latency pg),
                 console := console w @
                   [(''Error fetching season leaderboard'',
                     Some (Failed ''season leaderboard'' status)),
                    (''Error retrieving leaderboard info'',
                     Some (Failed ''season leaderboard'' status))]\<rparr>))))"
proof (intro conjI impI)
  assume miss: "cached_payload (now w) (teamStats (localStorage w)) = Inr None"
  show "requests (snd (fetchTeamStats pg tag w)) =
        requests w @ [''https://www.nitrotype.com/api/v2/teams/'' @ template tag]"
    using miss by (rule fetchTeamStats_miss_requests)
  assume "teams_api pg (template tag) = Response False status body"
  note failed = fetchTeamStats_miss_failed [OF miss this]
  show "fetchTeamStats pg tag w =
           (Inl (Failed ''team stats'' status),
            w\<lparr>requests := requests w @ [''https://www.nitrotype.com/api/v2/teams/'' @ template tag],
              now := now w + int (latency pg),
              console := console w @
                [(''Error fetching team stats'', Some (Failed ''team stats'' status))]\<rparr>)"
    by (rule failed)
  show "retrieveTeamStats pg tag w =
           (None, None,
            w\<lparr>requests := requests w @ [''https://www.nitrotype.com/api/v2/teams/'' @ template tag],
              now := now w + int (latency pg),
              console := console w @
                [(''Error fetching team stats'', Some (Failed ''team stats'' status)),
                 (''Error retrieving team stats'', Some (Failed ''team stats'' status))]\<rparr>)"
    by (simp add: retrieveTeamStats_failed [OF failed])
next
  assume miss: "cached_payload (now w) (weeklyLeaderboardInfo (localStorage w)) = Inr None"
  show "requests (snd (getWeeklyLeaderBoardInfoStats pg w)) =
        requests w @ [''https://www.nitrotype.com/api/v2/leaderboards?time=weekly'']"
    using miss by (rule getWeeklyLeaderBoardInfoStats_miss_requests)
  assume "leaderboards_api pg ''weekly'' = Response False status scores"
  note failed = getWeeklyLeaderBoardInfoStats_miss_failed [OF miss this]
  show "getWeeklyLeaderBoardInfoStats pg w =
           (Inl (Failed ''weekly leaderboard'' status),
            w\<lparr>requests := requests w @ [''https://www.nitrotype.com/api/v2/leaderboards?time=weekly''],
              now := now w + int (latency pg),
              console := console w @
                [(''Error fetching season leaderboard'',
                  Some (Failed ''weekly leaderboard'' status))]\<rparr>)"
    by (rule failed)
  show "retrieveLeaderboards pg w =
           (None, None,
            w\<lparr>requests := requests w @ [''https://www.nitrotype.com/api/v2/leaderboards?time=weekly''],
              now := now w + int (latency pg),
              console := console w @
                [(''Error fetching season leaderboard'',
                  Some (Failed ''weekly leaderboard'' status)),
                 (''Error retrieving leaderboard info'',
                  Some (Failed ''weekly leaderboard'' status))]\<rparr>)"
    by (simp add: retrieveLeaderboards_weekly_failed [OF failed])
next
  assume miss: "cached_payload (now w) (seasonLeaderboardInfo (localStorage w)) = Inr None"
  show "requests (snd (getSeasonLeaderBoardInfoStats pg w)) =
        requests w @ [''https://www.nitrotype.com/api/v2/leaderboards?time=season'']"
    using miss by (rule getSeasonLeaderBoardInfoStats_miss_requests)
  assume "leaderboards_api pg ''season'' = Response False status scores"
  note failed = getSeasonLeaderBoardInfoStats_miss_failed [OF miss this]
  show "getSeasonLeaderBoardInfoStats pg w =
           (Inl (Failed ''season leaderboard'' status),
            w\<lparr>requests := requests w @ [''https://www.nitrotype.com/api/v2/leaderboards?time=season''],
              now := now w + int (latency pg),
              console := console w @
                [(''Error fetching season leaderboard'',
                  Some (Failed ''season leaderboard'' status))]\<rparr>)"
    by (rule failed)
  assume "getWeeklyLeaderBoardInfoStats pg w0 = (Inr weekly, w)"
  then show "retrieveLeaderboards pg w0 =
              (Some (map projection weekly), None,
               w\<lparr>requests := requests w @
                    [''https://www.nitrotype.com/api/v2/leaderboards?time=season''],
                 now := now w + int (latency pg),
                 console := console w @
                   [(''Error fetching season leaderboard'',
                     Some (Failed ''season leaderboard'' status)),
                    (''Error retrieving leaderboard info'',
                     Some (Failed ''season leaderboard'' status))]\<rparr>)"
    by (simp add: retrieveLeaderboards_season_failed [OF _ failed])
qed

text \<open>
  The theorem on the example page, with the team resource answering 503, with the
  leaderboard resource answering 429, and with the leaderboard resource answering 500 for
  the season only.
\<close>

theorem failed_response_propagates_once_witness:
  "retrieveTeamStats (example_page\<lparr>teams_api := \<lambda>team_tag. Response False 503 None\<rparr>)
     (Some ''ABC'') example_world =
     (None, None,
      example_world
        \<lparr>requests := [''https://www.nitrotype.com/api/v2/teams/ABC''],
         now := 1700000000150,
         console :=
           [(''Error fetching team stats'', Some (Failed ''team stats'' 503)),
            (''Error retrieving team stats'', Some (Failed ''team stats'' 503))]\<rparr>) \<and>
   retrieveLeaderboards
     (example_page\<lparr>leaderboards_api := \<lambda>period. Response False 429 None\<rparr>) example_world =
     (None, None,
      example_world
        \<lparr>requests := [''https://www.nitrotype.com/api/v2/leaderboards?time=weekly''],
         now := 1700000000150,
         console :=
           [(''Error fetching season leaderboard'', Some (Failed ''weekly leaderboard'' 429)),
            (''Error retrieving leaderboard info'', Some (Failed ''weekly leaderboard'' 429))]\<rparr>) \<and>
   retrieveLeaderboards
     (example_page
        \<lparr>leaderboards_api := \<lambda>period.
           if period = ''season'' then Response False 500 None
           else Response True 200 (Some example_scores)\<rparr>) example_world =
     (Some (map projection example_scores), None,
      example_world
        \<lparr>requests :=
           [''https://www.nitrotype.com/api/v2/leaderboards?time=weekly'',
            ''https://www.nitrotype.com/api/v2/leaderboards?time=season''],
         now := 1700000000300,
         localStorage := (localStorage example_world)
           \<lparr>weeklyLeaderboardInfo :=
              Some (JSON \<lparr>payload = example_scores, timestamp = Finite 1700000000150\<rparr>)\<rparr>,
         console :=
           [(''Error fetching season leaderboard'', Some (Failed ''season leaderboard'' 500)),
            (''Error retrieving leaderboard info'', Some (Failed ''season leaderboard'' 500))]\<rparr>)"
proof -
  let ?pg = "example_page
        \<lparr>leaderboards_api := \<lambda>period.
           if period = ''season'' then Response False 500 None
           else Response True 200 (Some example_scores)\<rparr>"
  let ?w1 = "example_world
        \<lparr>requests := [''https://www.nitrotype.com/api/v2/leaderboards?time=weekly''],
         now := 1700000000150,
         localStorage := (localStorage example_world)
           \<lparr>weeklyLeaderboardInfo :=
              Some (JSON \<lparr>payload = example_scores, timestamp = Finite 1700000000150\<rparr>)\<rparr>\<rparr>"
  have miss: "cached_payload (now example_world) (teamStats (localStorage example_world)) = Inr None"
    "cached_payload (now example_world) (weeklyLeaderboardInfo (localStorage example_world)) = Inr None"
    by (simp_all add: example_world_def)
  have team: "teams_api (example_page\<lparr>teams_api := \<lambda>team_tag. Response False 503 None\<rparr>)
      (template (Some ''ABC'')) = Response False 503 None"
    by simp
  have weekly: "leaderboards_api (example_page\<lparr>leaderboards_api := \<lambda>period. Response False 429 None\<rparr>)
      ''weekly'' = Response False 429 None"
    by simp
  have miss1: "cached_payload (now ?w1) (seasonLeaderboardInfo (localStorage ?w1)) = Inr None"
    by (simp add: example_world_def)
  have season: "leaderboards_api ?pg ''season'' = Response False 500 None"
    by simp
  have first: "getWeeklyLeaderBoardInfoStats ?pg example_world = (Inr example_scores, ?w1)"
    by (simp add: getWeeklyLeaderBoardInfoStats_def request_def example_world_def example_page_def)
  note a = failed_response_propagates_once
    [where w = example_world and tag = "Some ''ABC''" and status = 503 and body = None
       and pg = "example_page\<lparr>teams_api := \<lambda>team_tag. Response False 503 None\<rparr>",
     THEN conjunct1, THEN mp, OF miss(1), THEN conjunct2, THEN mp, OF team, THEN conjunct2]
  note b = failed_response_propagates_once
    [where w = example_world and status = 429 and scores = None
       and pg = "example_page\<lparr>leaderboards_api := \<lambda>period. Response False 429 None\<rparr>",
     THEN conjunct2, THEN conjunct1, THEN mp, OF miss(2), THEN conjunct2, THEN mp, OF weekly,
     THEN conjunct2]
  note c = failed_response_propagates_once
    [where w = ?w1 and status = 500 and scores = None and pg = ?pg and ?w0.0 = example_world
       and weekly = example_scores,
     THEN conjunct2, THEN conjunct2, THEN mp, OF miss1, THEN conjunct2, THEN mp, OF season,
     THEN conjunct2, THEN mp, OF first]
  from a have a': "retrieveTeamStats (example_page\<lparr>teams_api := \<lambda>team_tag. Response False 503 None\<rparr>)
     (Some ''ABC'') example_world =
     (None, None,
      example_world
        \<lparr>requests := [''https://www.nitrotype.com/api/v2/teams/ABC''],
         now := 1700000000150,
         console :=
           [(''Error fetching team stats'', Some (Failed ''team stats'' 503)),
            (''Error retrieving team stats'', Some (Failed ''team stats'' 503))]\<rparr>)"
    by (simp add: example_world_def example_page_def)
  from b have b': "retrieveLeaderboards
     (example_page\<lparr>leaderboards_api := \<lambda>period. Response False 429 None\<rparr>) example_world =
     (None, None,
      example_world
        \<lparr>requests := [''https://www.nitrotype.com/api/v2/leaderboards?time=weekly''],
         now := 1700000000150,
         console :=
           [(''Error fetching season leaderboard'', Some (Failed ''weekly leaderboard'' 429)),
            (''Error retrieving leaderboard info'', Some (Failed ''weekly leaderboard'' 429))]\<rparr>)"
    by (simp add: example_world_def example_page_def)
  from c have c': "retrieveLeaderboards ?pg example_world =
     (Some (map projection example_scores), None,
      example_world
        \<lparr>requests :=
           [''https://www.nitrotype.com/api/v2/leaderboards?time=weekly'',
            ''https://www.nitrotype.com/api/v2/leaderboards?time=season''],
         now := 1700000000300,
         localStorage := (localStorage example_world)
           \<lparr>weeklyLeaderboardInfo :=
              Some (JSON \<lparr>payload = example_scores, timestamp = Finite 1700000000150\<rparr>)\<rparr>,
         console :=
           [(''Error fetching season leaderboard'', Some (Failed ''season leaderboard'' 500)),
            (''Error retrieving leaderboard info'', Some (Failed ''season leaderboard'' 500))]\<rparr>)"
    by (simp add: example_world_def example_page_def)
  from a' b' c' show ?thesis
    by (intro conjI)
qed

section \<open>The projection of the leaderboards\<close>




section \<open>Another team's page\<close>

text \<open>
  Claim C7. When the tag of the session differs from the fifth piece of the address, the
  entry point returns at once: the result world is the given one, so no request has been
  sent, nothing has been written to the store or to the console, and no widget has been
  inserted.
\<close>

theorem foreign_team_page_no_action:
  assumes "userTeamTAG (persist_nt (localStorage w)) = Inr user_tag"
    and "user_tag \<noteq> index (split CHR ''/'' (href pg)) 4"
  shows "main toLocaleString pg w = (Returned, w)"
  using assms by (simp add: main_def)

text \<open>
  The theorem on the example page of team ABC, visited by a member of team XYZ.
\<close>

theorem foreign_team_page_no_action_witness:
  "main (\<lambda>n. ''?'') example_page
     (example_world\<lparr>localStorage :=
        (localStorage example_world)\<lparr>persist_nt := Some (JSON (JSON (Some ''XYZ'')))\<rparr>\<rparr>) =
     (Returned,
      example_world\<lparr>localStorage :=
        (localStorage example_world)\<lparr>persist_nt := Some (JSON (JSON (Some ''XYZ'')))\<rparr>\<rparr>)"
proof -
  have tag: "userTeamTAG (persist_nt (localStorage
      (example_world\<lparr>localStorage :=
        (localStorage example_world)\<lparr>persist_nt := Some (JSON (JSON (Some ''XYZ'')))\<rparr>\<rparr>))) =
      Inr (Some ''XYZ'')"
    by simp
  have differs: "Some ''XYZ'' \<noteq> index (split CHR ''/'' (href example_page)) 4"
    by (simp add: example_page_def index_def)
  show ?thesis
    using tag differs by (rule foreign_team_page_no_action)
qed

section \<open>Leaderboards of fewer than 100 entries\<close>

lemma retrieveTeamStats_document:
  "document (snd (snd (retrieveTeamStats pg tag w))) = document w"
proof (cases "fetchTeamStats pg tag w")
  case (Pair r w1)
  then have "document w1 = document w"
    using fetchTeamStats_document [of pg tag w] by simp
  then show ?thesis
    using Pair by (cases r) (simp_all add: retrieveTeamStats_def)
qed

lemma retrieveLeaderboards_document:
  "document (snd (snd (retrieveLeaderboards pg w))) = document w"
proof (cases "getWeeklyLeaderBoardInfoStats pg w")
  case weekly: (Pair r w1)
  then have d1: "document w1 = document w"
    using getWeeklyLeaderBoardInfoStats_document [of pg w] by simp
  show ?thesis
  proof (cases r)
    case (Inl e)
    then show ?thesis
      using weekly d1 by (simp add: retrieveLeaderboards_def)
  next
    case (Inr scores)
    show ?thesis
    proof (cases "getSeasonLeaderBoardInfoStats pg w1")
      case season: (Pair r2 w2)
      then have "document w2 = document w1"
        using getSeasonLeaderBoardInfoStats_document [of pg w1] by simp
      then show ?thesis
        using weekly season Inr d1 by (cases r2) (simp_all add: retrieveLeaderboards_def)
    qed
  qed
qed

lemma topInfo_top100_absent:
  assumes "length xs < 100"
  shows "\<exists>info. topInfo (Some xs) = Inr info \<and> (''top100'', None) \<in> set info \<and>
           assignDaily f info = Inl TypeError"
  using assms by (simp add: topInfo_def index_def assignDaily_eq image_iff)

lemma topRequirements_completes_iff:
  "(\<exists>r. topRequirements (Some weekly) (Some season) mc sr = Inr r) =
     (100 \<le> length weekly \<and> 100 \<le> length season)"
proof -
  have "(\<exists>r. topRequirements (Some weekly) (Some season) mc sr = Inr r) =
      (topRequirements (Some weekly) (Some season) mc sr \<noteq> Inl TypeError)"
    using topRequirements_errors [of "Some weekly" "Some season" mc sr]
    by (cases "topRequirements (Some weekly) (Some season) mc sr") auto
  then show ?thesis
    by (simp only: topRequirements_throws_iff) auto
qed

text \<open>
  Claim C10. The calculation on two arrays throws a \<open>TypeError\<close> exactly when one of
  them has fewer than 100 entries, and completes exactly when both have at least 100: in
  an array of fewer than 100 entries \<open>top100\<close> is \<open>undefined\<close>, and the loop throws when
  it reads \<open>played\<close> of it. In the entry point the error is not caught: the function
  rejects before the widget is built, and the document is as it was.
\<close>

theorem short_leaderboard_aborts:
  "((topRequirements (Some weekly) (Some season) members_count season_races = Inl TypeError) =
      (length weekly < 100 \<or> length season < 100)) \<and>
   ((\<exists>r. topRequirements (Some weekly) (Some season) members_count season_races = Inr r) =
      (100 \<le> length weekly \<and> 100 \<le> length season)) \<and>
   (length xs < 100 \<longrightarrow>
      (\<exists>info. topInfo (Some xs) = Inr info \<and> (''top100'', None) \<in> set info \<and>
         assignDaily f info = Inl TypeError)) \<and>
   (userTeamTAG (persist_nt (localStorage w)) = Inr (index (split CHR ''/'' (href pg)) 4) \<and>
    retrieveTeamStats pg (index (split CHR ''/'' (href pg)) 4) w =
      (members_count, season_races, w1) \<and>
    retrieveLeaderboards pg w1 = (Some weekly, Some season, w2) \<and>
    (length weekly < 100 \<or> length season < 100) \<longrightarrow>
      main toLocaleString pg w = (Rejected TypeError, w2) \<and> document w2 = document w)"
proof (intro conjI impI; (elim conjE)?)
  show "(topRequirements (Some weekly) (Some season) members_count season_races = Inl TypeError) =
      (length weekly < 100 \<or> length season < 100)"
    by (rule topRequirements_throws_iff)
  show "(\<exists>r. topRequirements (Some weekly) (Some season) members_count season_races = Inr r) =
      (100 \<le> length weekly \<and> 100 \<le> length season)"
    by (rule topRequirements_completes_iff)
  show "\<exists>info. topInfo (Some xs) = Inr info \<and> (''top100'', None) \<in> set info \<and>
         assignDaily f info = Inl TypeError"
    if "length xs < 100"
    using that by (rule topInfo_top100_absent)
next
  assume guard: "userTeamTAG (persist_nt (localStorage w)) = Inr (index (split CHR ''/'' (href pg)) 4)"
    and team: "retrieveTeamStats pg (index (split CHR ''/'' (href pg)) 4) w =
      (members_count, season_races, w1)"
    and boards: "retrieveLeaderboards pg w1 = (Some weekly, Some season, w2)"
    and short: "length weekly < 100 \<or> length season < 100"
  have "topRequirements (Some weekly) (Some season) members_count season_races = Inl TypeError"
    using short by (simp only: topRequirements_throws_iff)
  then show "main toLocaleString pg w = (Rejected TypeError, w2)"
    using guard team boards by (simp add: main_def)
  have "document w1 = document w"
    using retrieveTeamStats_document [of pg "index (split CHR ''/'' (href pg)) 4" w] team by simp
  moreover have "document w2 = document w1"
    using retrieveLeaderboards_document [of pg w1] boards by simp
  ultimately show "document w2 = document w"
    by simp
qed

text \<open>
  The theorem on the example page with a season leaderboard of 99 entries: the three
  requests are made and cached, and the entry point rejects.
\<close>

theorem short_leaderboard_aborts_witness:
  "main (\<lambda>n. ''?'')
     (example_page
        \<lparr>leaderboards_api := \<lambda>period.
           Response True 200
             (Some (if period = ''season'' then take 99 example_scores else example_scores))\<rparr>)
     example_world =
     (Rejected TypeError,
      example_world
        \<lparr>requests :=
           [''https://www.nitrotype.com/api/v2/teams/ABC'',
            ''https://www.nitrotype.com/api/v2/leaderboards?time=weekly'',
            ''https://www.nitrotype.com/api/v2/leaderboards?time=season''],
         now := 1700000000450,
         localStorage := (localStorage example_world)
           \<lparr>teamStats :=
              Some (JSON \<lparr>payload = example_team, timestamp = Finite 1700000000150\<rparr>),
            weeklyLeaderboardInfo :=
              Some (JSON \<lparr>payload = example_scores, timestamp = Finite 1700000000300\<rparr>),
            seasonLeaderboardInfo :=
              Some (JSON \<lparr>payload = take 99 example_scores,
                          timestamp = Finite 1700000000450\<rparr>)\<rparr>\<rparr>)"
proof -
  let ?pg = "example_page
        \<lparr>leaderboards_api := \<lambda>period.
           Response True 200
             (Some (if period = ''season'' then take 99 example_scores else example_scores))\<rparr>"
  let ?w1 = "example_world
        \<lparr>requests := [''https://www.nitrotype.com/api/v2/teams/ABC''],
         now := 1700000000150,
         localStorage := (localStorage example_world)
           \<lparr>teamStats :=
              Some (JSON \<lparr>payload = example_team, timestamp = Finite 1700000000150\<rparr>)\<rparr>\<rparr>"
  let ?w2 = "example_world
        \<lparr>requests :=
           [''https://www.nitrotype.com/api/v2/teams/ABC'',
            ''https://www.nitrotype.com/api/v2/leaderboards?time=weekly'',
            ''https://www.nitrotype.com/api/v2/leaderboards?time=season''],
         now := 1700000000450,
         localStorage := (localStorage example_world)
           \<lparr>teamStats :=
              Some (JSON \<lparr>payload = example_team, timestamp = Finite 1700000000150\<rparr>),
            weeklyLeaderboardInfo :=
              Some (JSON \<lparr>payload = example_scores, timestamp = Finite 1700000000300\<rparr>),
            seasonLeaderboardInfo :=
              Some (JSON \<lparr>payload = take 99 example_scores,
                          timestamp = Finite 1700000000450\<rparr>)\<rparr>\<rparr>"
  have tag: "index (split CHR ''/'' (href ?pg)) 4 = Some ''ABC''"
    by (simp add: example_page_def index_def)
  have guard: "userTeamTAG (persist_nt (localStorage example_world)) =
      Inr (index (split CHR ''/'' (href ?pg)) 4)"
    unfolding tag by (simp add: example_world_def)
  have team: "retrieveTeamStats ?pg (index (split CHR ''/'' (href ?pg)) 4) example_world =
      (Some (Finite 10), Some (Finite 3000), ?w1)"
    unfolding tag
    by (simp add: retrieveTeamStats_def fetchTeamStats_def request_def example_world_def
          example_page_def example_team_def)
  have boards: "retrieveLeaderboards ?pg ?w1 =
      (Some (map projection example_scores), Some (map projection (take 99 example_scores)), ?w2)"
    by (simp add: retrieveLeaderboards_def getWeeklyLeaderBoardInfoStats_def
          getSeasonLeaderBoardInfoStats_def request_def example_world_def example_page_def)
  have short: "length (map projection example_scores) < 100 \<or>
      length (map projection (take 99 example_scores)) < 100"
    by (simp add: example_scores_def)
  from short_leaderboard_aborts
    [where w = example_world and pg = ?pg and ?w1.0 = ?w1 and ?w2.0 = ?w2
       and weekly = "map projection example_scores"
       and season = "map projection (take 99 example_scores)"
       and members_count = "Some (Finite 10)" and season_races = "Some (Finite 3000)"
       and toLocaleString = "\<lambda>n. ''?''",
     THEN conjunct2, THEN conjunct2, THEN conjunct2, THEN mp,
     OF conjI [OF guard conjI [OF team conjI [OF boards short]]]]
  show ?thesis
    by (rule conjunct1)
qed

section \<open>The mode toggle\<close>

lemma toggle_active:
  assumes "active cs"
  shows "inactive (toggle ''link--i'' (toggle ''link--h'' cs))"
  using assms by (simp add: active_def inactive_def toggle_def)

lemma toggle_inactive:
  assumes "inactive cs"
  shows "active (toggle ''link--i'' (toggle ''link--h'' cs))"
  using assms by (simp add: active_def inactive_def toggle_def)

lemma click_button:
  "button c (click toLocaleString sc m wd) =
     toggle ''link--i'' (toggle ''link--h'' (button c wd))"
  by (cases m; cases c) (simp_all add: clickWeekly_def clickSeason_def)

lemma click_tableBody:
  "tableBody (click toLocaleString sc m wd) =
     (case tableBody wd of
        None \<Rightarrow> None
      | Some old \<Rightarrow> Some (createTopTeamRequirementsTableBody toLocaleString (topInfoOf sc m)))"
  by (cases m) (simp_all add: clickWeekly_def clickSeason_def split: option.splits)

lemma inserted_state:
  "active (button Weekly (inserted toLocaleString sc))"
  "inactive (button Season (inserted toLocaleString sc))"
  "tableBody (inserted toLocaleString sc) =
     Some (createTopTeamRequirementsTableBody toLocaleString (topInfoOf sc Weekly))"
  by (simp_all add: inserted_def createTopTeamRequirementsWidget_def active_def inactive_def)

lemma shown_inserted: "shown toLocaleString sc (inserted toLocaleString sc)"
  using inserted_state [of toLocaleString sc] by (simp add: shown_def)

lemma shown_click:
  assumes "shown toLocaleString sc wd"
  shows "shown toLocaleString sc (click toLocaleString sc m wd)"
proof -
  have b: "button c (click toLocaleString sc m wd) =
      toggle ''link--i'' (toggle ''link--h'' (button c wd))" for c
    by (rule click_button)
  have body: "tableBody (click toLocaleString sc m wd) =
      Some (createTopTeamRequirementsTableBody toLocaleString (topInfoOf sc m))"
    using assms by (auto simp add: click_tableBody shown_def)
  show ?thesis
    using assms b [of Weekly] b [of Season] body
    by (cases m) (auto simp add: shown_def toggle_active toggle_inactive)
qed

lemma shown_clicks:
  assumes "shown toLocaleString sc wd"
  shows "shown toLocaleString sc (clicks toLocaleString sc ms wd)"
  using assms by (induction ms arbitrary: wd) (simp_all add: shown_click)

lemma example_rows:
  "createTopTeamRequirementsTableBody example_toLocaleString (weeklyTopInfo example_scope) =
     [\<lparr>place = ''1'', races = ''700'', experience = ''50,000'', daily = ''10''\<rparr>]"
  "createTopTeamRequirementsTableBody example_toLocaleString (seasonTopInfo example_scope) =
     [\<lparr>place = ''1'', races = ''5,000'', experience = ''900,000'', daily = ''200''\<rparr>]"
  by (simp_all add: createTopTeamRequirementsTableBody_def example_scope_def
        example_toLocaleString_def)

text \<open>
  Claim C8. Whatever mode the table body shows, a click on the control of the other mode
  replaces the body by the rendering of that mode, and a click back gives a body equal to
  the original one. When the control of the shown mode looks active and the other one
  does not, the first click swaps the look of both controls and the second click swaps it
  back. The inserted widget shows the weekly mode with the weekly control active, and
  after any run of clicks the body is the rendering of one of the two modes.
\<close>

theorem toggle_round_trip:
  "(tableBody wd = Some (createTopTeamRequirementsTableBody toLocaleString (topInfoOf sc m)) \<longrightarrow>
      tableBody (click toLocaleString sc (other m) wd) =
        Some (createTopTeamRequirementsTableBody toLocaleString (topInfoOf sc (other m))) \<and>
      tableBody (click toLocaleString sc m (click toLocaleString sc (other m) wd)) =
        tableBody wd) \<and>
   (active (button m wd) \<and> inactive (button (other m) wd) \<longrightarrow>
      active (button (other m) (click toLocaleString sc (other m) wd)) \<and>
      inactive (button m (click toLocaleString sc (other m) wd)) \<and>
      active (button m (click toLocaleString sc m (click toLocaleString sc (other m) wd))) \<and>
      inactive
        (button (other m) (click toLocaleString sc m (click toLocaleString sc (other m) wd)))) \<and>
   tableBody (inserted toLocaleString sc) =
     Some (createTopTeamRequirementsTableBody toLocaleString (topInfoOf sc Weekly)) \<and>
   active (button Weekly (inserted toLocaleString sc)) \<and>
   inactive (button Season (inserted toLocaleString sc)) \<and>
   (\<exists>shown_mode.
      tableBody (clicks toLocaleString sc ms (inserted toLocaleString sc)) =
        Some (createTopTeamRequirementsTableBody toLocaleString (topInfoOf sc shown_mode)))"
proof (intro conjI impI; (elim conjE)?)
  assume body: "tableBody wd =
      Some (createTopTeamRequirementsTableBody toLocaleString (topInfoOf sc m))"
  show "tableBody (click toLocaleString sc (other m) wd) =
        Some (createTopTeamRequirementsTableBody toLocaleString (topInfoOf sc (other m)))"
    by (simp add: click_tableBody body)
  show "tableBody (click toLocaleString sc m (click toLocaleString sc (other m) wd)) =
        tableBody wd"
    by (simp add: click_tableBody body)
next
  assume a: "active (button m wd)" and i: "inactive (button (other m) wd)"
  show "active (button (other m) (click toLocaleString sc (other m) wd))"
    by (simp only: click_button toggle_inactive [OF i])
  show "inactive (button m (click toLocaleString sc (other m) wd))"
    by (simp only: click_button toggle_active [OF a])
  show "active (button m (click toLocaleString sc m (click toLocaleString sc (other m) wd)))"
    by (simp only: click_button toggle_inactive [OF toggle_active [OF a]])
  show "inactive
        (button (other m) (click toLocaleString sc m (click toLocaleString sc (other m) wd)))"
    by (simp only: click_button toggle_active [OF toggle_inactive [OF i]])
next
  show "tableBody (inserted toLocaleString sc) =
     Some (createTopTeamRequirementsTableBody toLocaleString (topInfoOf sc Weekly))"
    by (rule inserted_state)
  show "active (button Weekly (inserted toLocaleString sc))"
    by (rule inserted_state)
  show "inactive (button Season (inserted toLocaleString sc))"
    by (rule inserted_state)
  have "shown toLocaleString sc (clicks toLocaleString sc ms (inserted toLocaleString sc))"
    using shown_inserted by (rule shown_clicks)
  then have "tableBody (clicks toLocaleString sc ms (inserted toLocaleString sc)) =
        Some (createTopTeamRequirementsTableBody toLocaleString (topInfoOf sc Weekly)) \<or>
      tableBody (clicks toLocaleString sc ms (inserted toLocaleString sc)) =
        Some (createTopTeamRequirementsTableBody toLocaleString (topInfoOf sc Season))"
    by (simp add: shown_def)
  then show "\<exists>shown_mode.
      tableBody (clicks toLocaleString sc ms (inserted toLocaleString sc)) =
        Some (createTopTeamRequirementsTableBody toLocaleString (topInfoOf sc shown_mode))"
    by blast
qed

text \<open>
  The theorem on the example scope: season and back to weekly.
\<close>

theorem toggle_round_trip_witness:
  "tableBody (inserted example_toLocaleString example_scope) =
     Some [\<lparr>place = ''1'', races = ''700'', experience = ''50,000'', daily = ''10''\<rparr>] \<and>
   tableBody (clickSeason example_toLocaleString example_scope
                (inserted example_toLocaleString example_scope)) =
     Some [\<lparr>place = ''1'', races = ''5,000'', experience = ''900,000'', daily = ''200''\<rparr>] \<and>
   tableBody (clickWeekly example_toLocaleString example_scope
                (clickSeason example_toLocaleString example_scope
                   (inserted example_toLocaleString example_scope))) =
     Some [\<lparr>place = ''1'', races = ''700'', experience = ''50,000'', daily = ''10''\<rparr>] \<and>
   active (seasonButton (clickSeason example_toLocaleString example_scope
                           (inserted example_toLocaleString example_scope))) \<and>
   active (weeklyButton (clickWeekly example_toLocaleString example_scope
                (clickSeason example_toLocaleString example_scope
                   (inserted example_toLocaleString example_scope))))"
proof -
  note rt = toggle_round_trip
    [where wd = "inserted example_toLocaleString example_scope" and m = Weekly
       and sc = example_scope and toLocaleString = example_toLocaleString and ms = "[]"]
  have body: "tableBody (inserted example_toLocaleString example_scope) =
      Some (createTopTeamRequirementsTableBody example_toLocaleString
              (topInfoOf example_scope Weekly))"
    by (rule inserted_state)
  have look: "active (button Weekly (inserted example_toLocaleString example_scope)) \<and>
      inactive (button (other Weekly) (inserted example_toLocaleString example_scope))"
    using inserted_state [of example_toLocaleString example_scope] by simp
  from rt [THEN conjunct1, THEN mp, OF body] rt [THEN conjunct2, THEN conjunct1, THEN mp, OF look]
    body
  show ?thesis
    by (simp add: example_rows)
qed



end
